theory Spec2Isabelle
  imports Main "HOL-Library.Word"
begin

section \<open>The boot loader of corruptKernel (src/bootloader/main.c)\<close>

text \<open>
  The loader is one C file that runs on UEFI firmware. Its own functions (\<open>LoadFile\<close>,
  \<open>LoadPSF1Font\<close>, \<open>memcmp\<close>, \<open>InitializeGOP\<close>, \<open>efi_main\<close>) are embedded below as
  functions that pass the state of the machine explicitly. The firmware services they call
  are not part of the repository; they are modelled here by their effect on that state, as
  the UEFI specification describes them, and every call is appended to a log so that the
  order of the loader's requests can be stated.
\<close>

subsection \<open>Machine words and memory\<close>

type_synonym byte = "8 word"
type_synonym addr = "64 word"
type_synonym UINTN = "64 word"
type_synonym EFI_STATUS = "64 word"

text \<open>Status codes of the 64-bit UEFI ABI (\<open>efierr.h\<close>): an error has the top bit set.\<close>

definition EFI_SUCCESS :: EFI_STATUS where
  "EFI_SUCCESS = 0"

definition EFI_LOAD_ERROR :: EFI_STATUS where
  "EFI_LOAD_ERROR = 0x8000000000000001"

definition EFI_NOT_FOUND :: EFI_STATUS where
  "EFI_NOT_FOUND = 0x800000000000000E"

definition EFI_OUT_OF_RESOURCES :: EFI_STATUS where
  "EFI_OUT_OF_RESOURCES = 0x8000000000000009"

definition EFI_ERROR :: "EFI_STATUS \<Rightarrow> bool" where
  "EFI_ERROR s = bit s 63"

text \<open>Memory is byte addressed; a buffer is written and read byte by byte, the address
  wrapping at \<open>2 ^ 64\<close> as the machine's does.\<close>

fun store_bytes :: "(addr \<Rightarrow> byte) \<Rightarrow> addr \<Rightarrow> byte list \<Rightarrow> (addr \<Rightarrow> byte)" where
  "store_bytes m a [] = m"
| "store_bytes m a (b # bs) = store_bytes (m(a := b)) (a + 1) bs"

fun load_bytes :: "(addr \<Rightarrow> byte) \<Rightarrow> addr \<Rightarrow> nat \<Rightarrow> byte list" where
  "load_bytes m a 0 = []"
| "load_bytes m a (Suc n) = m a # load_bytes m (a + 1) n"

text \<open>Little-endian decoding (the target is x86-64).\<close>

fun le_nat :: "byte list \<Rightarrow> nat" where
  "le_nat [] = 0"
| "le_nat (b # bs) = unat b + 256 * le_nat bs"

definition le16 :: "byte list \<Rightarrow> nat \<Rightarrow> 16 word" where
  "le16 bs off = of_nat (le_nat (take 2 (drop off bs)))"

definition le32 :: "byte list \<Rightarrow> nat \<Rightarrow> 32 word" where
  "le32 bs off = of_nat (le_nat (take 4 (drop off bs)))"

definition le64 :: "byte list \<Rightarrow> nat \<Rightarrow> 64 word" where
  "le64 bs off = of_nat (le_nat (take 8 (drop off bs)))"

subsection \<open>The firmware, as the loader sees it\<close>

text \<open>The structures of lines 10-16 and 94-97 (the field \<open>size\<close> of the C structure is
  \<open>fb_size\<close> here: \<open>size\<close> is a constant of HOL).\<close>

record Framebuffer =
  base :: addr
  fb_size :: UINTN
  width :: "32 word"
  height :: "32 word"
  pps :: "32 word"

record PSF1_FONT =
  psf1_Header :: addr
  glyphBuffer :: addr

text \<open>The boot volume maps a path (the names from the root down) to what is there.\<close>

datatype node = RegularFile "byte list" | DirectoryNode

record open_file =
  of_path :: "string list"
  of_pos :: nat

text \<open>An \<open>EFI_FILE*\<close> is the index of an entry in the firmware's table of open files;
  a C pointer that may be \<open>NULL\<close> is an \<open>option\<close>, \<open>NULL\<close> being \<open>None\<close>.\<close>

type_synonym EFI_FILE = nat

text \<open>The allocation and memory types of \<open>efidef.h\<close> that the loader names, and the
  open mode and attribute bits of \<open>efiprot.h\<close>.\<close>

datatype EFI_ALLOCATE_TYPE = AllocateAnyPages | AllocateMaxAddress | AllocateAddress

datatype EFI_MEMORY_TYPE = EfiLoaderCode | EfiLoaderData

definition EFI_FILE_MODE_READ :: "64 word" where
  "EFI_FILE_MODE_READ = 1"

definition EFI_FILE_READ_ONLY :: "64 word" where
  "EFI_FILE_READ_ONLY = 1"

text \<open>The mode of the graphics output protocol, as far as the loader reads it.\<close>

record GOP_MODE =
  FrameBufferBase :: addr
  FrameBufferSize :: UINTN
  HorizontalResolution :: "32 word"
  VerticalResolution :: "32 word"
  PixelsPerScanLine :: "32 word"

datatype fw_call =
    CallInitializeLib
  | CallPrint string
  | CallHandleProtocol string
  | CallOpenVolume
  | CallOpen EFI_FILE string "64 word" "64 word" EFI_STATUS
  | CallGetInfo EFI_FILE
  | CallRead EFI_FILE UINTN addr
  | CallSetPosition EFI_FILE "64 word"
  | CallAllocatePool EFI_MEMORY_TYPE UINTN
  | CallAllocatePages EFI_ALLOCATE_TYPE EFI_MEMORY_TYPE UINTN addr EFI_STATUS
  | CallLocateProtocol string EFI_STATUS
  | CallClearScreen

text \<open>
  The state of the machine:
  \<^item> \<open>volume\<close>, the boot volume; \<open>opened\<close>, the open files with their positions;
  \<^item> \<open>mem\<close>, physical memory;
  \<^item> \<open>pool_at n\<close>, the pointer the loader holds after the \<open>AllocatePool\<close> call that
    \<open>n\<close> such calls precede (the firmware chooses it; the loader never tests the call's
    status), and \<open>pool_calls\<close>, the number of such calls made so far;
  \<^item> \<open>pages_grant ty a n\<close>, the firmware's answer to a request for \<open>n\<close> pages of
    allocation type \<open>ty\<close> with the address argument \<open>a\<close>: \<open>None\<close> when it refuses, the
    address of the pages when it grants them;
  \<^item> \<open>gop\<close>, the mode of the graphics output protocol, when there is one;
  \<^item> \<open>hdr_var\<close>, the address of \<open>efi_main\<close>'s local variable \<open>header\<close>;
  \<^item> \<open>calls\<close>, the log of the firmware calls made so far, oldest first.
\<close>

record firmware =
  volume :: "string list \<Rightarrow> node option"
  opened :: "open_file list"
  mem :: "addr \<Rightarrow> byte"
  pool_at :: "nat \<Rightarrow> addr"
  pool_calls :: nat
  pages_grant :: "EFI_ALLOCATE_TYPE \<Rightarrow> addr \<Rightarrow> UINTN \<Rightarrow> addr option"
  gop :: "GOP_MODE option"
  hdr_var :: addr
  calls :: "fw_call list"

definition log_call :: "fw_call \<Rightarrow> firmware \<Rightarrow> firmware" where
  "log_call c fw = fw\<lparr>calls := calls fw @ [c]\<rparr>"

definition InitializeLib :: "firmware \<Rightarrow> firmware" where
  "InitializeLib fw = log_call CallInitializeLib fw"

definition Print :: "string \<Rightarrow> firmware \<Rightarrow> firmware" where
  "Print s fw = log_call (CallPrint s) fw"

definition ClearScreen :: "firmware \<Rightarrow> firmware" where
  "ClearScreen fw = log_call CallClearScreen fw"

definition HandleProtocol :: "string \<Rightarrow> firmware \<Rightarrow> firmware" where
  "HandleProtocol guid fw = log_call (CallHandleProtocol guid) fw"

text \<open>\<open>OpenVolume\<close> gives a new handle on the root directory of the volume the loader was
  started from.\<close>

definition OpenVolume :: "firmware \<Rightarrow> EFI_FILE \<times> firmware" where
  "OpenVolume fw =
     (length (opened fw),
      log_call CallOpenVolume (fw\<lparr>opened := opened fw @ [\<lparr>of_path = [], of_pos = 0\<rparr>]\<rparr>))"

text \<open>\<open>Open\<close> resolves a name relative to an open directory. On success it returns
  \<open>EFI_SUCCESS\<close> and a new handle positioned at 0; otherwise an error status and no handle
  (the caller's variable is not written).\<close>

definition handle_path :: "firmware \<Rightarrow> EFI_FILE \<Rightarrow> string list" where
  "handle_path fw h = (if h < length (opened fw) then of_path (opened fw ! h) else [])"

definition Open ::
  "EFI_FILE \<Rightarrow> string \<Rightarrow> 64 word \<Rightarrow> 64 word \<Rightarrow> firmware \<Rightarrow> (EFI_STATUS \<times> EFI_FILE option) \<times> firmware" where
  "Open dir name md attrs fw =
     (let p = handle_path fw dir @ [name] in
      if dir < length (opened fw) \<and> volume fw p \<noteq> None
      then ((EFI_SUCCESS, Some (length (opened fw))),
            log_call (CallOpen dir name md attrs EFI_SUCCESS)
              (fw\<lparr>opened := opened fw @ [\<lparr>of_path = p, of_pos = 0\<rparr>]\<rparr>))
      else ((EFI_NOT_FOUND, None), log_call (CallOpen dir name md attrs EFI_NOT_FOUND) fw))"

definition file_bytes :: "firmware \<Rightarrow> EFI_FILE \<Rightarrow> byte list" where
  "file_bytes fw h =
     (case volume fw (handle_path fw h) of Some (RegularFile bs) \<Rightarrow> bs | _ \<Rightarrow> [])"

definition file_pos :: "firmware \<Rightarrow> EFI_FILE \<Rightarrow> nat" where
  "file_pos fw h = (if h < length (opened fw) then of_pos (opened fw ! h) else 0)"

text \<open>\<open>Read h n buf\<close> copies at most \<open>n\<close> bytes from the file's position to \<open>buf\<close>,
  advances the position and returns the number of bytes read (the updated \<open>*BufferSize\<close>).
  The read stops at the end of the file; positioned at or past the end it reads nothing (the
  loader does not test the status of a read).\<close>

definition Read :: "EFI_FILE \<Rightarrow> UINTN \<Rightarrow> addr \<Rightarrow> firmware \<Rightarrow> UINTN \<times> firmware" where
  "Read h n buf fw =
     (let bs = take (unat n) (drop (file_pos fw h) (file_bytes fw h)) in
      (of_nat (length bs),
       log_call (CallRead h n buf)
         (fw\<lparr>mem := store_bytes (mem fw) buf bs,
             opened := (opened fw)[h := \<lparr>of_path = handle_path fw h,
                                          of_pos = file_pos fw h + length bs\<rparr>]\<rparr>)))"

definition SetPosition :: "EFI_FILE \<Rightarrow> 64 word \<Rightarrow> firmware \<Rightarrow> firmware" where
  "SetPosition h pos fw =
     log_call (CallSetPosition h pos)
       (fw\<lparr>opened := (opened fw)[h := \<lparr>of_path = handle_path fw h,
           of_pos = (if pos = - 1 then length (file_bytes fw h) else unat pos)\<rparr>]\<rparr>)"

text \<open>\<open>GetInfo\<close> with a buffer that is too small writes nothing and reports the size it
  needs: the fixed part of \<open>EFI_FILE_INFO\<close> (80 bytes) and the file's name in 16-bit
  characters with its terminator.\<close>

definition file_info_size :: "firmware \<Rightarrow> EFI_FILE \<Rightarrow> UINTN" where
  "file_info_size fw h =
     of_nat (80 + 2 * (case handle_path fw h of [] \<Rightarrow> 1 | p \<Rightarrow> Suc (length (last p))))"

definition GetInfo :: "EFI_FILE \<Rightarrow> firmware \<Rightarrow> UINTN \<times> firmware" where
  "GetInfo h fw = (file_info_size fw h, log_call (CallGetInfo h) fw)"

definition AllocatePool :: "EFI_MEMORY_TYPE \<Rightarrow> UINTN \<Rightarrow> firmware \<Rightarrow> addr \<times> firmware" where
  "AllocatePool ty n fw =
     (pool_at fw (pool_calls fw),
      log_call (CallAllocatePool ty n) (fw\<lparr>pool_calls := Suc (pool_calls fw)\<rparr>))"

text \<open>\<open>AllocatePages\<close>: with the type \<open>AllocateAddress\<close> the pages are granted at the
  address asked for or not at all, and either way the caller's address variable keeps its
  value; with the other types the firmware chooses the address and writes it to the
  variable when it grants the pages. The call does not write to the pages: they hold what
  memory held before.\<close>

definition AllocatePages ::
  "EFI_ALLOCATE_TYPE \<Rightarrow> EFI_MEMORY_TYPE \<Rightarrow> UINTN \<Rightarrow> addr \<Rightarrow> firmware \<Rightarrow> (EFI_STATUS \<times> addr) \<times> firmware" where
  "AllocatePages ty mty pages a fw =
     (case pages_grant fw ty a pages of
        None \<Rightarrow> ((EFI_OUT_OF_RESOURCES, a),
                 log_call (CallAllocatePages ty mty pages a EFI_OUT_OF_RESOURCES) fw)
      | Some b \<Rightarrow> ((EFI_SUCCESS, if ty = AllocateAddress then a else b),
                   log_call (CallAllocatePages ty mty pages a EFI_SUCCESS) fw))"

definition LocateProtocol :: "string \<Rightarrow> firmware \<Rightarrow> (EFI_STATUS \<times> GOP_MODE option) \<times> firmware" where
  "LocateProtocol guid fw =
     (case gop fw of
        None \<Rightarrow> ((EFI_NOT_FOUND, None), log_call (CallLocateProtocol guid EFI_NOT_FOUND) fw)
      | Some g \<Rightarrow> ((EFI_SUCCESS, Some g), log_call (CallLocateProtocol guid EFI_SUCCESS) fw))"

subsection \<open>InitializeGOP (lines 27-47)\<close>

text \<open>The global \<open>framebuffer\<close> is filled from the mode and its address returned; the model
  returns the descriptor itself, \<open>None\<close> for \<open>NULL\<close>. The last branch cannot be reached: the
  firmware gives an interface whenever its status is not an error.\<close>

definition InitializeGOP :: "firmware \<Rightarrow> Framebuffer option \<times> firmware" where
  "InitializeGOP fw =
     (let ((status, g), fw1) = LocateProtocol ''EFI_GRAPHICS_OUTPUT_PROTOCOL_GUID'' fw in
      if EFI_ERROR status then (None, Print ''Unable to locate GOP!'' fw1)
      else (case g of
              Some m \<Rightarrow>
                (Some \<lparr>base = FrameBufferBase m, fb_size = FrameBufferSize m,
                       width = HorizontalResolution m, height = VerticalResolution m,
                       pps = PixelsPerScanLine m\<rparr>,
                 Print ''GOP located!'' fw1)
            | None \<Rightarrow> (None, fw1)))"

subsection \<open>LoadFile (lines 58-77)\<close>

text \<open>The two \<open>HandleProtocol\<close> calls find the file system of the device the loader was
  started from; the loader does not test their status, nor that of \<open>OpenVolume\<close>.\<close>

definition LoadFile :: "EFI_FILE option \<Rightarrow> string \<Rightarrow> firmware \<Rightarrow> EFI_FILE option \<times> firmware" where
  "LoadFile Directory Path fw =
     (let fw1 = HandleProtocol ''gEfiLoadedImageProtocolGuid'' fw;
          fw2 = HandleProtocol ''gEfiSimpleFileSystemProtocolGuid'' fw1;
          (Directory', fw3) = (case Directory of None \<Rightarrow> OpenVolume fw2 | Some d \<Rightarrow> (d, fw2));
          ((s, LoadedFile), fw4) = Open Directory' Path EFI_FILE_MODE_READ EFI_FILE_READ_ONLY fw3
      in if s \<noteq> EFI_SUCCESS then (None, fw4) else (LoadedFile, fw4))"

subsection \<open>LoadPSF1Font (lines 79-139)\<close>

definition PSF1_MAGIC0 :: byte where
  "PSF1_MAGIC0 = 0x36"

definition PSF1_MAGIC1 :: byte where
  "PSF1_MAGIC1 = 0x04"

record PSF1_HEADER =
  magic :: "byte list"
  mode :: byte
  charsize :: byte

text \<open>\<open>sizeof(PSF1_HEADER)\<close> is 4 and \<open>sizeof(PSF1_FONT)\<close>, two pointers, is 16.\<close>

definition sizeof_PSF1_HEADER :: UINTN where
  "sizeof_PSF1_HEADER = 4"

definition sizeof_PSF1_FONT :: UINTN where
  "sizeof_PSF1_FONT = 16"

definition decode_PSF1_HEADER :: "byte list \<Rightarrow> PSF1_HEADER" where
  "decode_PSF1_HEADER bs = \<lparr>magic = take 2 bs, mode = bs ! 2, charsize = bs ! 3\<rparr>"

text \<open>The header the loader sees is what stands in the pool buffer after the read.\<close>

definition read_PSF1_HEADER :: "firmware \<Rightarrow> addr \<Rightarrow> PSF1_HEADER" where
  "read_PSF1_HEADER fw a = decode_PSF1_HEADER (load_bytes (mem fw) a 4)"

text \<open>Lines 122-125. The products are computed in \<open>int\<close> (at most \<open>255 * 512\<close>) and
  converted to \<open>UINTN\<close>.\<close>

definition glyphBufferSize :: "PSF1_HEADER \<Rightarrow> UINTN" where
  "glyphBufferSize fontHeader =
     (let sz = of_nat (unat (charsize fontHeader) * 256) in
      if mode fontHeader = 1 then of_nat (unat (charsize fontHeader) * 512) else sz)"

text \<open>The result is the pair of pointers the \<open>PSF1_FONT\<close> holds, \<open>None\<close> for \<open>NULL\<close>
  (a pointer the pool allocator hands out is taken not to be \<open>NULL\<close>).\<close>

definition LoadPSF1Font :: "EFI_FILE option \<Rightarrow> string \<Rightarrow> firmware \<Rightarrow> PSF1_FONT option \<times> firmware" where
  "LoadPSF1Font Directory Path fw =
     (let (font, fw1) = LoadFile Directory Path fw in
      case font of
        None \<Rightarrow> (None, fw1)
      | Some f \<Rightarrow>
          (let (fontHeader, fw2) = AllocatePool EfiLoaderData sizeof_PSF1_HEADER fw1;
               (sz, fw3) = Read f sizeof_PSF1_HEADER fontHeader fw2;
               hdr = read_PSF1_HEADER fw3 fontHeader
           in if magic hdr ! 0 \<noteq> PSF1_MAGIC0 \<or> magic hdr ! 1 \<noteq> PSF1_MAGIC1 then (None, fw3)
              else
                (let fw4 = SetPosition f sizeof_PSF1_HEADER fw3;
                     (glyphBuffer, fw5) = AllocatePool EfiLoaderData (glyphBufferSize hdr) fw4;
                     (n, fw6) = Read f (glyphBufferSize hdr) glyphBuffer fw5;
                     (finishedFont, fw7) = AllocatePool EfiLoaderData sizeof_PSF1_FONT fw6
                 in (Some \<lparr>psf1_Header = fontHeader, glyphBuffer = glyphBuffer\<rparr>, fw7))))"

subsection \<open>memcmp (lines 149-156)\<close>

text \<open>The arrays are lists; the loop index is the last argument.\<close>

function memcmp_loop :: "byte list \<Rightarrow> byte list \<Rightarrow> nat \<Rightarrow> nat \<Rightarrow> int" where
  "memcmp_loop a b n i =
     (if i < n then
        (if a ! i < b ! i then - 1
         else if a ! i > b ! i then 1
         else memcmp_loop a b n (i + 1))
      else 0)"
  by pat_completeness auto
termination
  by (relation "measure (\<lambda>(a, b, n, i). n - i)") auto

declare memcmp_loop.simps [simp del]

definition memcmp :: "byte list \<Rightarrow> byte list \<Rightarrow> nat \<Rightarrow> int" where
  "memcmp aptr bptr n = memcmp_loop aptr bptr n 0"

subsection \<open>The ELF structures and constants of elf.h\<close>

text \<open>\<open>elf.h\<close> is a system header, not a file of the repository; the structures and
  constants below have the layout and the values of the System V ABI for ELF-64.\<close>

record Elf64_Ehdr =
  e_ident :: "byte list"
  e_type :: "16 word"
  e_machine :: "16 word"
  e_version :: "32 word"
  e_entry :: "64 word"
  e_phoff :: "64 word"
  e_shoff :: "64 word"
  e_flags :: "32 word"
  e_ehsize :: "16 word"
  e_phentsize :: "16 word"
  e_phnum :: "16 word"
  e_shentsize :: "16 word"
  e_shnum :: "16 word"
  e_shstrndx :: "16 word"

record Elf64_Phdr =
  p_type :: "32 word"
  p_flags :: "32 word"
  p_offset :: "64 word"
  p_vaddr :: "64 word"
  p_paddr :: "64 word"
  p_filesz :: "64 word"
  p_memsz :: "64 word"
  p_align :: "64 word"

definition sizeof_Elf64_Ehdr :: nat where
  "sizeof_Elf64_Ehdr = 64"

definition sizeof_Elf64_Phdr :: nat where
  "sizeof_Elf64_Phdr = 56"

definition EI_MAG0 :: nat where
  "EI_MAG0 = 0"

definition ELFMAG :: "byte list" where
  "ELFMAG = [0x7F, 0x45, 0x4C, 0x46, 0]"

definition SELFMAG :: nat where
  "SELFMAG = 4"

definition EI_CLASS :: nat where
  "EI_CLASS = 4"

definition ELFCLASS64 :: byte where
  "ELFCLASS64 = 2"

definition EI_DATA :: nat where
  "EI_DATA = 5"

definition ELFDATA2LSB :: byte where
  "ELFDATA2LSB = 1"

definition ET_EXEC :: "16 word" where
  "ET_EXEC = 2"

definition EM_X86_64 :: "16 word" where
  "EM_X86_64 = 62"

definition EV_CURRENT :: "32 word" where
  "EV_CURRENT = 1"

definition PT_LOAD :: "32 word" where
  "PT_LOAD = 1"

definition decode_Elf64_Ehdr :: "byte list \<Rightarrow> Elf64_Ehdr" where
  "decode_Elf64_Ehdr bs =
     \<lparr>e_ident = take 16 bs, e_type = le16 bs 16, e_machine = le16 bs 18,
      e_version = le32 bs 20, e_entry = le64 bs 24, e_phoff = le64 bs 32,
      e_shoff = le64 bs 40, e_flags = le32 bs 48, e_ehsize = le16 bs 52,
      e_phentsize = le16 bs 54, e_phnum = le16 bs 56, e_shentsize = le16 bs 58,
      e_shnum = le16 bs 60, e_shstrndx = le16 bs 62\<rparr>"

definition decode_Elf64_Phdr :: "byte list \<Rightarrow> Elf64_Phdr" where
  "decode_Elf64_Phdr bs =
     \<lparr>p_type = le32 bs 0, p_flags = le32 bs 4, p_offset = le64 bs 8, p_vaddr = le64 bs 16,
      p_paddr = le64 bs 24, p_filesz = le64 bs 32, p_memsz = le64 bs 40,
      p_align = le64 bs 48\<rparr>"

text \<open>The entry a \<open>Elf64_Phdr*\<close> points to: its fields are read from memory at the
  offsets of the compiled structure.\<close>

definition read_Elf64_Phdr :: "firmware \<Rightarrow> addr \<Rightarrow> Elf64_Phdr" where
  "read_Elf64_Phdr fw a = decode_Elf64_Phdr (load_bytes (mem fw) a sizeof_Elf64_Phdr)"

subsection \<open>efi_main: verifying the header (lines 207-217)\<close>

text \<open>The six operands of the condition, in the order of the source.\<close>

definition header_checks :: "Elf64_Ehdr \<Rightarrow> bool list" where
  "header_checks header =
     [memcmp (drop EI_MAG0 (e_ident header)) ELFMAG SELFMAG \<noteq> 0,
      e_ident header ! EI_CLASS \<noteq> ELFCLASS64,
      e_ident header ! EI_DATA \<noteq> ELFDATA2LSB,
      e_type header \<noteq> ET_EXEC,
      e_machine header \<noteq> EM_X86_64,
      e_version header \<noteq> EV_CURRENT]"

text \<open>C's \<open>||\<close> evaluates its operands from the left and stops at the first that holds.
  \<open>c_or\<close> gives the value of the chain and the number of operands evaluated.\<close>

fun c_or :: "bool list \<Rightarrow> bool \<times> nat" where
  "c_or [] = (False, 0)"
| "c_or (c # cs) = (if c then (True, 1) else (let (r, n) = c_or cs in (r, Suc n)))"

definition header_invalid :: "Elf64_Ehdr \<Rightarrow> bool" where
  "header_invalid header = fst (c_or (header_checks header))"

definition checks_evaluated :: "Elf64_Ehdr \<Rightarrow> nat" where
  "checks_evaluated header = snd (c_or (header_checks header))"

subsection \<open>efi_main: reading the header and the program-header table\<close>

text \<open>Lines 192-202. The first \<open>GetInfo\<close> reports the size of the file information and
  a pool buffer of that size is allocated; the second is handed the address of the variable
  \<open>FileInfo\<close> instead of the buffer, and nothing of what it writes is read again: both
  calls are kept in the log only. The header is then read into the local variable \<open>header\<close>
  and its fields are what stands there after the read.\<close>

definition read_header :: "EFI_FILE \<Rightarrow> firmware \<Rightarrow> Elf64_Ehdr \<times> firmware" where
  "read_header Kernel fw =
     (let (FileInfoSize, fw1) = GetInfo Kernel fw;
          (FileInfo, fw2) = AllocatePool EfiLoaderData FileInfoSize fw1;
          (FileInfoSize', fw3) = GetInfo Kernel fw2;
          (sz, fw4) = Read Kernel (of_nat sizeof_Elf64_Ehdr) (hdr_var fw3) fw3
      in (decode_Elf64_Ehdr (load_bytes (mem fw4) (hdr_var fw4) sizeof_Elf64_Ehdr), fw4))"

text \<open>\<open>header.e_phnum * header.e_phentsize\<close> is a product of two \<open>int\<close> values. It is below
  \<open>2 ^ 32\<close>; from \<open>2 ^ 31\<close> on it overflows \<open>int\<close>, which the x86-64 compilers turn into
  the negative value of the same 32 bits. That is the value modelled.\<close>

definition phdr_table_bytes :: "Elf64_Ehdr \<Rightarrow> 32 word" where
  "phdr_table_bytes header = ucast (e_phnum header) * ucast (e_phentsize header)"

text \<open>Lines 223-230. \<open>kernelSize\<close> is the value of the product converted to \<open>UINTN\<close> when
  the buffer is allocated, and the number of bytes the read returned afterwards.\<close>

definition load_phdrs :: "EFI_FILE \<Rightarrow> Elf64_Ehdr \<Rightarrow> firmware \<Rightarrow> (UINTN \<times> addr) \<times> firmware" where
  "load_phdrs Kernel header fw =
     (let fw1 = SetPosition Kernel (e_phoff header) fw;
          kernelSize = (scast (phdr_table_bytes header) :: UINTN);
          (phdrs, fw2) = AllocatePool EfiLoaderData kernelSize fw1;
          (kernelSize', fw3) = Read Kernel kernelSize phdrs fw2
      in ((kernelSize', phdrs), fw3))"

subsection \<open>efi_main: mapping the segments (lines 233-252)\<close>

text \<open>Line 242: the sum and the quotient are 64-bit unsigned; the quotient is stored in an
  \<open>int\<close> (its low 32 bits) and converted to \<open>UINTN\<close> (sign-extended) at the call.\<close>

definition page_count :: "64 word \<Rightarrow> UINTN" where
  "page_count memsz = scast (ucast ((memsz + 0x1000 - 1) div 0x1000) :: 32 word)"

text \<open>The body of the loop, for the entry at address \<open>phdr\<close>.\<close>

definition load_segment :: "EFI_FILE \<Rightarrow> addr \<Rightarrow> firmware \<Rightarrow> firmware" where
  "load_segment Kernel phdr fw =
     (let ph = read_Elf64_Phdr fw phdr in
      if p_type ph = PT_LOAD then
        (let pages = page_count (p_memsz ph);
             segment = p_paddr ph;
             ((status, segment'), fw1) =
                AllocatePages AllocateAddress EfiLoaderData pages segment fw;
             fw2 = SetPosition Kernel (p_offset ph) fw1;
             sz = p_filesz ph;
             (sz', fw3) = Read Kernel sz segment' fw2
         in fw3)
      else fw)"

text \<open>The loop. Line 235 compares two \<open>char*\<close>: \<open>phdr\<close>, and \<open>phdrs\<close> plus the product
  \<open>header.e_phnum * header.e_phentsize\<close>, an \<open>int\<close> that is sign-extended when it is added to
  the pointer. The two addresses are compared as the unsigned 64-bit values they are on
  x86-64. Line 236 adds \<open>e_phentsize\<close> to \<open>phdr\<close>, so after \<open>i\<close> rounds \<open>phdr\<close> is
  \<open>phdrs + i * e_phentsize\<close>, the sum wrapping at \<open>2 ^ 64\<close>; the loop is written with the
  number \<open>i\<close> of rounds made. Each entry is read from memory when its turn comes, so a
  segment loaded over the table changes the entries that follow; the loader's own variables
  (\<open>header\<close>, \<open>phdrs\<close>) are taken to keep their values.

  The loop comes to an end for every header and every address of the table, also when the
  product overflows \<open>int\<close> or the addresses wrap: \<open>phdr\<close> meets the bound exactly after some
  number of rounds, because the sign-extended product is a multiple of \<open>e_phentsize\<close>
  modulo \<open>2 ^ 64\<close>. That is the termination proof.\<close>

function map_segments :: "Elf64_Ehdr \<Rightarrow> addr \<Rightarrow> EFI_FILE \<Rightarrow> nat \<Rightarrow> firmware \<Rightarrow> firmware" where
  "map_segments header phdrs Kernel i fw =
     (if phdrs + of_nat (i * unat (e_phentsize header)) < phdrs + scast (phdr_table_bytes header)
      then map_segments header phdrs Kernel (Suc i)
             (load_segment Kernel (phdrs + of_nat (i * unat (e_phentsize header))) fw)
      else fw)"
  by pat_completeness auto
termination
proof (relation "measure (\<lambda>(header, phdrs, Kernel, i, fw).
    (LEAST j. i \<le> j \<and>
       \<not> phdrs + of_nat (j * unat (e_phentsize header)) < phdrs + scast (phdr_table_bytes header)) - i)")
  show "wf (measure (\<lambda>(header, phdrs, Kernel, i, fw).
    (LEAST j. i \<le> j \<and>
       \<not> phdrs + of_nat (j * unat (e_phentsize header)) < phdrs + scast (phdr_table_bytes header)) - i))"
    by simp
next
  fix header :: Elf64_Ehdr and phdrs :: addr and Kernel :: EFI_FILE and i :: nat and fw :: firmware
  assume c: "phdrs + of_nat (i * unat (e_phentsize header)) < phdrs + scast (phdr_table_bytes header)"
  define es where "es = e_phentsize header"
  define n where "n = e_phnum header"
  define Q where "Q j \<longleftrightarrow>
    \<not> phdrs + of_nat (j * unat (e_phentsize header)) < phdrs + scast (phdr_table_bytes header)" for j
  have decomp: "\<exists>a e. m = 2 ^ a * e \<and> odd e" if "0 < m" for m :: nat
    using that
  proof (induction m rule: less_induct)
    case (less m)
    show ?case
    proof (cases "odd m")
      case True
      then have "m = 2 ^ 0 * m \<and> odd m" by simp
      then show ?thesis by blast
    next
      case False
      then obtain k where k: "m = 2 * k" by (auto elim: evenE)
      with less.prems have "0 < k" "k < m" by simp_all
      from less.IH [OF this(2) this(1)] obtain a e where "k = 2 ^ a * e" "odd e" by blast
      with k have "m = 2 ^ Suc a * e \<and> odd e" by simp
      then show ?thesis by blast
    qed
  qed
  have inverse: "\<exists>u :: 64 word. u * of_nat e = 1" if "odd e" for e :: nat
  proof -
    define N :: int where "N = 2 ^ 64"
    have N0: "(of_int N :: 64 word) = 0"
      by (simp add: N_def)
    from \<open>odd e\<close> have "coprime (int e) 2"
      by simp
    then have "coprime (int e) N"
      unfolding N_def by (simp only: coprime_power_right_iff) simp
    then have "gcd (int e) N = 1"
      by (simp only: coprime_iff_gcd_eq_1)
    with bezout_int [of "int e" N] obtain u v where uv: "u * int e + v * N = 1"
      by metis
    have "(of_int (u * int e + v * N) :: 64 word) = of_int u * of_nat e + of_int v * of_int N"
      by (simp only: of_int_add of_int_mult of_int_of_nat_eq)
    then have "(of_int u :: 64 word) * of_nat e = 1"
      by (simp only: uv N0 of_int_1 mult_zero_right add_0_right)
    then show ?thesis by blast
  qed
  have split: "\<exists>d :: 64 word. (scast w :: 64 word) = of_nat (unat w) - 2 ^ 32 * d" for w :: "32 word"
  proof -
    have "sint w = signed_take_bit 31 (uint w)"
      by (simp add: sint_uint)
    also have "\<dots> = take_bit 32 (uint w) - 2 ^ 32 * of_bool (bit (uint w) 31)"
      by (simp only: signed_take_bit_eq_take_bit_minus [of 31 "uint w"]) simp
    also have "take_bit 32 (uint w) = int (unat w)"
      by (simp add: take_bit_int_eq_self uint_bounded [of w, simplified])
    finally have "(of_int (sint w) :: 64 word) =
        of_int (int (unat w) - 2 ^ 32 * of_bool (bit (uint w) 31))"
      by (simp only:)
    also have "\<dots> = of_nat (unat w) - 2 ^ 32 * of_bool (bit (uint w) 31)"
      by (simp only: of_int_diff of_int_mult of_int_of_nat_eq of_int_power of_int_numeral of_int_of_bool)
    finally have "(scast w :: 64 word) = of_nat (unat w) - 2 ^ 32 * of_bool (bit (uint w) 31)"
      by (simp only: of_int_sint)
    then show ?thesis by blast
  qed
  have stop: "\<exists>j\<ge>Suc i. (of_nat (j * unat es) :: 64 word) = scast (ucast n * ucast es :: 32 word)"
  proof (cases "es = 0")
    case True
    then show ?thesis by (intro exI [of _ "Suc i"]) simp
  next
    case False
    then have "0 < unat es" by (simp add: unat_gt_0)
    from decomp [OF this] obtain a e where ae: "unat es = 2 ^ a * e" and "odd e"
      by blast
    from inverse [OF \<open>odd e\<close>] obtain u :: "64 word" where u: "u * of_nat e = 1"
      by blast
    have "(2::nat) ^ a \<le> unat es"
      using ae \<open>odd e\<close> by (cases e) simp_all
    also have "unat es < 2 ^ 16"
      using unsigned_less [of es, where 'a = nat] by simp
    finally have "a < 16"
      by (rule nat_power_less_imp_less [rotated]) simp
    then have a32: "a \<le> 32" by simp
    have "unat (ucast n * ucast es :: 32 word) = unat n * unat es"
    proof -
      have "unat n < 2 ^ 16" "unat es < 2 ^ 16"
        using unsigned_less [of n, where 'a = nat] unsigned_less [of es, where 'a = nat] by simp_all
      then have "unat n * unat es < 2 ^ 16 * 2 ^ 16"
        by (intro mult_strict_mono) simp_all
      then have lt: "unat n * unat es < 2 ^ 32" by simp
      have up: "unat (ucast w :: 32 word) = unat w" for w :: "16 word"
        using unsigned_less [of w, where 'a = nat] by (simp add: unsigned_ucast_eq take_bit_nat_eq_self)
      have "unat (ucast n * ucast es :: 32 word) =
              (unat (ucast n :: 32 word) * unat (ucast es :: 32 word)) mod 2 ^ 32"
        by (simp add: unat_word_ariths)
      also have "\<dots> = (unat n * unat es) mod 2 ^ 32"
        by (simp only: up)
      also have "\<dots> = unat n * unat es"
        using lt by simp
      finally show ?thesis .
    qed
    with split [of "ucast n * ucast es"] obtain d :: "64 word"
      where d: "(scast (ucast n * ucast es :: 32 word) :: 64 word) = of_nat (unat n * unat es) - 2 ^ 32 * d"
      by auto
    define jw :: "64 word" where "jw = of_nat (unat n) - 2 ^ (32 - a) * d * u"
    define M :: nat where "M = 2 ^ 64"
    have M0: "(of_nat M :: 64 word) = 0"
      by (simp add: M_def)
    define j where "j = unat jw + Suc i * M"
    have "(of_nat j :: 64 word) = of_nat (unat jw) + of_nat (Suc i) * of_nat M"
      unfolding j_def by (simp only: of_nat_add of_nat_mult)
    then have "(of_nat j :: 64 word) = jw"
      by (simp only: M0 mult_zero_right add_0_right) simp
    then have "(of_nat (j * unat es) :: 64 word) = jw * of_nat (unat es)"
      by (simp only: of_nat_mult)
    also have "\<dots> = of_nat (unat n) * of_nat (unat es) - 2 ^ (32 - a) * d * u * (2 ^ a * of_nat e)"
      by (simp add: jw_def ae algebra_simps)
    also have "2 ^ (32 - a) * d * u * (2 ^ a * of_nat e) = (2 ^ (32 - a) * 2 ^ a) * d * (u * of_nat e)"
      by (simp only: ac_simps)
    also have "(2 ^ (32 - a) * 2 ^ a :: 64 word) = 2 ^ 32"
      using a32 by (simp only: power_add [symmetric]) simp
    finally have "(of_nat (j * unat es) :: 64 word) = of_nat (unat n * unat es) - 2 ^ 32 * d"
      by (simp only: u mult_1_right of_nat_mult)
    with d have "(of_nat (j * unat es) :: 64 word) = scast (ucast n * ucast es :: 32 word)"
      by simp
    moreover have "Suc i \<le> j" by (simp add: j_def M_def)
    ultimately show ?thesis by blast
  qed
  then obtain j where j: "Suc i \<le> j" "Q j"
    by (auto simp add: Q_def phdr_table_bytes_def es_def n_def)
  then have ex: "\<exists>j. i \<le> j \<and> Q j"
    by (auto intro: Suc_leD)
  from LeastI_ex [OF ex] have L: "i \<le> (LEAST j. i \<le> j \<and> Q j)" "Q (LEAST j. i \<le> j \<and> Q j)"
    by simp_all
  from c L(2) have "(LEAST j. i \<le> j \<and> Q j) \<noteq> i"
    by (auto simp add: Q_def)
  with L(1) have S: "Suc i \<le> (LEAST j. i \<le> j \<and> Q j)"
    by simp
  with L(2) have "(LEAST j. Suc i \<le> j \<and> Q j) \<le> (LEAST j. i \<le> j \<and> Q j)"
    by (intro Least_le) simp
  with S have "(LEAST j. Suc i \<le> j \<and> Q j) - Suc i < (LEAST j. i \<le> j \<and> Q j) - i"
    by simp
  then show "((header, phdrs, Kernel, Suc i,
               load_segment Kernel (phdrs + of_nat (i * unat (e_phentsize header))) fw),
              (header, phdrs, Kernel, i, fw))
             \<in> measure (\<lambda>(header, phdrs, Kernel, i, fw).
    (LEAST j. i \<le> j \<and>
       \<not> phdrs + of_nat (j * unat (e_phentsize header)) < phdrs + scast (phdr_table_bytes header)) - i)"
    by (simp add: Q_def)
qed

declare map_segments.simps [simp del]

subsection \<open>efi_main (lines 176-286)\<close>

record KernelData =
  framebuffer :: Framebuffer
  font :: PSF1_FONT
  kernelSize :: UINTN
  kernelStart :: addr
  kernelEnd :: addr

text \<open>How a run of \<open>efi_main\<close> ends: it returns a status to the firmware, or it calls the
  kernel's entry address with the handoff record (line 284). The kernel is not expected to
  return; were it to, \<open>efi_main\<close> would return \<open>EFI_SUCCESS\<close>.\<close>

datatype outcome = Returned EFI_STATUS | Transferred addr KernelData

text \<open>Lines 272-277. \<open>phdrs\<close> is a \<open>Elf64_Phdr*\<close>, so \<open>phdrs + kernelSize\<close> advances by
  that many structures.\<close>

definition make_KernelData :: "Framebuffer \<Rightarrow> PSF1_FONT \<Rightarrow> UINTN \<Rightarrow> addr \<Rightarrow> KernelData" where
  "make_KernelData fb zapFont ksize phdrs =
     \<lparr>framebuffer = fb, font = zapFont, kernelSize = ksize, kernelStart = phdrs,
      kernelEnd = phdrs + ksize * of_nat sizeof_Elf64_Phdr\<rparr>"

text \<open>Lines 256-285: the font, the framebuffer, the handoff. The messages are given without
  their line ends; the path that the two font messages quote is written here without its
  quotes and with a slash for its backslash.\<close>

definition load_files_and_run :: "Elf64_Ehdr \<Rightarrow> UINTN \<Rightarrow> addr \<Rightarrow> firmware \<Rightarrow> outcome \<times> firmware" where
  "load_files_and_run header ksize phdrs fw =
     (let (fdir, fw1) = LoadFile None ''files'' fw;
          (zapFont, fw2) = LoadPSF1Font fdir ''main.psf'' fw1
      in case zapFont of
           None \<Rightarrow> (Returned EFI_LOAD_ERROR, Print ''Unable to locate font file files/main.psf!'' fw2)
         | Some zf \<Rightarrow>
             (let fw3 = Print ''Font file files/zap-light16.psf found and loaded!'' fw2;
                  (fb, fw4) = InitializeGOP fw3
              in case fb of
                   None \<Rightarrow> (Returned 1, fw4)
                 | Some f \<Rightarrow>
                     (Transferred (e_entry header) (make_KernelData f zf ksize phdrs),
                      ClearScreen fw4)))"

text \<open>Lines 189-254: the header, its verification, the table and the segments.\<close>

definition load_kernel :: "EFI_FILE \<Rightarrow> firmware \<Rightarrow> outcome \<times> firmware" where
  "load_kernel Kernel fw =
     (let fw1 = Print ''Loading header structure...'' fw;
          (header, fw2) = read_header Kernel fw1;
          fw3 = Print ''Verifying header...'' fw2
      in if header_invalid header
         then (Returned EFI_LOAD_ERROR, Print ''Header is invalid!'' fw3)
         else
           (let fw4 = Print ''Kernel header successfully verified!'' fw3;
                fw5 = Print ''Loading kernel kernel data...'' fw4;
                ((ksize, phdrs), fw6) = load_phdrs Kernel header fw5;
                fw7 = map_segments header phdrs Kernel 0 fw6;
                fw8 = Print ''Kernel loaded successfully!'' fw7
            in load_files_and_run header ksize phdrs fw8))"

definition efi_main :: "firmware \<Rightarrow> outcome \<times> firmware" where
  "efi_main fw =
     (let fw1 = InitializeLib fw;
          fw2 = Print ''corruptOS Bootloader'' fw1;
          fw3 = Print ''Locating kernel file...'' fw2;
          (kdir, fw4) = LoadFile None ''kernel'' fw3;
          (Kernel, fw5) = LoadFile kdir ''main.elf'' fw4
      in case Kernel of
           None \<Rightarrow> (Returned EFI_LOAD_ERROR, Print ''Unable to locate kernel file!'' fw5)
         | Some k \<Rightarrow> load_kernel k fw5)"

subsection \<open>A boot volume and firmware states to run the loader on\<close>

text \<open>An executable of two program headers, little-endian: the ELF header (entry
  \<open>0x100000\<close>, \<open>e_phoff = 64\<close>, \<open>e_phentsize = 56\<close>, \<open>e_phnum = 2\<close>), a loadable segment
  (file offset 176, physical address \<open>0x100000\<close>, 2 bytes in the file, 4 in memory), a note
  segment, and the two bytes of the loadable segment.\<close>

definition demo_ehdr :: "byte list" where
  "demo_ehdr =
     [0x7F, 0x45, 0x4C, 0x46, 0x02, 0x01, 0x01, 0x00, 0x00, 0x00, 0x00, 0x00, 0x00, 0x00, 0x00, 0x00,
     0x02, 0x00, 0x3E, 0x00, 0x01, 0x00, 0x00, 0x00, 0x00, 0x00, 0x10, 0x00, 0x00, 0x00, 0x00, 0x00,
     0x40, 0x00, 0x00, 0x00, 0x00, 0x00, 0x00, 0x00, 0x00, 0x00, 0x00, 0x00, 0x00, 0x00, 0x00, 0x00,
     0x00, 0x00, 0x00, 0x00, 0x40, 0x00, 0x38, 0x00, 0x02, 0x00, 0x00, 0x00, 0x00, 0x00, 0x00, 0x00]"

definition demo_phdr0 :: "byte list" where
  "demo_phdr0 =
     [0x01, 0x00, 0x00, 0x00, 0x05, 0x00, 0x00, 0x00, 0xB0, 0x00, 0x00, 0x00, 0x00, 0x00, 0x00, 0x00,
     0x00, 0x00, 0x10, 0x00, 0x00, 0x00, 0x00, 0x00, 0x00, 0x00, 0x10, 0x00, 0x00, 0x00, 0x00, 0x00,
     0x02, 0x00, 0x00, 0x00, 0x00, 0x00, 0x00, 0x00, 0x04, 0x00, 0x00, 0x00, 0x00, 0x00, 0x00, 0x00,
     0x00, 0x10, 0x00, 0x00, 0x00, 0x00, 0x00, 0x00]"

definition demo_phdr1 :: "byte list" where
  "demo_phdr1 =
     [0x04, 0x00, 0x00, 0x00, 0x00, 0x00, 0x00, 0x00, 0x00, 0x00, 0x00, 0x00, 0x00, 0x00, 0x00, 0x00,
     0x00, 0x00, 0x00, 0x00, 0x00, 0x00, 0x00, 0x00, 0x00, 0x00, 0x00, 0x00, 0x00, 0x00, 0x00, 0x00,
     0x00, 0x00, 0x00, 0x00, 0x00, 0x00, 0x00, 0x00, 0x00, 0x00, 0x00, 0x00, 0x00, 0x00, 0x00, 0x00,
     0x00, 0x00, 0x00, 0x00, 0x00, 0x00, 0x00, 0x00]"

definition demo_elf :: "byte list" where
  "demo_elf = demo_ehdr @ demo_phdr0 @ demo_phdr1 @ [0x90, 0xC3]"

text \<open>The same ELF header with \<open>e_phnum = 0\<close>: an executable without program headers.\<close>

definition bare_elf :: "byte list" where
  "bare_elf =
     [0x7F, 0x45, 0x4C, 0x46, 0x02, 0x01, 0x01, 0x00, 0x00, 0x00, 0x00, 0x00, 0x00, 0x00, 0x00, 0x00,
     0x02, 0x00, 0x3E, 0x00, 0x01, 0x00, 0x00, 0x00, 0x00, 0x00, 0x10, 0x00, 0x00, 0x00, 0x00, 0x00,
     0x40, 0x00, 0x00, 0x00, 0x00, 0x00, 0x00, 0x00, 0x00, 0x00, 0x00, 0x00, 0x00, 0x00, 0x00, 0x00,
     0x00, 0x00, 0x00, 0x00, 0x40, 0x00, 0x38, 0x00, 0x00, 0x00, 0x00, 0x00, 0x00, 0x00, 0x00, 0x00]"

text \<open>The same ELF header with \<open>e_phentsize = e_phnum = 0xFFFF\<close>: a table of \<open>0xFFFE0001\<close>
  bytes, more than an \<open>int\<close> holds.\<close>

definition wide_ehdr :: "byte list" where
  "wide_ehdr =
     [0x7F, 0x45, 0x4C, 0x46, 0x02, 0x01, 0x01, 0x00, 0x00, 0x00, 0x00, 0x00, 0x00, 0x00, 0x00, 0x00,
     0x02, 0x00, 0x3E, 0x00, 0x01, 0x00, 0x00, 0x00, 0x00, 0x00, 0x10, 0x00, 0x00, 0x00, 0x00, 0x00,
     0x40, 0x00, 0x00, 0x00, 0x00, 0x00, 0x00, 0x00, 0x00, 0x00, 0x00, 0x00, 0x00, 0x00, 0x00, 0x00,
     0x00, 0x00, 0x00, 0x00, 0x40, 0x00, 0xFF, 0xFF, 0xFF, 0xFF, 0x00, 0x00, 0x00, 0x00, 0x00, 0x00]"

text \<open>A loadable entry whose memory size is \<open>2 ^ 44\<close>.\<close>

definition huge_phdr :: "byte list" where
  "huge_phdr =
     [0x01, 0x00, 0x00, 0x00, 0x05, 0x00, 0x00, 0x00, 0xB0, 0x00, 0x00, 0x00, 0x00, 0x00, 0x00, 0x00,
     0x00, 0x00, 0x10, 0x00, 0x00, 0x00, 0x00, 0x00, 0x00, 0x00, 0x10, 0x00, 0x00, 0x00, 0x00, 0x00,
     0x02, 0x00, 0x00, 0x00, 0x00, 0x00, 0x00, 0x00, 0x00, 0x00, 0x00, 0x00, 0x00, 0x10, 0x00, 0x00,
     0x00, 0x10, 0x00, 0x00, 0x00, 0x00, 0x00, 0x00]"

text \<open>Fonts: a 256-glyph font of one byte per glyph, the header of a font whose mode byte is
  3 (512 glyphs and a Unicode table, 16 bytes per glyph), and a file whose first byte is not
  the magic.\<close>

definition demo_font :: "byte list" where
  "demo_font = [0x36, 0x04, 0x00, 0x01] @ replicate 256 0x55"

definition tab_font :: "byte list" where
  "tab_font = [0x36, 0x04, 0x03, 0x10]"

definition bad_font :: "byte list" where
  "bad_font = [0x37, 0x04, 0x00, 0x01] @ replicate 256 0x55"

definition boot_volume :: "byte list \<Rightarrow> byte list \<Rightarrow> string list \<Rightarrow> node option" where
  "boot_volume elf fnt p =
     (if p = [''kernel''] \<or> p = [''files''] then Some DirectoryNode
      else if p = [''kernel'', ''main.elf''] then Some (RegularFile elf)
      else if p = [''files'', ''main.psf''] then Some (RegularFile fnt)
      else if p = [''bad.psf''] then Some (RegularFile bad_font)
      else None)"

definition demo_gop :: GOP_MODE where
  "demo_gop =
     \<lparr>FrameBufferBase = 0x80000000, FrameBufferSize = 0x300000,
      HorizontalResolution = 1024, VerticalResolution = 768, PixelsPerScanLine = 1024\<rparr>"

text \<open>The machine when \<open>efi_main\<close> starts: no file open, memory filled with \<open>0xAA\<close>, pool
  buffers handed out at \<open>0x4000\<close>, \<open>0x5000\<close>, ...\<close>

definition boot_fw ::
  "byte list \<Rightarrow> byte list \<Rightarrow> GOP_MODE option \<Rightarrow> (EFI_ALLOCATE_TYPE \<Rightarrow> addr \<Rightarrow> UINTN \<Rightarrow> addr option) \<Rightarrow> firmware" where
  "boot_fw elf fnt g grant =
     \<lparr>volume = boot_volume elf fnt, opened = [], mem = (\<lambda>a. 0xAA),
      pool_at = (\<lambda>n. 0x4000 + 0x1000 * of_nat n), pool_calls = 0,
      pages_grant = grant, gop = g, hdr_var = 0x7F00, calls = []\<rparr>"

definition grant_all :: "EFI_ALLOCATE_TYPE \<Rightarrow> addr \<Rightarrow> UINTN \<Rightarrow> addr option" where
  "grant_all ty a n = Some a"

definition grant_none :: "EFI_ALLOCATE_TYPE \<Rightarrow> addr \<Rightarrow> UINTN \<Rightarrow> addr option" where
  "grant_none ty a n = None"

text \<open>The machine at the head of the loop: the kernel file is open as handle 0 and the
  program-header table \<open>tbl\<close> stands in the pool buffer at \<open>0x5000\<close>.\<close>

definition loop_fw ::
  "byte list \<Rightarrow> (EFI_ALLOCATE_TYPE \<Rightarrow> addr \<Rightarrow> UINTN \<Rightarrow> addr option) \<Rightarrow> firmware" where
  "loop_fw tbl grant =
     \<lparr>volume = boot_volume demo_elf demo_font,
      opened = [\<lparr>of_path = [''kernel'', ''main.elf''], of_pos = 0\<rparr>],
      mem = store_bytes (\<lambda>a. 0xAA) 0x5000 tbl,
      pool_at = (\<lambda>n. 0x4000 + 0x1000 * of_nat n), pool_calls = 2,
      pages_grant = grant, gop = Some demo_gop, hdr_var = 0x7F00, calls = []\<rparr>"

text \<open>The same machine with the table at \<open>0x200000\<close>, its first entry the loadable one of
  the example.\<close>

definition high_fw :: firmware where
  "high_fw = (loop_fw [] grant_all)\<lparr>mem := store_bytes (\<lambda>a. 0xAA) 0x200000 demo_phdr0\<rparr>"

subsection \<open>States that differ in the page allocator only\<close>

text \<open>Two states of the machine agree when they differ at most in the firmware's answers to
  page requests and in the log of calls.\<close>

definition agree :: "firmware \<Rightarrow> firmware \<Rightarrow> bool" where
  "agree fw fw' \<longleftrightarrow>
     volume fw' = volume fw \<and> opened fw' = opened fw \<and> mem fw' = mem fw \<and>
     pool_at fw' = pool_at fw \<and> pool_calls fw' = pool_calls fw \<and> gop fw' = gop fw \<and>
     hdr_var fw' = hdr_var fw"

section \<open>Lemmas about the firmware model and the loader's functions\<close>

subsection \<open>Memory\<close>

lemma calls_log_call [simp]: "calls (log_call c fw) = calls fw @ [c]"
  by (simp add: log_call_def)

lemma store_bytes_other:
  "(\<forall>i<length bs. x \<noteq> a + of_nat i) \<Longrightarrow> store_bytes m a bs x = m x"
proof (induction bs arbitrary: a m)
  case Nil
  then show ?case by simp
next
  case (Cons b bs)
  have "\<forall>i<length bs. x \<noteq> (a + 1) + of_nat i"
  proof (intro allI impI)
    fix i assume "i < length bs"
    then have "x \<noteq> a + of_nat (Suc i)" using Cons.prems by auto
    then show "x \<noteq> (a + 1) + of_nat i" by (simp add: ac_simps)
  qed
  then have "store_bytes (m(a := b)) (a + 1) bs x = (m(a := b)) x"
    by (rule Cons.IH)
  moreover have "x \<noteq> a" using Cons.prems by force
  ultimately show ?case by simp
qed

lemma of_nat_neq_0_word64: "0 < n \<Longrightarrow> n < 2 ^ 64 \<Longrightarrow> (of_nat n :: 64 word) \<noteq> 0"
  by (simp add: word_of_nat_eq_0_iff nat_dvd_not_less)

lemma store_bytes_nth:
  "i < length bs \<Longrightarrow> length bs \<le> 2 ^ 64 \<Longrightarrow> store_bytes m a bs (a + of_nat i) = bs ! i"
proof (induction bs arbitrary: a m i)
  case Nil
  then show ?case by simp
next
  case (Cons b bs)
  show ?case
  proof (cases i)
    case 0
    have "\<forall>j<length bs. a \<noteq> (a + 1) + of_nat j"
    proof (intro allI impI)
      fix j assume j: "j < length bs"
      then have "(of_nat (Suc j) :: 64 word) \<noteq> 0"
        using Cons.prems(2) by (intro of_nat_neq_0_word64) auto
      then show "a \<noteq> (a + 1) + of_nat j" by (simp add: ac_simps)
    qed
    then have "store_bytes (m(a := b)) (a + 1) bs a = (m(a := b)) a"
      by (rule store_bytes_other)
    with 0 show ?thesis by simp
  next
    case (Suc k)
    have "store_bytes (m(a := b)) (a + 1) bs ((a + 1) + of_nat k) = bs ! k"
      using Cons.prems Suc by (intro Cons.IH) auto
    with Suc show ?thesis by (simp add: ac_simps)
  qed
qed

lemma unat_add_of_nat:
  assumes "unat (a :: 64 word) + i < 2 ^ 64"
  shows "unat (a + of_nat i) = unat a + i"
proof -
  have "unat (a + of_nat i) = (unat a + i mod 2 ^ 64) mod 2 ^ 64"
    by (simp add: unat_word_ariths unat_of_nat)
  also have "\<dots> = unat a + i"
    using assms by simp
  finally show ?thesis .
qed

lemma store_bytes_outside:
  assumes "unat a + length bs \<le> 2 ^ 64"
    and "unat x < unat a \<or> unat a + length bs \<le> unat x"
  shows "store_bytes m a bs x = m x"
proof (rule store_bytes_other, intro allI impI)
  fix i assume i: "i < length bs"
  then have "unat (a + of_nat i) = unat a + i"
    using assms(1) by (intro unat_add_of_nat) simp
  with assms(2) i show "x \<noteq> a + of_nat i" by auto
qed

lemma load_bytes_eq_map:
  "load_bytes m a n = map (\<lambda>i. m (a + of_nat i)) [0..<n]"
proof (induction n arbitrary: a)
  case 0
  then show ?case by simp
next
  case (Suc n)
  have "[0..<Suc n] = 0 # map Suc [0..<n]"
    by (simp add: upt_conv_Cons map_Suc_upt del: upt_Suc)
  then show ?case
    by (simp add: Suc.IH comp_def ac_simps del: upt_Suc)
qed

lemma load_bytes_store_bytes:
  assumes "i + n \<le> length bs" and "length bs \<le> 2 ^ 64"
  shows "load_bytes (store_bytes m a bs) (a + of_nat i) n = take n (drop i bs)"
proof (rule nth_equalityI)
  show "length (load_bytes (store_bytes m a bs) (a + of_nat i) n) = length (take n (drop i bs))"
    using assms(1) by (simp add: load_bytes_eq_map)
next
  fix j assume "j < length (load_bytes (store_bytes m a bs) (a + of_nat i) n)"
  then have j: "j < n" by (simp add: load_bytes_eq_map)
  then have "load_bytes (store_bytes m a bs) (a + of_nat i) n ! j =
               store_bytes m a bs (a + of_nat (i + j))"
    by (simp add: load_bytes_eq_map ac_simps)
  also have "\<dots> = bs ! (i + j)"
    using j assms by (intro store_bytes_nth) simp_all
  finally show "load_bytes (store_bytes m a bs) (a + of_nat i) n ! j = take n (drop i bs) ! j"
    using j assms(1) by simp
qed

lemma load_bytes_store_bytes0:
  assumes "n \<le> length bs" and "length bs \<le> 2 ^ 64"
  shows "load_bytes (store_bytes m a bs) a n = take n bs"
  using load_bytes_store_bytes [of 0 n bs m a] assms by simp

subsection \<open>The firmware calls\<close>

lemma handle_path_simps [simp]:
  "handle_path (fw\<lparr>calls := c\<rparr>) h = handle_path fw h"
  "handle_path (fw\<lparr>mem := m\<rparr>) h = handle_path fw h"
  "handle_path (fw\<lparr>pool_calls := n\<rparr>) h = handle_path fw h"
  by (simp_all add: handle_path_def)

lemma file_bytes_simps [simp]:
  "file_bytes (fw\<lparr>calls := c\<rparr>) h = file_bytes fw h"
  "file_bytes (fw\<lparr>mem := m\<rparr>) h = file_bytes fw h"
  "file_bytes (fw\<lparr>pool_calls := n\<rparr>) h = file_bytes fw h"
  by (simp_all add: file_bytes_def)

lemma file_pos_simps [simp]:
  "file_pos (fw\<lparr>calls := c\<rparr>) h = file_pos fw h"
  "file_pos (fw\<lparr>mem := m\<rparr>) h = file_pos fw h"
  "file_pos (fw\<lparr>pool_calls := n\<rparr>) h = file_pos fw h"
  by (simp_all add: file_pos_def)

lemma Read_frame:
  "volume (snd (Read h n b fw)) = volume fw \<and> gop (snd (Read h n b fw)) = gop fw \<and>
   pool_at (snd (Read h n b fw)) = pool_at fw \<and> pool_calls (snd (Read h n b fw)) = pool_calls fw \<and>
   hdr_var (snd (Read h n b fw)) = hdr_var fw \<and> pages_grant (snd (Read h n b fw)) = pages_grant fw \<and>
   length (opened (snd (Read h n b fw))) = length (opened fw) \<and>
   handle_path (snd (Read h n b fw)) h' = handle_path fw h'"
  by (cases "h' = h") (auto simp: Read_def Let_def log_call_def handle_path_def)

lemma SetPosition_frame:
  "volume (SetPosition h p fw) = volume fw \<and> gop (SetPosition h p fw) = gop fw \<and>
   pool_at (SetPosition h p fw) = pool_at fw \<and> pool_calls (SetPosition h p fw) = pool_calls fw \<and>
   hdr_var (SetPosition h p fw) = hdr_var fw \<and> pages_grant (SetPosition h p fw) = pages_grant fw \<and>
   mem (SetPosition h p fw) = mem fw \<and>
   length (opened (SetPosition h p fw)) = length (opened fw) \<and>
   handle_path (SetPosition h p fw) h' = handle_path fw h'"
  by (cases "h' = h") (auto simp: SetPosition_def Let_def log_call_def handle_path_def)

lemma log_call_frame:
  "volume (log_call c fw) = volume fw \<and> gop (log_call c fw) = gop fw \<and>
   pool_at (log_call c fw) = pool_at fw \<and> pool_calls (log_call c fw) = pool_calls fw \<and>
   hdr_var (log_call c fw) = hdr_var fw \<and> pages_grant (log_call c fw) = pages_grant fw \<and>
   mem (log_call c fw) = mem fw \<and> opened (log_call c fw) = opened fw \<and>
   handle_path (log_call c fw) h' = handle_path fw h' \<and>
   file_bytes (log_call c fw) h' = file_bytes fw h' \<and>
   file_pos (log_call c fw) h' = file_pos fw h'"
  by (simp add: log_call_def handle_path_def file_bytes_def file_pos_def)

lemma AllocatePages_snd:
  "snd (AllocatePages ty mty n a fw) =
     log_call (CallAllocatePages ty mty n a
       (if pages_grant fw ty a n = None then EFI_OUT_OF_RESOURCES else EFI_SUCCESS)) fw"
  by (simp add: AllocatePages_def split: option.split)

lemma AllocatePages_fst:
  "fst (AllocatePages AllocateAddress mty n a fw) =
     (if pages_grant fw AllocateAddress a n = None then EFI_OUT_OF_RESOURCES else EFI_SUCCESS, a)"
  by (simp add: AllocatePages_def split: option.split)

lemma load_segment_unfold:
  "load_segment k p fw =
     (let ph = read_Elf64_Phdr fw p in
      if p_type ph = PT_LOAD then
        snd (Read k (p_filesz ph) (p_paddr ph)
          (SetPosition k (p_offset ph)
            (log_call (CallAllocatePages AllocateAddress EfiLoaderData (page_count (p_memsz ph)) (p_paddr ph)
               (if pages_grant fw AllocateAddress (p_paddr ph) (page_count (p_memsz ph)) = None
                then EFI_OUT_OF_RESOURCES else EFI_SUCCESS)) fw)))
      else fw)"
  by (simp add: load_segment_def Let_def split_beta AllocatePages_snd AllocatePages_fst)

lemma load_segment_frame:
  "volume (load_segment k p fw) = volume fw \<and> gop (load_segment k p fw) = gop fw \<and>
   pool_at (load_segment k p fw) = pool_at fw \<and> pool_calls (load_segment k p fw) = pool_calls fw \<and>
   hdr_var (load_segment k p fw) = hdr_var fw \<and> pages_grant (load_segment k p fw) = pages_grant fw \<and>
   length (opened (load_segment k p fw)) = length (opened fw) \<and>
   handle_path (load_segment k p fw) h' = handle_path fw h'"
  by (simp add: load_segment_unfold Let_def Read_frame SetPosition_frame log_call_frame)

lemma map_segments_frame:
  "volume (map_segments eh ps k i fw) = volume fw \<and> gop (map_segments eh ps k i fw) = gop fw \<and>
   pool_at (map_segments eh ps k i fw) = pool_at fw \<and> pool_calls (map_segments eh ps k i fw) = pool_calls fw \<and>
   hdr_var (map_segments eh ps k i fw) = hdr_var fw \<and> pages_grant (map_segments eh ps k i fw) = pages_grant fw \<and>
   length (opened (map_segments eh ps k i fw)) = length (opened fw) \<and>
   handle_path (map_segments eh ps k i fw) h' = handle_path fw h'"
proof (induction eh ps k i fw rule: map_segments.induct)
  case (1 header phdrs Kernel i fw)
  show ?case
  proof (cases "phdrs + of_nat (i * unat (e_phentsize header)) < phdrs + scast (phdr_table_bytes header)")
    case True
    have eq: "map_segments header phdrs Kernel i fw =
                map_segments header phdrs Kernel (Suc i)
                  (load_segment Kernel (phdrs + of_nat (i * unat (e_phentsize header))) fw)"
      using True by (subst map_segments.simps) (simp only: if_True)
    show ?thesis
      unfolding eq
      using "1.IH" [OF True]
        load_segment_frame [of Kernel "phdrs + of_nat (i * unat (e_phentsize header))" fw h']
      by simp
  next
    case False
    have eq: "map_segments header phdrs Kernel i fw = fw"
      using False by (subst map_segments.simps) (simp only: if_False)
    show ?thesis
      unfolding eq by simp
  qed
qed

lemma Read_effect:
  "mem (snd (Read h n b fw)) = store_bytes (mem fw) b (take (unat n) (drop (file_pos fw h) (file_bytes fw h))) \<and>
   calls (snd (Read h n b fw)) = calls fw @ [CallRead h n b] \<and>
   fst (Read h n b fw) = of_nat (length (take (unat n) (drop (file_pos fw h) (file_bytes fw h))))"
  by (simp add: Read_def Let_def log_call_def)

lemma SetPosition_calls:
  "calls (SetPosition h p fw) = calls fw @ [CallSetPosition h p]"
  by (simp add: SetPosition_def)

lemma SetPosition_file_bytes:
  "file_bytes (SetPosition h p fw) h' = file_bytes fw h'"
  using SetPosition_frame [of h p fw h'] by (simp add: file_bytes_def)

lemma SetPosition_file_pos:
  "h < length (opened fw) \<Longrightarrow>
     file_pos (SetPosition h p fw) h = (if p = - 1 then length (file_bytes fw h) else unat p)"
  by (simp add: SetPosition_def file_pos_def log_call_def)

lemma of_nat_word64_inj:
  assumes "i < 2 ^ 64" and "j < 2 ^ 64" and "(of_nat i :: 64 word) = of_nat j"
  shows "i = j"
proof -
  have "unat (of_nat i :: 64 word) = unat (of_nat j :: 64 word)"
    using assms(3) by simp
  then have "i mod 2 ^ 64 = j mod 2 ^ 64"
    by (simp add: unat_of_nat)
  with assms(1,2) show ?thesis by simp
qed

lemma unat_lt_2p64: "unat (w :: 64 word) < 2 ^ 64"
  using unsigned_less [of w, where 'a = nat] by simp

subsection \<open>LoadFile and LoadPSF1Font\<close>

lemma LoadFile_None_eq:
  "LoadFile None Path fw =
     (if volume fw [Path] = None
      then (None,
            fw\<lparr>opened := opened fw @ [\<lparr>of_path = [], of_pos = 0\<rparr>],
               calls := calls fw @
                 [CallHandleProtocol ''gEfiLoadedImageProtocolGuid'',
                  CallHandleProtocol ''gEfiSimpleFileSystemProtocolGuid'',
                  CallOpenVolume,
                  CallOpen (length (opened fw)) Path EFI_FILE_MODE_READ EFI_FILE_READ_ONLY EFI_NOT_FOUND]\<rparr>)
      else (Some (Suc (length (opened fw))),
            fw\<lparr>opened := opened fw @ [\<lparr>of_path = [], of_pos = 0\<rparr>, \<lparr>of_path = [Path], of_pos = 0\<rparr>],
               calls := calls fw @
                 [CallHandleProtocol ''gEfiLoadedImageProtocolGuid'',
                  CallHandleProtocol ''gEfiSimpleFileSystemProtocolGuid'',
                  CallOpenVolume,
                  CallOpen (length (opened fw)) Path EFI_FILE_MODE_READ EFI_FILE_READ_ONLY EFI_SUCCESS]\<rparr>))"
  by (simp add: LoadFile_def HandleProtocol_def OpenVolume_def Open_def log_call_def handle_path_def
      Let_def nth_append EFI_SUCCESS_def EFI_NOT_FOUND_def)

lemma LoadFile_Some_eq:
  "LoadFile (Some d) Path fw =
     (if d < length (opened fw) \<and> volume fw (handle_path fw d @ [Path]) \<noteq> None
      then (Some (length (opened fw)),
            fw\<lparr>opened := opened fw @ [\<lparr>of_path = handle_path fw d @ [Path], of_pos = 0\<rparr>],
               calls := calls fw @
                 [CallHandleProtocol ''gEfiLoadedImageProtocolGuid'',
                  CallHandleProtocol ''gEfiSimpleFileSystemProtocolGuid'',
                  CallOpen d Path EFI_FILE_MODE_READ EFI_FILE_READ_ONLY EFI_SUCCESS]\<rparr>)
      else (None,
            fw\<lparr>calls := calls fw @
                 [CallHandleProtocol ''gEfiLoadedImageProtocolGuid'',
                  CallHandleProtocol ''gEfiSimpleFileSystemProtocolGuid'',
                  CallOpen d Path EFI_FILE_MODE_READ EFI_FILE_READ_ONLY EFI_NOT_FOUND]\<rparr>))"
  by (simp add: LoadFile_def HandleProtocol_def Open_def log_call_def
      Let_def EFI_SUCCESS_def EFI_NOT_FOUND_def)

text \<open>What \<open>LoadFile\<close> leaves alone, and what a handle it returns stands for.\<close>

lemma LoadFile_frame:
  "volume (snd (LoadFile D P fw)) = volume fw \<and> gop (snd (LoadFile D P fw)) = gop fw \<and>
   pool_at (snd (LoadFile D P fw)) = pool_at fw \<and> pool_calls (snd (LoadFile D P fw)) = pool_calls fw \<and>
   hdr_var (snd (LoadFile D P fw)) = hdr_var fw \<and> pages_grant (snd (LoadFile D P fw)) = pages_grant fw \<and>
   mem (snd (LoadFile D P fw)) = mem fw"
  by (cases D) (simp_all add: LoadFile_None_eq LoadFile_Some_eq)

lemma LoadFile_handle:
  assumes "LoadFile D P fw = (Some f, fw')"
  shows "f < length (opened fw') \<and> file_pos fw' f = 0 \<and>
         handle_path fw' f = (case D of None \<Rightarrow> [] | Some d \<Rightarrow> handle_path fw d) @ [P] \<and>
         volume fw (handle_path fw' f) \<noteq> None"
  using assms
  by (cases D) (auto simp: LoadFile_None_eq LoadFile_Some_eq file_pos_def handle_path_def nth_append
      split: if_splits)

lemma AllocatePool_eq:
  "AllocatePool ty n fw =
     (pool_at fw (pool_calls fw),
      fw\<lparr>pool_calls := Suc (pool_calls fw), calls := calls fw @ [CallAllocatePool ty n]\<rparr>)"
  by (simp add: AllocatePool_def log_call_def)

lemma read_PSF1_HEADER_fields:
  "magic (decode_PSF1_HEADER (load_bytes m a 4)) ! 0 = m a \<and>
   magic (decode_PSF1_HEADER (load_bytes m a 4)) ! Suc 0 = m (a + 1) \<and>
   mode (decode_PSF1_HEADER (load_bytes m a 4)) = m (a + 2) \<and>
   charsize (decode_PSF1_HEADER (load_bytes m a 4)) = m (a + 3)"
  by (simp add: read_PSF1_HEADER_def decode_PSF1_HEADER_def eval_nat_numeral ac_simps)

lemma store_bytes_first4:
  assumes "length bs \<le> 4"
  shows "(0 < length bs \<longrightarrow> store_bytes m a bs a = bs ! 0) \<and>
         (1 < length bs \<longrightarrow> store_bytes m a bs (a + 1) = bs ! 1) \<and>
         (2 < length bs \<longrightarrow> store_bytes m a bs (a + 2) = bs ! 2) \<and>
         (3 < length bs \<longrightarrow> store_bytes m a bs (a + 3) = bs ! 3)"
proof -
  have le: "length bs \<le> 2 ^ 64" using assms by simp
  show ?thesis
    using store_bytes_nth [of 0 bs m a] store_bytes_nth [of 1 bs m a]
      store_bytes_nth [of 2 bs m a] store_bytes_nth [of 3 bs m a] le
    by simp
qed

text \<open>The font loader after the file has been opened.\<close>

lemma LoadPSF1Font_opened:
  assumes "LoadFile D P fw = (Some f, fw1)"
  shows "LoadPSF1Font D P fw =
     (let buf = pool_at fw1 (pool_calls fw1);
          fw3 = fw1\<lparr>pool_calls := Suc (pool_calls fw1),
                    mem := store_bytes (mem fw1) buf (take 4 (file_bytes fw1 f)),
                    opened := (opened fw1)[f := \<lparr>of_path = handle_path fw1 f,
                                                 of_pos = length (take 4 (file_bytes fw1 f))\<rparr>],
                    calls := calls fw1 @ [CallAllocatePool EfiLoaderData sizeof_PSF1_HEADER,
                                          CallRead f sizeof_PSF1_HEADER buf]\<rparr>;
          hdr = decode_PSF1_HEADER
                  (load_bytes (store_bytes (mem fw1) buf (take 4 (file_bytes fw1 f))) buf 4)
      in if magic hdr ! 0 \<noteq> PSF1_MAGIC0 \<or> magic hdr ! 1 \<noteq> PSF1_MAGIC1 then (None, fw3)
         else
           (let fw4 = SetPosition f sizeof_PSF1_HEADER fw3;
                (glyphs, fw5) = AllocatePool EfiLoaderData (glyphBufferSize hdr) fw4;
                (n, fw6) = Read f (glyphBufferSize hdr) glyphs fw5;
                (finishedFont, fw7) = AllocatePool EfiLoaderData sizeof_PSF1_FONT fw6
            in (Some \<lparr>psf1_Header = buf, glyphBuffer = glyphs\<rparr>, fw7)))"
proof -
  have pos: "file_pos fw1 f = 0"
    using LoadFile_handle [OF assms] by simp
  show ?thesis
    using pos
    by (simp add: LoadPSF1Font_def assms AllocatePool_eq Read_def log_call_def Let_def
        sizeof_PSF1_HEADER_def read_PSF1_HEADER_def)
qed

lemma LoadPSF1Font_bad_magic:
  assumes "LoadFile D P fw = (Some f, fw1)"
    and "2 \<le> length (file_bytes fw1 f)"
    and "file_bytes fw1 f ! 0 \<noteq> 0x36 \<or> file_bytes fw1 f ! 1 \<noteq> 0x04"
  shows "fst (LoadPSF1Font D P fw) = None"
    and "calls (snd (LoadPSF1Font D P fw)) =
           calls fw1 @ [CallAllocatePool EfiLoaderData sizeof_PSF1_HEADER,
                        CallRead f sizeof_PSF1_HEADER (pool_at fw1 (pool_calls fw1))]"
    and "file_pos (snd (LoadPSF1Font D P fw)) f = min 4 (length (file_bytes fw1 f))"
proof -
  define bs where "bs = take 4 (file_bytes fw1 f)"
  have len: "length bs \<le> 4" "1 < length bs" "0 < length bs"
    using assms(2) by (auto simp: bs_def)
  have nth: "bs ! 0 = file_bytes fw1 f ! 0" "bs ! 1 = file_bytes fw1 f ! 1"
    by (simp_all add: bs_def)
  have f: "f < length (opened fw1)"
    using LoadFile_handle [OF assms(1)] by simp
  have bad: "store_bytes (mem fw1) (pool_at fw1 (pool_calls fw1)) bs (pool_at fw1 (pool_calls fw1)) \<noteq> PSF1_MAGIC0 \<or>
             store_bytes (mem fw1) (pool_at fw1 (pool_calls fw1)) bs (pool_at fw1 (pool_calls fw1) + 1) \<noteq> PSF1_MAGIC1"
    using store_bytes_first4 [OF len(1)] len(2,3) nth assms(3)
    by (simp add: PSF1_MAGIC0_def PSF1_MAGIC1_def)
  show "fst (LoadPSF1Font D P fw) = None"
    using bad by (auto simp add: LoadPSF1Font_opened [OF assms(1)] Let_def read_PSF1_HEADER_fields bs_def)
  show "calls (snd (LoadPSF1Font D P fw)) =
           calls fw1 @ [CallAllocatePool EfiLoaderData sizeof_PSF1_HEADER,
                        CallRead f sizeof_PSF1_HEADER (pool_at fw1 (pool_calls fw1))]"
    using bad by (auto simp add: LoadPSF1Font_opened [OF assms(1)] Let_def read_PSF1_HEADER_fields bs_def)
  show "file_pos (snd (LoadPSF1Font D P fw)) f = min 4 (length (file_bytes fw1 f))"
    using bad f by (auto simp add: LoadPSF1Font_opened [OF assms(1)] Let_def read_PSF1_HEADER_fields bs_def
        file_pos_def)
qed

lemma LoadPSF1Font_not_found:
  assumes "fst (LoadFile D P fw) = None"
  shows "fst (LoadPSF1Font D P fw) = None" and "snd (LoadPSF1Font D P fw) = snd (LoadFile D P fw)"
  using assms by (simp_all add: LoadPSF1Font_def split_beta)

subsection \<open>The loop body\<close>

text \<open>The effect of the loop body on a loadable entry.\<close>

lemma load_segment_PT_LOAD:
  assumes "p_type (read_Elf64_Phdr fw p) = PT_LOAD" and "k < length (opened fw)"
  shows "mem (load_segment k p fw) =
           store_bytes (mem fw) (p_paddr (read_Elf64_Phdr fw p))
             (take (unat (p_filesz (read_Elf64_Phdr fw p)))
                (drop (if p_offset (read_Elf64_Phdr fw p) = - 1 then length (file_bytes fw k)
                       else unat (p_offset (read_Elf64_Phdr fw p)))
                   (file_bytes fw k)))"
    and "calls (load_segment k p fw) =
           calls fw @
           [CallAllocatePages AllocateAddress EfiLoaderData
              (page_count (p_memsz (read_Elf64_Phdr fw p))) (p_paddr (read_Elf64_Phdr fw p))
              (if pages_grant fw AllocateAddress (p_paddr (read_Elf64_Phdr fw p))
                    (page_count (p_memsz (read_Elf64_Phdr fw p))) = None
               then EFI_OUT_OF_RESOURCES else EFI_SUCCESS),
            CallSetPosition k (p_offset (read_Elf64_Phdr fw p)),
            CallRead k (p_filesz (read_Elf64_Phdr fw p)) (p_paddr (read_Elf64_Phdr fw p))]"
  using assms
  by (simp_all add: load_segment_unfold Let_def Read_effect SetPosition_calls SetPosition_file_bytes
        SetPosition_file_pos SetPosition_frame log_call_frame)

subsection \<open>The example states\<close>

lemma demo_phdr0_decoded:
  "decode_Elf64_Phdr demo_phdr0 =
     \<lparr>p_type = 1, p_flags = 5, p_offset = 176, p_vaddr = 0x100000, p_paddr = 0x100000,
      p_filesz = 2, p_memsz = 4, p_align = 0x1000\<rparr>"
  by (simp add: decode_Elf64_Phdr_def demo_phdr0_def le32_def le64_def)

lemma loop_entry0:
  "read_Elf64_Phdr (loop_fw (demo_phdr0 @ demo_phdr1) g) 0x5000 = decode_Elf64_Phdr demo_phdr0"
proof -
  have "load_bytes (store_bytes (\<lambda>a. 0xAA) 0x5000 (demo_phdr0 @ demo_phdr1)) 0x5000 56 =
          take 56 (demo_phdr0 @ demo_phdr1)"
    by (rule load_bytes_store_bytes0) (simp_all add: demo_phdr0_def demo_phdr1_def)
  also have "\<dots> = demo_phdr0"
    by (simp add: demo_phdr0_def)
  finally show ?thesis
    by (simp add: read_Elf64_Phdr_def loop_fw_def sizeof_Elf64_Phdr_def)
qed

lemma demo_elf_payload: "take 2 (drop 176 demo_elf) = [0x90, 0xC3]"
  by (simp add: demo_elf_def demo_ehdr_def demo_phdr0_def demo_phdr1_def)


lemma boot_fw_simps:
  "volume (boot_fw elf fnt g grant) = boot_volume elf fnt"
  "opened (boot_fw elf fnt g grant) = []"
  "mem (boot_fw elf fnt g grant) = (\<lambda>a. 0xAA)"
  "pool_at (boot_fw elf fnt g grant) = (\<lambda>n. 0x4000 + 0x1000 * of_nat n)"
  "pool_calls (boot_fw elf fnt g grant) = 0"
  "pages_grant (boot_fw elf fnt g grant) = grant"
  "gop (boot_fw elf fnt g grant) = g"
  "hdr_var (boot_fw elf fnt g grant) = 0x7F00"
  "calls (boot_fw elf fnt g grant) = []"
  by (simp_all add: boot_fw_def)

lemma boot_volume_simps:
  "boot_volume elf fnt [''kernel''] = Some DirectoryNode"
  "boot_volume elf fnt [''files''] = Some DirectoryNode"
  "boot_volume elf fnt [''kernel'', ''main.elf''] = Some (RegularFile elf)"
  "boot_volume elf fnt [''files'', ''main.psf''] = Some (RegularFile fnt)"
  "boot_volume elf fnt [''bad.psf''] = Some (RegularFile bad_font)"
  "boot_volume elf fnt [''none.psf''] = None"
  by (simp_all add: boot_volume_def)

lemma LoadPSF1Font_good_magic:
  assumes "LoadFile D P fw = (Some f, fw1)"
    and "4 \<le> length (file_bytes fw1 f)"
    and "file_bytes fw1 f ! 0 = 0x36" and "file_bytes fw1 f ! 1 = 0x04"
  shows "fst (LoadPSF1Font D P fw) =
           Some \<lparr>psf1_Header = pool_at fw1 (pool_calls fw1),
                 glyphBuffer = pool_at fw1 (Suc (pool_calls fw1))\<rparr>"
    and "calls (snd (LoadPSF1Font D P fw)) =
           calls fw1 @
           [CallAllocatePool EfiLoaderData sizeof_PSF1_HEADER,
            CallRead f sizeof_PSF1_HEADER (pool_at fw1 (pool_calls fw1)),
            CallSetPosition f sizeof_PSF1_HEADER,
            CallAllocatePool EfiLoaderData
              (glyphBufferSize (decode_PSF1_HEADER (take 4 (file_bytes fw1 f)))),
            CallRead f (glyphBufferSize (decode_PSF1_HEADER (take 4 (file_bytes fw1 f))))
              (pool_at fw1 (Suc (pool_calls fw1))),
            CallAllocatePool EfiLoaderData sizeof_PSF1_FONT]"
proof -
  define bs where "bs = take 4 (file_bytes fw1 f)"
  have len: "length bs = 4"
    using assms(2) by (simp add: bs_def)
  have nth: "bs ! 0 = 0x36" "bs ! 1 = 0x04"
    using assms(2,3,4) by (simp_all add: bs_def)
  have ld: "load_bytes (store_bytes (mem fw1) (pool_at fw1 (pool_calls fw1)) bs)
              (pool_at fw1 (pool_calls fw1)) 4 = bs"
    using load_bytes_store_bytes0 [of 4 bs "mem fw1" "pool_at fw1 (pool_calls fw1)"] len by simp
  have ok: "\<not> (magic (decode_PSF1_HEADER bs) ! 0 \<noteq> PSF1_MAGIC0 \<or>
                magic (decode_PSF1_HEADER bs) ! 1 \<noteq> PSF1_MAGIC1)"
    using nth len by (simp add: decode_PSF1_HEADER_def PSF1_MAGIC0_def PSF1_MAGIC1_def)
  have eq: "LoadPSF1Font D P fw =
     (let buf = pool_at fw1 (pool_calls fw1);
          fw3 = fw1\<lparr>pool_calls := Suc (pool_calls fw1),
                    mem := store_bytes (mem fw1) buf bs,
                    opened := (opened fw1)[f := \<lparr>of_path = handle_path fw1 f, of_pos = length bs\<rparr>],
                    calls := calls fw1 @ [CallAllocatePool EfiLoaderData sizeof_PSF1_HEADER,
                                          CallRead f sizeof_PSF1_HEADER buf]\<rparr>;
          fw4 = SetPosition f sizeof_PSF1_HEADER fw3;
          (glyphs, fw5) = AllocatePool EfiLoaderData (glyphBufferSize (decode_PSF1_HEADER bs)) fw4;
          (n, fw6) = Read f (glyphBufferSize (decode_PSF1_HEADER bs)) glyphs fw5;
          (finishedFont, fw7) = AllocatePool EfiLoaderData sizeof_PSF1_FONT fw6
      in (Some \<lparr>psf1_Header = buf, glyphBuffer = glyphs\<rparr>, fw7))"
    using ok unfolding LoadPSF1Font_opened [OF assms(1)] bs_def [symmetric] Let_def ld
    by simp
  show "fst (LoadPSF1Font D P fw) =
           Some \<lparr>psf1_Header = pool_at fw1 (pool_calls fw1),
                 glyphBuffer = pool_at fw1 (Suc (pool_calls fw1))\<rparr>"
    unfolding eq
    by (simp add: Let_def split_beta AllocatePool_eq SetPosition_frame)
  show "calls (snd (LoadPSF1Font D P fw)) =
           calls fw1 @
           [CallAllocatePool EfiLoaderData sizeof_PSF1_HEADER,
            CallRead f sizeof_PSF1_HEADER (pool_at fw1 (pool_calls fw1)),
            CallSetPosition f sizeof_PSF1_HEADER,
            CallAllocatePool EfiLoaderData
              (glyphBufferSize (decode_PSF1_HEADER (take 4 (file_bytes fw1 f)))),
            CallRead f (glyphBufferSize (decode_PSF1_HEADER (take 4 (file_bytes fw1 f))))
              (pool_at fw1 (Suc (pool_calls fw1))),
            CallAllocatePool EfiLoaderData sizeof_PSF1_FONT]"
    unfolding eq bs_def [symmetric]
    by (simp add: Let_def split_beta AllocatePool_eq SetPosition_frame SetPosition_calls Read_effect)
qed

subsection \<open>The page count and the loop\<close>

lemma unat_lt_2p16: "unat (w :: 16 word) < 2 ^ 16"
  using unsigned_less [of w, where 'a = nat] by simp

lemma phdr_table_bytes_unat:
  "unat (phdr_table_bytes header) = unat (e_phnum header) * unat (e_phentsize header)"
proof -
  have "unat (e_phnum header) * unat (e_phentsize header) < 2 ^ 16 * 2 ^ 16"
    using unat_lt_2p16 [of "e_phnum header"] unat_lt_2p16 [of "e_phentsize header"]
    by (intro mult_strict_mono) simp_all
  then have lt: "unat (e_phnum header) * unat (e_phentsize header) < 2 ^ 32"
    by simp
  have up: "unat (ucast w :: 32 word) = unat w" for w :: "16 word"
    using unat_lt_2p16 [of w] by (simp add: unsigned_ucast_eq take_bit_nat_eq_self)
  have "unat (phdr_table_bytes header) =
          (unat (ucast (e_phnum header) :: 32 word) * unat (ucast (e_phentsize header) :: 32 word)) mod 2 ^ 32"
    by (simp add: phdr_table_bytes_def unat_word_ariths)
  also have "\<dots> = (unat (e_phnum header) * unat (e_phentsize header)) mod 2 ^ 32"
    by (simp only: up)
  also have "\<dots> = unat (e_phnum header) * unat (e_phentsize header)"
    using lt by simp
  finally show ?thesis .
qed

lemma sint32_small:
  assumes "uint (w :: 32 word) < 2 ^ 31"
  shows "sint w = uint w"
proof -
  have "sint w = signed_take_bit 31 (uint w)"
    by (simp add: sint_uint)
  also have "\<dots> = uint w"
  proof (rule signed_take_bit_int_eq_self)
    show "- (2 ^ 31) \<le> uint w"
      by (rule order_trans [of _ 0]) simp_all
    show "uint w < 2 ^ 31" by (rule assms)
  qed
  finally show ?thesis .
qed

text \<open>Line 242 gives the page count \<open>ceil(p_memsz / 4096)\<close> as long as that count fits the
  positive range of \<open>int\<close>.\<close>

lemma page_count_ceil:
  assumes "unat memsz \<le> 2 ^ 43 - 4096"
  shows "unat (page_count memsz) = (unat memsz + 4095) div 4096"
proof -
  define q :: "64 word" where "q = (memsz + 0x1000 - 1) div 0x1000"
  have s: "memsz + 0x1000 - 1 = memsz + 0xFFF" by simp
  have "unat (memsz + 0xFFF) = unat memsz + unat (0xFFF :: 64 word)"
    using assms by (subst unat_add_lem [THEN iffD1]) simp_all
  then have u: "unat (memsz + 0xFFF) = unat memsz + 4095" by simp
  have q: "unat q = (unat memsz + 4095) div 4096"
    by (simp add: q_def s unat_div u)
  have "(unat memsz + 4095) div 4096 \<le> (2 ^ 43 - 4096 + 4095) div 4096"
    using assms by (intro div_le_mono) simp
  then have small: "unat q < 2 ^ 31"
    by (simp add: q)
  have c: "unat (ucast q :: 32 word) = unat q"
    using small by (simp add: unsigned_ucast_eq take_bit_nat_eq_self)
  have "int (unat (ucast q :: 32 word)) = int (unat q)"
    by (simp only: c)
  then have d: "uint (ucast q :: 32 word) = uint q"
    by simp
  have "int (unat q) < int (2 ^ 31)"
    using small by (simp only: of_nat_less_iff)
  then have "uint q < 2 ^ 31"
    by simp
  then have "uint (ucast q :: 32 word) < 2 ^ 31"
    by (simp only: d)
  then have "sint (ucast q :: 32 word) = uint (ucast q :: 32 word)"
    by (rule sint32_small)
  then have "sint (ucast q :: 32 word) = uint q"
    by (simp only: d)
  then have "(scast (ucast q :: 32 word) :: 64 word) = q"
    by (simp add: scast_eq)
  then have "page_count memsz = q"
    unfolding page_count_def q_def .
  then show ?thesis
    by (simp only: q)
qed

text \<open>When the table's size fits \<open>int\<close> and the table ends below the end of the address
  space, the condition of the loop compares the offsets, and the loop is a fold over the
  entries of the table.\<close>

lemma scast_phdr_table_bytes:
  assumes "unat (e_phnum header) * unat (e_phentsize header) < 2 ^ 31"
  shows "(scast (phdr_table_bytes header) :: 64 word) =
           of_nat (unat (e_phnum header) * unat (e_phentsize header))"
proof -
  have "uint (phdr_table_bytes header) = int (unat (phdr_table_bytes header))"
    by simp
  also have "\<dots> = int (unat (e_phnum header) * unat (e_phentsize header))"
    by (simp only: phdr_table_bytes_unat)
  finally have u: "uint (phdr_table_bytes header) = int (unat (e_phnum header) * unat (e_phentsize header))" .
  have "int (unat (e_phnum header) * unat (e_phentsize header)) < int (2 ^ 31)"
    using assms by (simp only: of_nat_less_iff)
  then have "uint (phdr_table_bytes header) < 2 ^ 31"
    by (simp only: u) simp
  then have "sint (phdr_table_bytes header) = int (unat (e_phnum header) * unat (e_phentsize header))"
    by (simp only: sint32_small u)
  then have "(of_int (sint (phdr_table_bytes header)) :: 64 word) =
      of_int (int (unat (e_phnum header) * unat (e_phentsize header)))"
    by (simp only:)
  then show ?thesis
    by (simp only: of_int_sint of_int_of_nat_eq)
qed

lemma loop_condition_iff:
  assumes "unat (e_phnum header) * unat (e_phentsize header) < 2 ^ 31"
    and "unat (phdrs :: addr) + unat (e_phnum header) * unat (e_phentsize header) < 2 ^ 64"
    and "j \<le> unat (e_phnum header)"
  shows "phdrs + of_nat (j * unat (e_phentsize header)) < phdrs + scast (phdr_table_bytes header) \<longleftrightarrow>
           j * unat (e_phentsize header) < unat (e_phnum header) * unat (e_phentsize header)"
proof -
  have le: "j * unat (e_phentsize header) \<le> unat (e_phnum header) * unat (e_phentsize header)"
    using assms(3) by (rule mult_le_mono1)
  have lt: "unat phdrs + j * unat (e_phentsize header) < 2 ^ 64"
    by (rule le_less_trans [OF add_left_mono [OF le] assms(2)])
  have a: "unat (phdrs + of_nat (j * unat (e_phentsize header))) =
             unat phdrs + j * unat (e_phentsize header)"
    using lt by (rule unat_add_of_nat)
  have b: "unat (phdrs + of_nat (unat (e_phnum header) * unat (e_phentsize header))) =
             unat phdrs + unat (e_phnum header) * unat (e_phentsize header)"
    using assms(2) by (rule unat_add_of_nat)
  show ?thesis
    by (simp only: scast_phdr_table_bytes [OF assms(1)] word_less_nat_alt a b nat_add_left_cancel_less)
qed

lemma map_segments_fold:
  assumes "e_phentsize header \<noteq> 0"
    and "unat (e_phnum header) * unat (e_phentsize header) < 2 ^ 31"
    and "unat phdrs + unat (e_phnum header) * unat (e_phentsize header) < 2 ^ 64"
    and "j \<le> unat (e_phnum header)"
  shows "map_segments header phdrs k j fw =
           fold (\<lambda>i. load_segment k (phdrs + of_nat (i * unat (e_phentsize header))))
             [j..<unat (e_phnum header)] fw"
  using assms(4)
proof (induction "unat (e_phnum header) - j" arbitrary: j fw)
  case 0
  then have j: "j = unat (e_phnum header)" by simp
  have "\<not> phdrs + of_nat (j * unat (e_phentsize header)) < phdrs + scast (phdr_table_bytes header)"
    using loop_condition_iff [OF assms(2) assms(3) "0.prems"] by (simp add: j)
  then have "map_segments header phdrs k j fw = fw"
    by (subst map_segments.simps) (simp only: if_False)
  then show ?case
    by (simp add: j)
next
  case (Suc d)
  then have lt: "j < unat (e_phnum header)" by simp
  have pos: "0 < unat (e_phentsize header)"
    using assms(1) by (simp add: unat_gt_0)
  have "j * unat (e_phentsize header) < unat (e_phnum header) * unat (e_phentsize header)"
    using lt pos by (simp only: mult_less_cancel2)
  then have cond: "phdrs + of_nat (j * unat (e_phentsize header)) < phdrs + scast (phdr_table_bytes header)"
    using loop_condition_iff [OF assms(2) assms(3) Suc.prems] by simp
  have step: "map_segments header phdrs k j fw =
                map_segments header phdrs k (Suc j)
                  (load_segment k (phdrs + of_nat (j * unat (e_phentsize header))) fw)"
    using cond by (subst map_segments.simps) (simp only: if_True)
  have "map_segments header phdrs k (Suc j)
          (load_segment k (phdrs + of_nat (j * unat (e_phentsize header))) fw) =
        fold (\<lambda>i. load_segment k (phdrs + of_nat (i * unat (e_phentsize header))))
          [Suc j..<unat (e_phnum header)]
          (load_segment k (phdrs + of_nat (j * unat (e_phentsize header))) fw)"
    using Suc.hyps(2) lt by (intro Suc.hyps(1)) simp_all
  then show ?case
    using lt by (simp only: step upt_conv_Cons fold_simps)
qed

lemma map_segments_none:
  assumes "e_phentsize header = 0"
  shows "map_segments header phdrs k 0 fw = fw"
proof -
  have "phdr_table_bytes header = 0"
    using assms by (simp add: phdr_table_bytes_def)
  then have "\<not> phdrs + of_nat (0 * unat (e_phentsize header)) < phdrs + scast (phdr_table_bytes header)"
    by simp
  then show ?thesis
    by (subst map_segments.simps) (simp only: if_False)
qed

lemma load_segment_calls:
  assumes "p_type (read_Elf64_Phdr fw p) = PT_LOAD"
  shows "calls (load_segment k p fw) =
           calls fw @
           [CallAllocatePages AllocateAddress EfiLoaderData
              (page_count (p_memsz (read_Elf64_Phdr fw p))) (p_paddr (read_Elf64_Phdr fw p))
              (if pages_grant fw AllocateAddress (p_paddr (read_Elf64_Phdr fw p))
                    (page_count (p_memsz (read_Elf64_Phdr fw p))) = None
               then EFI_OUT_OF_RESOURCES else EFI_SUCCESS),
            CallSetPosition k (p_offset (read_Elf64_Phdr fw p)),
            CallRead k (p_filesz (read_Elf64_Phdr fw p)) (p_paddr (read_Elf64_Phdr fw p))]"
  using assms
  by (simp add: load_segment_unfold Let_def Read_effect SetPosition_calls)

subsection \<open>More example states\<close>

lemma demo_phdr1_decoded:
  "decode_Elf64_Phdr demo_phdr1 =
     \<lparr>p_type = 4, p_flags = 0, p_offset = 0, p_vaddr = 0, p_paddr = 0,
      p_filesz = 0, p_memsz = 0, p_align = 0\<rparr>"
  by (simp add: decode_Elf64_Phdr_def demo_phdr1_def le32_def le64_def)

lemma huge_phdr_decoded:
  "decode_Elf64_Phdr huge_phdr =
     \<lparr>p_type = 1, p_flags = 5, p_offset = 176, p_vaddr = 0x100000, p_paddr = 0x100000,
      p_filesz = 2, p_memsz = 0x100000000000, p_align = 0x1000\<rparr>"
  by (simp add: decode_Elf64_Phdr_def huge_phdr_def le32_def le64_def)

lemma loop_entry1:
  "read_Elf64_Phdr (loop_fw (demo_phdr0 @ demo_phdr1) g) 0x5038 = decode_Elf64_Phdr demo_phdr1"
proof -
  have "load_bytes (store_bytes (\<lambda>a. 0xAA) 0x5000 (demo_phdr0 @ demo_phdr1)) (0x5000 + of_nat 56) 56 =
          take 56 (drop 56 (demo_phdr0 @ demo_phdr1))"
    by (rule load_bytes_store_bytes) (simp_all add: demo_phdr0_def demo_phdr1_def)
  also have "\<dots> = demo_phdr1"
    by (simp add: demo_phdr0_def demo_phdr1_def)
  finally show ?thesis
    by (simp add: read_Elf64_Phdr_def loop_fw_def sizeof_Elf64_Phdr_def)
qed

lemma loop_entry_huge:
  "read_Elf64_Phdr (loop_fw huge_phdr g) 0x5000 = decode_Elf64_Phdr huge_phdr"
proof -
  have "load_bytes (store_bytes (\<lambda>a. 0xAA) 0x5000 huge_phdr) 0x5000 56 = take 56 huge_phdr"
    by (rule load_bytes_store_bytes0) (simp_all add: huge_phdr_def)
  also have "\<dots> = huge_phdr"
    by (simp add: huge_phdr_def)
  finally show ?thesis
    by (simp add: read_Elf64_Phdr_def loop_fw_def sizeof_Elf64_Phdr_def)
qed

lemma demo_ehdr_decoded:
  "decode_Elf64_Ehdr demo_ehdr =
     \<lparr>e_ident = [0x7F, 0x45, 0x4C, 0x46, 2, 1, 1, 0, 0, 0, 0, 0, 0, 0, 0, 0],
      e_type = 2, e_machine = 62, e_version = 1, e_entry = 0x100000, e_phoff = 64,
      e_shoff = 0, e_flags = 0, e_ehsize = 64, e_phentsize = 56, e_phnum = 2,
      e_shentsize = 0, e_shnum = 0, e_shstrndx = 0\<rparr>"
  by (simp add: decode_Elf64_Ehdr_def demo_ehdr_def le16_def le32_def le64_def)

lemma loop_fw_simps:
  "volume (loop_fw tbl grant) = boot_volume demo_elf demo_font"
  "opened (loop_fw tbl grant) = [\<lparr>of_path = [''kernel'', ''main.elf''], of_pos = 0\<rparr>]"
  "mem (loop_fw tbl grant) = store_bytes (\<lambda>a. 0xAA) 0x5000 tbl"
  "pages_grant (loop_fw tbl grant) = grant"
  "calls (loop_fw tbl grant) = []"
  by (simp_all add: loop_fw_def)

lemma wide_ehdr_decoded:
  "decode_Elf64_Ehdr wide_ehdr =
     \<lparr>e_ident = [0x7F, 0x45, 0x4C, 0x46, 2, 1, 1, 0, 0, 0, 0, 0, 0, 0, 0, 0],
      e_type = 2, e_machine = 62, e_version = 1, e_entry = 0x100000, e_phoff = 64,
      e_shoff = 0, e_flags = 0, e_ehsize = 64, e_phentsize = 0xFFFF, e_phnum = 0xFFFF,
      e_shentsize = 0, e_shnum = 0, e_shstrndx = 0\<rparr>"
  by (simp add: decode_Elf64_Ehdr_def wide_ehdr_def le16_def le32_def le64_def)

lemma high_entry0:
  "read_Elf64_Phdr high_fw 0x200000 = decode_Elf64_Phdr demo_phdr0"
proof -
  have "load_bytes (store_bytes (\<lambda>a. 0xAA) 0x200000 demo_phdr0) 0x200000 56 = take 56 demo_phdr0"
    by (rule load_bytes_store_bytes0) (simp_all add: demo_phdr0_def)
  also have "\<dots> = demo_phdr0"
    by (simp add: demo_phdr0_def)
  finally show ?thesis
    by (simp add: read_Elf64_Phdr_def high_fw_def sizeof_Elf64_Phdr_def)
qed

lemma map_segments_stride:
  "\<exists>N. map_segments header phdrs k i fw =
         fold (\<lambda>i. load_segment k (phdrs + of_nat (i * unat (e_phentsize header)))) [i..<i + N] fw"
proof (induction header phdrs k i fw rule: map_segments.induct)
  case (1 header phdrs Kernel i fw)
  show ?case
  proof (cases "phdrs + of_nat (i * unat (e_phentsize header)) < phdrs + scast (phdr_table_bytes header)")
    case True
    have eq: "map_segments header phdrs Kernel i fw =
                map_segments header phdrs Kernel (Suc i)
                  (load_segment Kernel (phdrs + of_nat (i * unat (e_phentsize header))) fw)"
      using True by (subst map_segments.simps) (simp only: if_True)
    from "1.IH" [OF True] obtain N where
      N: "map_segments header phdrs Kernel (Suc i)
            (load_segment Kernel (phdrs + of_nat (i * unat (e_phentsize header))) fw) =
          fold (\<lambda>i. load_segment Kernel (phdrs + of_nat (i * unat (e_phentsize header))))
            [Suc i..<Suc i + N]
            (load_segment Kernel (phdrs + of_nat (i * unat (e_phentsize header))) fw)"
      by blast
    have "[i..<i + Suc N] = i # [Suc i..<Suc i + N]"
      by (simp add: upt_conv_Cons)
    then have "map_segments header phdrs Kernel i fw =
        fold (\<lambda>i. load_segment Kernel (phdrs + of_nat (i * unat (e_phentsize header))))
          [i..<i + Suc N] fw"
      by (simp only: eq N fold_simps)
    then show ?thesis by blast
  next
    case False
    have "map_segments header phdrs Kernel i fw = fw"
      using False by (subst map_segments.simps) (simp only: if_False)
    then have "map_segments header phdrs Kernel i fw =
        fold (\<lambda>i. load_segment Kernel (phdrs + of_nat (i * unat (e_phentsize header))))
          [i..<i + 0] fw"
      by simp
    then show ?thesis by blast
  qed
qed

subsection \<open>The stages of efi_main\<close>

lemma Print_frame:
  "volume (Print s fw) = volume fw \<and> gop (Print s fw) = gop fw \<and>
   pool_at (Print s fw) = pool_at fw \<and> pool_calls (Print s fw) = pool_calls fw \<and>
   hdr_var (Print s fw) = hdr_var fw \<and> pages_grant (Print s fw) = pages_grant fw \<and>
   mem (Print s fw) = mem fw \<and> opened (Print s fw) = opened fw \<and>
   handle_path (Print s fw) h = handle_path fw h \<and>
   file_bytes (Print s fw) h = file_bytes fw h \<and>
   file_pos (Print s fw) h = file_pos fw h"
  by (simp add: Print_def log_call_frame)

lemma read_header_frame:
  "volume (snd (read_header k fw)) = volume fw \<and> gop (snd (read_header k fw)) = gop fw \<and>
   pool_at (snd (read_header k fw)) = pool_at fw \<and>
   pool_calls (snd (read_header k fw)) = Suc (pool_calls fw) \<and>
   hdr_var (snd (read_header k fw)) = hdr_var fw \<and>
   pages_grant (snd (read_header k fw)) = pages_grant fw \<and>
   length (opened (snd (read_header k fw))) = length (opened fw) \<and>
   handle_path (snd (read_header k fw)) h = handle_path fw h"
  by (simp add: read_header_def GetInfo_def AllocatePool_eq split_beta Read_frame log_call_frame)

lemma read_header_value:
  assumes "file_pos fw k = 0" and "64 \<le> length (file_bytes fw k)"
  shows "fst (read_header k fw) = decode_Elf64_Ehdr (take 64 (file_bytes fw k))"
proof -
  have "load_bytes (store_bytes (mem fw) (hdr_var fw) (take 64 (file_bytes fw k))) (hdr_var fw) 64 =
          take 64 (take 64 (file_bytes fw k))"
    using assms(2) by (intro load_bytes_store_bytes0) simp_all
  then show ?thesis
    using assms(1)
    by (simp add: read_header_def GetInfo_def AllocatePool_eq split_beta Read_def Let_def
        log_call_def sizeof_Elf64_Ehdr_def)
qed

lemma load_phdrs_frame:
  "volume (snd (load_phdrs k header fw)) = volume fw \<and>
   gop (snd (load_phdrs k header fw)) = gop fw \<and>
   pool_at (snd (load_phdrs k header fw)) = pool_at fw \<and>
   pool_calls (snd (load_phdrs k header fw)) = Suc (pool_calls fw) \<and>
   hdr_var (snd (load_phdrs k header fw)) = hdr_var fw \<and>
   pages_grant (snd (load_phdrs k header fw)) = pages_grant fw \<and>
   length (opened (snd (load_phdrs k header fw))) = length (opened fw) \<and>
   handle_path (snd (load_phdrs k header fw)) h = handle_path fw h \<and>
   snd (fst (load_phdrs k header fw)) = pool_at fw (pool_calls fw)"
  by (simp add: load_phdrs_def AllocatePool_eq split_beta Let_def Read_frame SetPosition_frame)

lemma load_phdrs_size:
  assumes "k < length (opened fw)"
  shows "fst (fst (load_phdrs k header fw)) =
           of_nat (length (take (unat (scast (phdr_table_bytes header) :: 64 word))
             (drop (if e_phoff header = - 1 then length (file_bytes fw k) else unat (e_phoff header))
                (file_bytes fw k))))"
  using assms SetPosition_file_pos [of k fw "e_phoff header"]
    SetPosition_file_bytes [of k "e_phoff header" fw k]
  by (simp add: load_phdrs_def AllocatePool_eq split_beta Let_def Read_effect)

lemma InitializeGOP_eq:
  "fst (InitializeGOP fw) =
     (case gop fw of None \<Rightarrow> None
      | Some m \<Rightarrow> Some \<lparr>base = FrameBufferBase m, fb_size = FrameBufferSize m,
                         width = HorizontalResolution m, height = VerticalResolution m,
                         pps = PixelsPerScanLine m\<rparr>)"
  by (simp add: InitializeGOP_def LocateProtocol_def EFI_ERROR_def EFI_NOT_FOUND_def EFI_SUCCESS_def
      split: option.split)

lemma LoadPSF1Font_frame:
  "volume (snd (LoadPSF1Font D P fw)) = volume fw \<and> gop (snd (LoadPSF1Font D P fw)) = gop fw"
  by (cases "fst (LoadFile D P fw)")
     (simp_all add: LoadPSF1Font_def split_beta Let_def AllocatePool_eq Read_frame SetPosition_frame
        LoadFile_frame)

lemma open_in_directory:
  assumes "volume fw [d] \<noteq> None" and "volume fw [d, n] = Some (RegularFile bs)"
  shows "\<exists>f fw1. LoadFile (fst (LoadFile None d fw)) n (snd (LoadFile None d fw)) = (Some f, fw1) \<and>
           f = length (opened fw) + 2 \<and> f < length (opened fw1) \<and>
           file_bytes fw1 f = bs \<and> file_pos fw1 f = 0 \<and>
           pool_at fw1 = pool_at fw \<and> pool_calls fw1 = pool_calls fw \<and>
           volume fw1 = volume fw \<and> gop fw1 = gop fw \<and> mem fw1 = mem fw \<and>
           hdr_var fw1 = hdr_var fw \<and> pages_grant fw1 = pages_grant fw"
  using assms
  by (auto simp add: LoadFile_None_eq LoadFile_Some_eq handle_path_def file_bytes_def file_pos_def
      nth_append)

lemma load_files_and_run_outcome:
  assumes "volume fw [''files''] \<noteq> None"
    and "volume fw [''files'', ''main.psf''] = Some (RegularFile fnt)"
    and "4 \<le> length fnt" and "fnt ! 0 = 0x36" and "fnt ! 1 = 0x04"
  shows "fst (load_files_and_run header ksize phdrs fw) =
           (case gop fw of
              None \<Rightarrow> Returned 1
            | Some m \<Rightarrow>
                Transferred (e_entry header)
                  (make_KernelData
                     \<lparr>base = FrameBufferBase m, fb_size = FrameBufferSize m,
                      width = HorizontalResolution m, height = VerticalResolution m,
                      pps = PixelsPerScanLine m\<rparr>
                     \<lparr>psf1_Header = pool_at fw (pool_calls fw),
                      glyphBuffer = pool_at fw (Suc (pool_calls fw))\<rparr>
                     ksize phdrs))"
proof -
  obtain f fw1 where
    o: "LoadFile (fst (LoadFile None ''files'' fw)) ''main.psf'' (snd (LoadFile None ''files'' fw)) =
          (Some f, fw1)"
    and b: "file_bytes fw1 f = fnt"
    and p: "pool_at fw1 = pool_at fw" "pool_calls fw1 = pool_calls fw"
    using open_in_directory [OF assms(1,2)] by blast
  let ?L = "LoadPSF1Font (fst (LoadFile None ''files'' fw)) ''main.psf'' (snd (LoadFile None ''files'' fw))"
  have font: "fst ?L = Some \<lparr>psf1_Header = pool_at fw (pool_calls fw),
                              glyphBuffer = pool_at fw (Suc (pool_calls fw))\<rparr>"
    using LoadPSF1Font_good_magic(1) [OF o] assms(3,4,5) by (simp add: b p)
  have g: "gop (snd ?L) = gop fw"
    by (simp add: LoadPSF1Font_frame LoadFile_frame)
  show ?thesis
    using font g
    by (simp add: load_files_and_run_def split_beta Let_def InitializeGOP_eq Print_frame
        split: option.split)
qed

lemma file_bytes_cong:
  "volume fw' = volume fw \<Longrightarrow> handle_path fw' h = handle_path fw h \<Longrightarrow>
     file_bytes fw' h = file_bytes fw h"
  by (simp add: file_bytes_def)

text \<open>The state in which \<open>load_kernel\<close> calls \<open>load_files_and_run\<close>, and the arguments.\<close>

lemma load_kernel_unfold:
  assumes "\<not> header_invalid (fst (read_header k (Print ''Loading header structure...'' fw)))"
  shows "load_kernel k fw =
     (let fw1 = Print ''Loading header structure...'' fw;
          header = fst (read_header k fw1);
          fw5 = Print ''Loading kernel kernel data...''
                  (Print ''Kernel header successfully verified!''
                    (Print ''Verifying header...'' (snd (read_header k fw1))));
          ksize = fst (fst (load_phdrs k header fw5));
          phdrs = snd (fst (load_phdrs k header fw5));
          fw8 = Print ''Kernel loaded successfully!''
                  (map_segments header phdrs k 0 (snd (load_phdrs k header fw5)))
      in load_files_and_run header ksize phdrs fw8)"
  using assms by (simp add: load_kernel_def Let_def split_beta)

lemma load_kernel_outcome:
  assumes "k < length (opened fw)" and "file_pos fw k = 0"
    and "64 \<le> length (file_bytes fw k)"
    and "\<not> header_invalid (decode_Elf64_Ehdr (take 64 (file_bytes fw k)))"
    and "volume fw [''files''] \<noteq> None"
    and "volume fw [''files'', ''main.psf''] = Some (RegularFile fnt)"
    and "4 \<le> length fnt" and "fnt ! 0 = 0x36" and "fnt ! 1 = 0x04"
  shows "fst (load_kernel k fw) =
           (case gop fw of
              None \<Rightarrow> Returned 1
            | Some m \<Rightarrow>
                Transferred (e_entry (decode_Elf64_Ehdr (take 64 (file_bytes fw k))))
                  (make_KernelData
                     \<lparr>base = FrameBufferBase m, fb_size = FrameBufferSize m,
                      width = HorizontalResolution m, height = VerticalResolution m,
                      pps = PixelsPerScanLine m\<rparr>
                     \<lparr>psf1_Header = pool_at fw (Suc (Suc (pool_calls fw))),
                      glyphBuffer = pool_at fw (Suc (Suc (Suc (pool_calls fw))))\<rparr>
                     (of_nat (length (take
                        (unat (scast (phdr_table_bytes (decode_Elf64_Ehdr (take 64 (file_bytes fw k)))) :: 64 word))
                        (drop (if e_phoff (decode_Elf64_Ehdr (take 64 (file_bytes fw k))) = - 1
                               then length (file_bytes fw k)
                               else unat (e_phoff (decode_Elf64_Ehdr (take 64 (file_bytes fw k)))))
                           (file_bytes fw k)))))
                     (pool_at fw (Suc (pool_calls fw)))))"
proof -
  define H where "H = decode_Elf64_Ehdr (take 64 (file_bytes fw k))"
  define fw1 where "fw1 = Print ''Loading header structure...'' fw"
  define fw5 where "fw5 = Print ''Loading kernel kernel data...''
                  (Print ''Kernel header successfully verified!''
                    (Print ''Verifying header...'' (snd (read_header k fw1))))"
  define ksize where "ksize = fst (fst (load_phdrs k H fw5))"
  define phdrs where "phdrs = snd (fst (load_phdrs k H fw5))"
  define fw8 where "fw8 = Print ''Kernel loaded successfully!''
                  (map_segments H phdrs k 0 (snd (load_phdrs k H fw5)))"
  have hv: "fst (read_header k fw1) = H"
    using read_header_value [of fw1 k] assms(2,3) by (simp add: fw1_def Print_frame H_def)
  have "\<not> header_invalid (fst (read_header k (Print ''Loading header structure...'' fw)))"
    using hv assms(4) by (simp add: fw1_def H_def)
  from load_kernel_unfold [OF this]
  have eq: "load_kernel k fw = load_files_and_run H ksize phdrs fw8"
    by (simp add: Let_def fw1_def [symmetric] hv ksize_def phdrs_def fw8_def fw5_def)
  have f5: "volume fw5 = volume fw" "gop fw5 = gop fw" "pool_at fw5 = pool_at fw"
    "pool_calls fw5 = Suc (pool_calls fw)" "length (opened fw5) = length (opened fw)"
    "handle_path fw5 k = handle_path fw k"
    by (simp_all add: fw5_def fw1_def Print_frame read_header_frame)
  have fb5: "file_bytes fw5 k = file_bytes fw k"
    by (rule file_bytes_cong) (simp_all add: f5)
  have ph: "phdrs = pool_at fw (Suc (pool_calls fw))"
    by (simp add: phdrs_def load_phdrs_frame f5)
  have ks: "ksize = of_nat (length (take (unat (scast (phdr_table_bytes H) :: 64 word))
              (drop (if e_phoff H = - 1 then length (file_bytes fw k) else unat (e_phoff H))
                 (file_bytes fw k))))"
    using load_phdrs_size [of k fw5 H] assms(1) by (simp add: ksize_def f5 fb5)
  have f8: "volume fw8 = volume fw" "gop fw8 = gop fw" "pool_at fw8 = pool_at fw"
    "pool_calls fw8 = Suc (Suc (pool_calls fw))"
    by (simp_all add: fw8_def Print_frame map_segments_frame load_phdrs_frame f5)
  have v8: "volume fw8 [''files''] \<noteq> None"
    "volume fw8 [''files'', ''main.psf''] = Some (RegularFile fnt)"
    using assms(5,6) by (simp_all add: f8)
  have "fst (load_files_and_run H ksize phdrs fw8) =
           (case gop fw8 of
              None \<Rightarrow> Returned 1
            | Some m \<Rightarrow>
                Transferred (e_entry H)
                  (make_KernelData
                     \<lparr>base = FrameBufferBase m, fb_size = FrameBufferSize m,
                      width = HorizontalResolution m, height = VerticalResolution m,
                      pps = PixelsPerScanLine m\<rparr>
                     \<lparr>psf1_Header = pool_at fw8 (pool_calls fw8),
                      glyphBuffer = pool_at fw8 (Suc (pool_calls fw8))\<rparr>
                     ksize phdrs))"
    by (rule load_files_and_run_outcome [OF v8 assms(7-9)])
  then show ?thesis
    unfolding eq f8 ph ks H_def .
qed

subsection \<open>The header checks\<close>

lemma memcmp_loop_eq_0:
  "memcmp_loop a b n i = 0 \<longleftrightarrow> (\<forall>j. i \<le> j \<and> j < n \<longrightarrow> a ! j = b ! j)"
proof (induction a b n i rule: memcmp_loop.induct)
  case (1 a b n i)
  show ?case
  proof (cases "i < n")
    case False
    then show ?thesis
      by (subst memcmp_loop.simps) auto
  next
    case True
    show ?thesis
    proof (cases "a ! i = b ! i")
      case False
      then have "memcmp_loop a b n i \<noteq> 0"
        using True by (subst memcmp_loop.simps) auto
      moreover have "\<not> (\<forall>j. i \<le> j \<and> j < n \<longrightarrow> a ! j = b ! j)"
        using True False by auto
      ultimately show ?thesis by simp
    next
      case eq: True
      then have "memcmp_loop a b n i = memcmp_loop a b n (i + 1)"
        using True by (subst memcmp_loop.simps) simp
      also have "\<dots> = 0 \<longleftrightarrow> (\<forall>j. i + 1 \<le> j \<and> j < n \<longrightarrow> a ! j = b ! j)"
        using "1.IH" True eq by simp
      also have "\<dots> \<longleftrightarrow> (\<forall>j. i \<le> j \<and> j < n \<longrightarrow> a ! j = b ! j)"
      proof
        assume h: "\<forall>j. i + 1 \<le> j \<and> j < n \<longrightarrow> a ! j = b ! j"
        show "\<forall>j. i \<le> j \<and> j < n \<longrightarrow> a ! j = b ! j"
        proof (intro allI impI)
          fix j assume "i \<le> j \<and> j < n"
          then show "a ! j = b ! j"
            using h eq by (cases "j = i") auto
        qed
      next
        assume "\<forall>j. i \<le> j \<and> j < n \<longrightarrow> a ! j = b ! j"
        then show "\<forall>j. i + 1 \<le> j \<and> j < n \<longrightarrow> a ! j = b ! j" by auto
      qed
      finally show ?thesis .
    qed
  qed
qed

lemma magic_check:
  "memcmp (drop EI_MAG0 ident) ELFMAG SELFMAG \<noteq> 0 \<longleftrightarrow>
     (ident ! 0 \<noteq> 0x7F \<or> ident ! 1 \<noteq> 0x45 \<or> ident ! 2 \<noteq> 0x4C \<or> ident ! 3 \<noteq> 0x46)"
proof -
  have "(\<forall>j. j < 4 \<longrightarrow> ident ! j = ELFMAG ! j) \<longleftrightarrow>
          (ident ! 0 = 0x7F \<and> ident ! 1 = 0x45 \<and> ident ! 2 = 0x4C \<and> ident ! 3 = 0x46)"
  proof
    assume h: "\<forall>j. j < 4 \<longrightarrow> ident ! j = ELFMAG ! j"
    from h [rule_format, of 0] h [rule_format, of 1] h [rule_format, of 2] h [rule_format, of 3]
    show "ident ! 0 = 0x7F \<and> ident ! 1 = 0x45 \<and> ident ! 2 = 0x4C \<and> ident ! 3 = 0x46"
      by (simp add: ELFMAG_def)
  next
    assume h: "ident ! 0 = 0x7F \<and> ident ! 1 = 0x45 \<and> ident ! 2 = 0x4C \<and> ident ! 3 = 0x46"
    show "\<forall>j. j < 4 \<longrightarrow> ident ! j = ELFMAG ! j"
    proof (intro allI impI)
      fix j :: nat assume "j < 4"
      then have "j = 0 \<or> j = 1 \<or> j = 2 \<or> j = 3" by auto
      then show "ident ! j = ELFMAG ! j"
        using h by (auto simp: ELFMAG_def)
    qed
  qed
  then show ?thesis
    by (simp add: memcmp_def memcmp_loop_eq_0 EI_MAG0_def SELFMAG_def)
qed

lemma c_or_fst: "fst (c_or cs) \<longleftrightarrow> (\<exists>c \<in> set cs. c)"
  by (induction cs) (auto simp: split_beta)

lemma c_or_snd:
  "snd (c_or cs) = (if fst (c_or cs) then Suc (length (takeWhile Not cs)) else length cs)"
  by (induction cs) (auto simp: split_beta)

lemma header_invalid_iff:
  "header_invalid header \<longleftrightarrow>
     (e_ident header ! 0 \<noteq> 0x7F \<or> e_ident header ! 1 \<noteq> 0x45 \<or>
      e_ident header ! 2 \<noteq> 0x4C \<or> e_ident header ! 3 \<noteq> 0x46) \<or>
     e_ident header ! 4 \<noteq> 2 \<or> e_ident header ! 5 \<noteq> 1 \<or>
     e_type header \<noteq> 2 \<or> e_machine header \<noteq> 62 \<or> e_version header \<noteq> 1"
  unfolding header_invalid_def c_or_fst header_checks_def
  by (simp add: magic_check EI_CLASS_def ELFCLASS64_def EI_DATA_def ELFDATA2LSB_def ET_EXEC_def
      EM_X86_64_def EV_CURRENT_def)

lemma checks_evaluated_eq:
  "checks_evaluated header =
     (if e_ident header ! 0 \<noteq> 0x7F \<or> e_ident header ! 1 \<noteq> 0x45 \<or>
         e_ident header ! 2 \<noteq> 0x4C \<or> e_ident header ! 3 \<noteq> 0x46 then 1
      else if e_ident header ! 4 \<noteq> 2 then 2
      else if e_ident header ! 5 \<noteq> 1 then 3
      else if e_type header \<noteq> 2 then 4
      else if e_machine header \<noteq> 62 then 5
      else 6)"
  unfolding checks_evaluated_def header_checks_def
  by (simp add: magic_check EI_CLASS_def ELFCLASS64_def EI_DATA_def ELFDATA2LSB_def ET_EXEC_def
      EM_X86_64_def EV_CURRENT_def)

lemma load_kernel_rejects:
  assumes "header_invalid (fst (read_header k (Print ''Loading header structure...'' fw)))"
  shows "fst (load_kernel k fw) = Returned EFI_LOAD_ERROR"
    and "calls (snd (load_kernel k fw)) =
           calls (snd (read_header k (Print ''Loading header structure...'' fw))) @
           [CallPrint ''Verifying header...'', CallPrint ''Header is invalid!'']"
  using assms by (simp_all add: load_kernel_def Let_def split_beta Print_def)

subsection \<open>The outcome of a run\<close>

lemma efi_main_kernel_found:
  assumes "volume fw [''kernel''] \<noteq> None"
    and "volume fw [''kernel'', ''main.elf''] = Some (RegularFile elf)"
  shows "\<exists>k fw5. efi_main fw = load_kernel k fw5 \<and>
           k < length (opened fw5) \<and> file_bytes fw5 k = elf \<and> file_pos fw5 k = 0 \<and>
           pool_at fw5 = pool_at fw \<and> pool_calls fw5 = pool_calls fw \<and>
           volume fw5 = volume fw \<and> gop fw5 = gop fw \<and> mem fw5 = mem fw \<and>
           hdr_var fw5 = hdr_var fw \<and> pages_grant fw5 = pages_grant fw"
proof -
  define fw3 where "fw3 = Print ''Locating kernel file...'' (Print ''corruptOS Bootloader'' (InitializeLib fw))"
  have f3: "volume fw3 = volume fw" "opened fw3 = opened fw" "pool_at fw3 = pool_at fw"
    "pool_calls fw3 = pool_calls fw" "gop fw3 = gop fw" "mem fw3 = mem fw"
    "hdr_var fw3 = hdr_var fw" "pages_grant fw3 = pages_grant fw"
    by (simp_all add: fw3_def Print_frame InitializeLib_def log_call_frame)
  have v: "volume fw3 [''kernel''] \<noteq> None"
    "volume fw3 [''kernel'', ''main.elf''] = Some (RegularFile elf)"
    using assms by (simp_all add: f3)
  obtain k fw5 where
    o: "LoadFile (fst (LoadFile None ''kernel'' fw3)) ''main.elf'' (snd (LoadFile None ''kernel'' fw3)) =
          (Some k, fw5)"
    and p: "k < length (opened fw5)" "file_bytes fw5 k = elf" "file_pos fw5 k = 0"
      "pool_at fw5 = pool_at fw3" "pool_calls fw5 = pool_calls fw3"
      "volume fw5 = volume fw3" "gop fw5 = gop fw3" "mem fw5 = mem fw3"
      "hdr_var fw5 = hdr_var fw3" "pages_grant fw5 = pages_grant fw3"
    using open_in_directory [OF v] by blast
  have "efi_main fw = load_kernel k fw5"
    using o by (simp add: efi_main_def Let_def split_beta fw3_def [symmetric])
  then show ?thesis
    using p by (auto simp: f3)
qed

lemma efi_main_outcome:
  assumes "volume fw [''kernel''] \<noteq> None"
    and "volume fw [''kernel'', ''main.elf''] = Some (RegularFile elf)"
    and "64 \<le> length elf"
    and "\<not> header_invalid (decode_Elf64_Ehdr (take 64 elf))"
    and "volume fw [''files''] \<noteq> None"
    and "volume fw [''files'', ''main.psf''] = Some (RegularFile fnt)"
    and "4 \<le> length fnt" and "fnt ! 0 = 0x36" and "fnt ! 1 = 0x04"
  shows "fst (efi_main fw) =
           (case gop fw of
              None \<Rightarrow> Returned 1
            | Some m \<Rightarrow>
                Transferred (e_entry (decode_Elf64_Ehdr (take 64 elf)))
                  (make_KernelData
                     \<lparr>base = FrameBufferBase m, fb_size = FrameBufferSize m,
                      width = HorizontalResolution m, height = VerticalResolution m,
                      pps = PixelsPerScanLine m\<rparr>
                     \<lparr>psf1_Header = pool_at fw (Suc (Suc (pool_calls fw))),
                      glyphBuffer = pool_at fw (Suc (Suc (Suc (pool_calls fw))))\<rparr>
                     (of_nat (length (take
                        (unat (scast (phdr_table_bytes (decode_Elf64_Ehdr (take 64 elf))) :: 64 word))
                        (drop (if e_phoff (decode_Elf64_Ehdr (take 64 elf)) = - 1
                               then length elf
                               else unat (e_phoff (decode_Elf64_Ehdr (take 64 elf))))
                           elf))))
                     (pool_at fw (Suc (pool_calls fw)))))"
proof -
  obtain k fw5 where e: "efi_main fw = load_kernel k fw5"
    and p: "k < length (opened fw5)" "file_bytes fw5 k = elf" "file_pos fw5 k = 0"
      "pool_at fw5 = pool_at fw" "pool_calls fw5 = pool_calls fw"
      "volume fw5 = volume fw" "gop fw5 = gop fw"
    using efi_main_kernel_found [OF assms(1,2)] by blast
  have a: "64 \<le> length (file_bytes fw5 k)"
    "\<not> header_invalid (decode_Elf64_Ehdr (take 64 (file_bytes fw5 k)))"
    "volume fw5 [''files''] \<noteq> None"
    "volume fw5 [''files'', ''main.psf''] = Some (RegularFile fnt)"
    using assms by (simp_all add: p)
  show ?thesis
    using load_kernel_outcome [OF p(1) p(3) a assms(7-9)]
    by (simp only: e p)
qed

lemma demo_elf_header: "take 64 demo_elf = demo_ehdr" "length demo_elf = 178"
  by (simp_all add: demo_elf_def demo_ehdr_def demo_phdr0_def demo_phdr1_def)

lemma demo_header_valid: "\<not> header_invalid (decode_Elf64_Ehdr demo_ehdr)"
  by (simp add: header_invalid_iff demo_ehdr_decoded)

lemma times_56_eq_self:
  "(k :: 64 word) * 56 = k \<longleftrightarrow> k = 0"
proof
  assume h: "k * 56 = k"
  have "k * 55 = k * 56 - k" by simp
  also have "\<dots> = 0" using h by simp
  finally have a: "k * 55 = 0" .
  have b: "(55 :: 64 word) * 0x6FB586FB586FB587 = 1" by simp
  have "k = k * (55 * 0x6FB586FB586FB587)"
    by (simp only: b mult_1_right)
  also have "\<dots> = (k * 55) * 0x6FB586FB586FB587"
    by (simp only: mult.assoc)
  also have "\<dots> = 0"
    by (simp only: a mult_zero_left)
  finally show "k = 0" .
next
  assume "k = 0"
  then show "k * 56 = k" by simp
qed

lemma load_files_and_run_Transferred:
  assumes "fst (load_files_and_run header ksize phdrs fw) = Transferred e kd"
  shows "e = e_entry header \<and> kernelStart kd = phdrs \<and> kernelSize kd = ksize \<and>
         kernelEnd kd = phdrs + ksize * of_nat sizeof_Elf64_Phdr"
  using assms
  by (auto simp: load_files_and_run_def split_beta Let_def make_KernelData_def
      split: option.splits)

lemma load_kernel_Transferred:
  assumes "fst (load_kernel k fw) = Transferred e kd"
  shows "kernelStart kd = pool_at fw (Suc (pool_calls fw)) \<and>
         kernelEnd kd = kernelStart kd + kernelSize kd * of_nat sizeof_Elf64_Phdr"
proof -
  let ?fw1 = "Print ''Loading header structure...'' fw"
  have ok: "\<not> header_invalid (fst (read_header k ?fw1))"
  proof
    assume "header_invalid (fst (read_header k ?fw1))"
    then have "fst (load_kernel k fw) = Returned EFI_LOAD_ERROR"
      by (rule load_kernel_rejects(1))
    with assms show False by simp
  qed
  define header where "header = fst (read_header k ?fw1)"
  define fw5 where "fw5 = Print ''Loading kernel kernel data...''
                  (Print ''Kernel header successfully verified!''
                    (Print ''Verifying header...'' (snd (read_header k ?fw1))))"
  define ksize where "ksize = fst (fst (load_phdrs k header fw5))"
  define phdrs where "phdrs = snd (fst (load_phdrs k header fw5))"
  define fw8 where "fw8 = Print ''Kernel loaded successfully!''
                  (map_segments header phdrs k 0 (snd (load_phdrs k header fw5)))"
  from load_kernel_unfold [OF ok]
  have eq: "load_kernel k fw = load_files_and_run header ksize phdrs fw8"
    by (simp add: Let_def header_def ksize_def phdrs_def fw8_def fw5_def)
  have f5: "pool_at fw5 = pool_at fw" "pool_calls fw5 = Suc (pool_calls fw)"
    by (simp_all add: fw5_def Print_frame read_header_frame)
  have ph: "phdrs = pool_at fw (Suc (pool_calls fw))"
    by (simp add: phdrs_def load_phdrs_frame f5)
  show ?thesis
    using load_files_and_run_Transferred [of header ksize phdrs fw8 e kd] assms
    by (simp add: eq ph)
qed

lemma efi_main_Transferred:
  assumes "fst (efi_main fw) = Transferred e kd"
  shows "kernelStart kd = pool_at fw (Suc (pool_calls fw)) \<and>
         kernelEnd kd = kernelStart kd + kernelSize kd * of_nat sizeof_Elf64_Phdr"
proof -
  define fw3 where "fw3 = Print ''Locating kernel file...'' (Print ''corruptOS Bootloader'' (InitializeLib fw))"
  define fw5 where "fw5 = snd (LoadFile (fst (LoadFile None ''kernel'' fw3)) ''main.elf''
                                 (snd (LoadFile None ''kernel'' fw3)))"
  have f5: "pool_at fw5 = pool_at fw" "pool_calls fw5 = pool_calls fw"
    by (simp_all add: fw5_def fw3_def LoadFile_frame Print_frame InitializeLib_def log_call_frame)
  obtain k where k: "fst (LoadFile (fst (LoadFile None ''kernel'' fw3)) ''main.elf''
                                 (snd (LoadFile None ''kernel'' fw3))) = Some k"
    using assms
    by (cases "fst (LoadFile (fst (LoadFile None ''kernel'' fw3)) ''main.elf''
                                 (snd (LoadFile None ''kernel'' fw3)))")
       (simp_all add: efi_main_def Let_def split_beta fw3_def)
  have "efi_main fw = load_kernel k fw5"
    using k by (simp add: efi_main_def Let_def split_beta fw3_def fw5_def)
  with assms have "fst (load_kernel k fw5) = Transferred e kd" by simp
  from load_kernel_Transferred [OF this] show ?thesis
    by (simp add: f5)
qed

lemma bare_elf_decoded:
  "decode_Elf64_Ehdr bare_elf =
     \<lparr>e_ident = [0x7F, 0x45, 0x4C, 0x46, 2, 1, 1, 0, 0, 0, 0, 0, 0, 0, 0, 0],
      e_type = 2, e_machine = 62, e_version = 1, e_entry = 0x100000, e_phoff = 64,
      e_shoff = 0, e_flags = 0, e_ehsize = 64, e_phentsize = 56, e_phnum = 0,
      e_shentsize = 0, e_shnum = 0, e_shstrndx = 0\<rparr>"
  by (simp add: decode_Elf64_Ehdr_def bare_elf_def le16_def le32_def le64_def)

lemma bare_elf_header: "take 64 bare_elf = bare_elf" "length bare_elf = 64"
  by (simp_all add: bare_elf_def)

lemma bare_header_valid: "\<not> header_invalid (decode_Elf64_Ehdr bare_elf)"
  by (simp add: header_invalid_iff bare_elf_decoded)

lemma demo_run:
  "fst (efi_main (boot_fw demo_elf demo_font (Some demo_gop) grant)) =
     Transferred 0x100000
       \<lparr>framebuffer = \<lparr>base = 0x80000000, fb_size = 0x300000, width = 1024, height = 768,
                        pps = 1024\<rparr>,
        font = \<lparr>psf1_Header = 0x6000, glyphBuffer = 0x7000\<rparr>,
        kernelSize = 112, kernelStart = 0x5000, kernelEnd = 0x6880\<rparr>"
proof -
  let ?F = "boot_fw demo_elf demo_font (Some demo_gop) grant"
  have "fst (efi_main ?F) = (case gop ?F of None \<Rightarrow> Returned 1 | Some m \<Rightarrow>
          Transferred (e_entry (decode_Elf64_Ehdr (take 64 demo_elf)))
                  (make_KernelData
                     \<lparr>base = FrameBufferBase m, fb_size = FrameBufferSize m,
                      width = HorizontalResolution m, height = VerticalResolution m,
                      pps = PixelsPerScanLine m\<rparr>
                     \<lparr>psf1_Header = pool_at ?F (Suc (Suc (pool_calls ?F))),
                      glyphBuffer = pool_at ?F (Suc (Suc (Suc (pool_calls ?F))))\<rparr>
                     (of_nat (length (take
                        (unat (scast (phdr_table_bytes (decode_Elf64_Ehdr (take 64 demo_elf))) :: 64 word))
                        (drop (if e_phoff (decode_Elf64_Ehdr (take 64 demo_elf)) = - 1
                               then length demo_elf
                               else unat (e_phoff (decode_Elf64_Ehdr (take 64 demo_elf))))
                           demo_elf))))
                     (pool_at ?F (Suc (pool_calls ?F)))))"
    by (rule efi_main_outcome [where fnt = demo_font])
       (simp_all add: boot_fw_simps boot_volume_simps demo_elf_header demo_header_valid demo_font_def)
  then show ?thesis
    by (simp add: boot_fw_simps demo_elf_header demo_ehdr_decoded phdr_table_bytes_def
        make_KernelData_def demo_gop_def sizeof_Elf64_Phdr_def)
qed

text \<open>The status 1 is returned on one path only: no graphics output protocol.\<close>

lemma load_files_and_run_status_1:
  assumes "fst (load_files_and_run header ksize phdrs fw) = Returned 1"
  shows "gop fw = None"
proof -
  let ?s = "snd (LoadPSF1Font (fst (LoadFile None ''files'' fw)) ''main.psf''
                   (snd (LoadFile None ''files'' fw)))"
  have g: "gop (Print ''Font file files/zap-light16.psf found and loaded!'' ?s) = gop fw"
    by (simp add: Print_frame LoadPSF1Font_frame LoadFile_frame)
  have "fst (InitializeGOP (Print ''Font file files/zap-light16.psf found and loaded!'' ?s)) = None"
    using assms
    by (auto simp: load_files_and_run_def split_beta Let_def EFI_LOAD_ERROR_def
        split: option.splits)
  then show ?thesis
    by (simp add: InitializeGOP_eq g split: option.splits)
qed

lemma load_kernel_status_1:
  assumes "fst (load_kernel k fw) = Returned 1"
  shows "gop fw = None"
proof -
  let ?fw1 = "Print ''Loading header structure...'' fw"
  have ok: "\<not> header_invalid (fst (read_header k ?fw1))"
  proof
    assume "header_invalid (fst (read_header k ?fw1))"
    then have "fst (load_kernel k fw) = Returned EFI_LOAD_ERROR"
      by (rule load_kernel_rejects(1))
    with assms show False by (simp add: EFI_LOAD_ERROR_def)
  qed
  define header where "header = fst (read_header k ?fw1)"
  define fw5 where "fw5 = Print ''Loading kernel kernel data...''
                  (Print ''Kernel header successfully verified!''
                    (Print ''Verifying header...'' (snd (read_header k ?fw1))))"
  define ksize where "ksize = fst (fst (load_phdrs k header fw5))"
  define phdrs where "phdrs = snd (fst (load_phdrs k header fw5))"
  define fw8 where "fw8 = Print ''Kernel loaded successfully!''
                  (map_segments header phdrs k 0 (snd (load_phdrs k header fw5)))"
  from load_kernel_unfold [OF ok]
  have eq: "load_kernel k fw = load_files_and_run header ksize phdrs fw8"
    by (simp add: Let_def header_def ksize_def phdrs_def fw8_def fw5_def)
  have "gop fw8 = gop fw"
    by (simp add: fw8_def fw5_def Print_frame map_segments_frame load_phdrs_frame read_header_frame)
  then show ?thesis
    using load_files_and_run_status_1 [of header ksize phdrs fw8] assms by (simp add: eq)
qed

lemma efi_main_status_1:
  assumes "fst (efi_main fw) = Returned 1"
  shows "gop fw = None"
proof -
  define fw3 where "fw3 = Print ''Locating kernel file...'' (Print ''corruptOS Bootloader'' (InitializeLib fw))"
  define fw5 where "fw5 = snd (LoadFile (fst (LoadFile None ''kernel'' fw3)) ''main.elf''
                                 (snd (LoadFile None ''kernel'' fw3)))"
  have f5: "gop fw5 = gop fw"
    by (simp add: fw5_def fw3_def LoadFile_frame Print_frame InitializeLib_def log_call_frame)
  obtain k where k: "fst (LoadFile (fst (LoadFile None ''kernel'' fw3)) ''main.elf''
                                 (snd (LoadFile None ''kernel'' fw3))) = Some k"
    using assms
    by (cases "fst (LoadFile (fst (LoadFile None ''kernel'' fw3)) ''main.elf''
                                 (snd (LoadFile None ''kernel'' fw3)))")
       (simp_all add: efi_main_def Let_def split_beta fw3_def EFI_LOAD_ERROR_def)
  have "efi_main fw = load_kernel k fw5"
    using k by (simp add: efi_main_def Let_def split_beta fw3_def fw5_def)
  with assms have "fst (load_kernel k fw5) = Returned 1" by simp
  from load_kernel_status_1 [OF this] show ?thesis
    by (simp add: f5)
qed

text \<open>A run ends in one of three ways.\<close>

lemma efi_main_results:
  "fst (efi_main fw) = Returned EFI_LOAD_ERROR \<or> fst (efi_main fw) = Returned 1 \<or>
   (\<exists>e kd. fst (efi_main fw) = Transferred e kd)"
proof -
  have a: "fst (load_files_and_run header ksize phdrs s) = Returned EFI_LOAD_ERROR \<or>
           fst (load_files_and_run header ksize phdrs s) = Returned 1 \<or>
           (\<exists>e kd. fst (load_files_and_run header ksize phdrs s) = Transferred e kd)"
    for header ksize phdrs s
    by (simp add: load_files_and_run_def split_beta Let_def split: option.split)
  have b: "fst (load_kernel k s) = Returned EFI_LOAD_ERROR \<or> fst (load_kernel k s) = Returned 1 \<or>
           (\<exists>e kd. fst (load_kernel k s) = Transferred e kd)" for k s
    using a by (simp add: load_kernel_def split_beta Let_def)
  show ?thesis
    using b by (simp add: efi_main_def split_beta Let_def split: option.split)
qed

subsection \<open>Runs that differ in the page allocator only\<close>

lemma agree_refl: "agree fw (fw\<lparr>pages_grant := g\<rparr>)"
  by (simp add: agree_def)

lemma agree_paths:
  assumes "agree fw fw'"
  shows "handle_path fw' h = handle_path fw h" "file_bytes fw' h = file_bytes fw h"
    "file_pos fw' h = file_pos fw h" "file_info_size fw' h = file_info_size fw h"
  using assms by (simp_all add: agree_def handle_path_def file_bytes_def file_pos_def file_info_size_def)

lemma agree_log_call:
  "agree fw fw' \<Longrightarrow> agree (log_call c fw) (log_call c' fw')"
  by (simp add: agree_def log_call_def)

lemma agree_Print: "agree fw fw' \<Longrightarrow> agree (Print s fw) (Print s fw')"
  by (simp add: Print_def agree_log_call)

lemma agree_SetPosition:
  "agree fw fw' \<Longrightarrow> agree (SetPosition h p fw) (SetPosition h p fw')"
  using agree_paths [of fw fw' h]
  by (simp add: SetPosition_def) (simp add: agree_def log_call_def)

lemma agree_Read:
  assumes "agree fw fw'"
  shows "fst (Read h n b fw') = fst (Read h n b fw)"
    and "agree (snd (Read h n b fw)) (snd (Read h n b fw'))"
  using assms agree_paths [OF assms, of h]
  by (simp_all add: Read_def Let_def) (simp add: agree_def log_call_def)

lemma agree_AllocatePool:
  assumes "agree fw fw'"
  shows "fst (AllocatePool ty n fw') = fst (AllocatePool ty n fw)"
    and "agree (snd (AllocatePool ty n fw)) (snd (AllocatePool ty n fw'))"
  using assms by (simp_all add: AllocatePool_eq agree_def)

lemma agree_GetInfo:
  assumes "agree fw fw'"
  shows "fst (GetInfo h fw') = fst (GetInfo h fw)"
    and "agree (snd (GetInfo h fw)) (snd (GetInfo h fw'))"
  using assms agree_paths [OF assms, of h] by (simp_all add: GetInfo_def agree_log_call)

lemma agree_LoadFile:
  assumes "agree fw fw'"
  shows "fst (LoadFile D P fw') = fst (LoadFile D P fw)"
    and "agree (snd (LoadFile D P fw)) (snd (LoadFile D P fw'))"
  using assms agree_paths [OF assms]
  by (cases D; simp add: LoadFile_None_eq LoadFile_Some_eq agree_def)+

lemma agree_InitializeGOP:
  assumes "agree fw fw'"
  shows "fst (InitializeGOP fw') = fst (InitializeGOP fw)"
  using assms by (simp add: InitializeGOP_eq agree_def)

lemma agree_mem: "agree fw fw' \<Longrightarrow> mem fw' = mem fw"
  by (simp add: agree_def)

lemma agree_LoadPSF1Font:
  assumes "agree fw fw'"
  shows "fst (LoadPSF1Font D P fw') = fst (LoadPSF1Font D P fw) \<and>
         agree (snd (LoadPSF1Font D P fw)) (snd (LoadPSF1Font D P fw'))"
proof -
  note a1 = agree_LoadFile [OF assms, of D P]
  let ?s = "snd (LoadFile D P fw)" and ?s' = "snd (LoadFile D P fw')"
  show ?thesis
  proof (cases "fst (LoadFile D P fw)")
    case None
    then show ?thesis
      using a1 by (simp add: LoadPSF1Font_def split_beta)
  next
    case (Some f)
    note a2 = agree_AllocatePool [OF a1(2), of EfiLoaderData sizeof_PSF1_HEADER]
    let ?buf = "fst (AllocatePool EfiLoaderData sizeof_PSF1_HEADER ?s)"
    let ?t = "snd (AllocatePool EfiLoaderData sizeof_PSF1_HEADER ?s)"
    let ?t' = "snd (AllocatePool EfiLoaderData sizeof_PSF1_HEADER ?s')"
    note a3 = agree_Read [OF a2(2), of f sizeof_PSF1_HEADER ?buf]
    let ?u = "snd (Read f sizeof_PSF1_HEADER ?buf ?t)"
    let ?u' = "snd (Read f sizeof_PSF1_HEADER ?buf ?t')"
    have hdr: "read_PSF1_HEADER ?u' ?buf = read_PSF1_HEADER ?u ?buf"
      using agree_mem [OF a3(2)] by (simp add: read_PSF1_HEADER_def)
    let ?h = "read_PSF1_HEADER ?u ?buf"
    note a4 = agree_SetPosition [OF a3(2), of f sizeof_PSF1_HEADER]
    note a5 = agree_AllocatePool [OF a4, of EfiLoaderData "glyphBufferSize ?h"]
    note a6 = agree_Read [OF a5(2), of f "glyphBufferSize ?h"
        "fst (AllocatePool EfiLoaderData (glyphBufferSize ?h) (SetPosition f sizeof_PSF1_HEADER ?u))"]
    note a7 = agree_AllocatePool [OF a6(2), of EfiLoaderData sizeof_PSF1_FONT]
    show ?thesis
      using Some a1 a2 a3 hdr a5 a6 a7
      by (simp add: LoadPSF1Font_def split_beta Let_def)
  qed
qed

lemma agree_read_header:
  assumes "agree fw fw'"
  shows "fst (read_header k fw') = fst (read_header k fw) \<and>
         agree (snd (read_header k fw)) (snd (read_header k fw'))"
proof -
  note a1 = agree_GetInfo [OF assms, of k]
  note a2 = agree_AllocatePool [OF a1(2), of EfiLoaderData "fst (GetInfo k fw)"]
  note a3 = agree_GetInfo [OF a2(2), of k]
  have hv: "hdr_var fw' = hdr_var fw"
    using assms by (simp add: agree_def)
  let ?s = "snd (GetInfo k (snd (AllocatePool EfiLoaderData (fst (GetInfo k fw)) (snd (GetInfo k fw)))))"
  let ?s' = "snd (GetInfo k (snd (AllocatePool EfiLoaderData (fst (GetInfo k fw)) (snd (GetInfo k fw')))))"
  have h: "hdr_var ?s = hdr_var fw" "hdr_var ?s' = hdr_var fw"
    by (simp_all add: GetInfo_def AllocatePool_eq log_call_frame hv)
  note a4 = agree_Read [OF a3(2), of k "of_nat sizeof_Elf64_Ehdr" "hdr_var fw"]
  have h4: "hdr_var (snd (Read k (of_nat sizeof_Elf64_Ehdr) (hdr_var fw) ?s)) = hdr_var fw"
    "hdr_var (snd (Read k (of_nat sizeof_Elf64_Ehdr) (hdr_var fw) ?s')) = hdr_var fw"
    by (simp_all add: Read_frame h)
  show ?thesis
    using a1 a4 agree_mem [OF a4(2)]
    by (simp add: read_header_def split_beta h h4)
qed

lemma agree_load_phdrs:
  assumes "agree fw fw'"
  shows "fst (load_phdrs k header fw') = fst (load_phdrs k header fw) \<and>
         agree (snd (load_phdrs k header fw)) (snd (load_phdrs k header fw'))"
proof -
  note a1 = agree_SetPosition [OF assms, of k "e_phoff header"]
  note a2 = agree_AllocatePool [OF a1, of EfiLoaderData "scast (phdr_table_bytes header)"]
  note a3 = agree_Read [OF a2(2), of k "scast (phdr_table_bytes header)"
      "fst (AllocatePool EfiLoaderData (scast (phdr_table_bytes header)) (SetPosition k (e_phoff header) fw))"]
  show ?thesis
    using a2 a3 by (simp add: load_phdrs_def split_beta Let_def prod_eq_iff)
qed

lemma agree_load_segment:
  assumes "agree fw fw'"
  shows "agree (load_segment k p fw) (load_segment k p fw')"
proof -
  have ph: "read_Elf64_Phdr fw' p = read_Elf64_Phdr fw p"
    using agree_mem [OF assms] by (simp add: read_Elf64_Phdr_def)
  let ?ph = "read_Elf64_Phdr fw p"
  show ?thesis
  proof (cases "p_type ?ph = PT_LOAD")
    case False
    then show ?thesis
      using assms by (simp add: load_segment_unfold Let_def ph)
  next
    case True
    have "agree (log_call c fw) (log_call c' fw')" for c c'
      using assms by (rule agree_log_call)
    note a1 = agree_SetPosition [OF this, where h = k and p = "p_offset ?ph"]
    note a2 = agree_Read [OF a1, where h = k and n = "p_filesz ?ph" and b = "p_paddr ?ph"]
    show ?thesis
      using True a2(2) by (simp add: load_segment_unfold Let_def ph)
  qed
qed

lemma agree_map_segments:
  "agree fw fw' \<Longrightarrow> agree (map_segments header phdrs k i fw) (map_segments header phdrs k i fw')"
proof (induction header phdrs k i fw arbitrary: fw' rule: map_segments.induct)
  case (1 header phdrs Kernel i fw)
  show ?case
  proof (cases "phdrs + of_nat (i * unat (e_phentsize header)) < phdrs + scast (phdr_table_bytes header)")
    case True
    have "agree (load_segment Kernel (phdrs + of_nat (i * unat (e_phentsize header))) fw)
            (load_segment Kernel (phdrs + of_nat (i * unat (e_phentsize header))) fw')"
      using "1.prems" by (rule agree_load_segment)
    from "1.IH" [OF True this] show ?thesis
      using True
      by (subst map_segments.simps) (subst (2) map_segments.simps, simp only: if_True)
  next
    case False
    then show ?thesis
      using "1.prems"
      by (subst map_segments.simps) (subst (2) map_segments.simps, simp only: if_False)
  qed
qed

lemma agree_load_files_and_run:
  assumes "agree fw fw'"
  shows "fst (load_files_and_run header ksize phdrs fw') = fst (load_files_and_run header ksize phdrs fw) \<and>
         mem (snd (load_files_and_run header ksize phdrs fw')) =
           mem (snd (load_files_and_run header ksize phdrs fw)) \<and>
         opened (snd (load_files_and_run header ksize phdrs fw')) =
           opened (snd (load_files_and_run header ksize phdrs fw))"
proof -
  note a1 = agree_LoadFile [OF assms, of None "''files''"]
  note a2 = agree_LoadPSF1Font [OF a1(2), of "fst (LoadFile None ''files'' fw)" "''main.psf''"]
  let ?s = "snd (LoadPSF1Font (fst (LoadFile None ''files'' fw)) ''main.psf'' (snd (LoadFile None ''files'' fw)))"
  let ?s' = "snd (LoadPSF1Font (fst (LoadFile None ''files'' fw)) ''main.psf'' (snd (LoadFile None ''files'' fw')))"
  have a3: "agree ?s ?s'" using a2 by simp
  note a4 = agree_Print [OF a3]
  note a5 = agree_InitializeGOP [OF a4]
  have m: "mem ?s' = mem ?s" "opened ?s' = opened ?s"
    using a3 by (simp_all add: agree_def)
  have g: "mem (snd (InitializeGOP x)) = mem x \<and> opened (snd (InitializeGOP x)) = opened x" for x
    by (simp add: InitializeGOP_def LocateProtocol_def Print_def log_call_def split: option.split)
  show ?thesis
    using a1 a2 a5 m g
    by (simp add: load_files_and_run_def split_beta Let_def Print_def ClearScreen_def log_call_frame
        split: option.split)
qed

lemma agree_load_kernel:
  assumes "agree fw fw'"
  shows "fst (load_kernel k fw') = fst (load_kernel k fw) \<and>
         mem (snd (load_kernel k fw')) = mem (snd (load_kernel k fw)) \<and>
         opened (snd (load_kernel k fw')) = opened (snd (load_kernel k fw))"
proof -
  note a1 = agree_Print [OF assms, of "''Loading header structure...''"]
  note a2 = agree_read_header [OF a1, of k]
  let ?h = "fst (read_header k (Print ''Loading header structure...'' fw))"
  let ?r = "snd (read_header k (Print ''Loading header structure...'' fw))"
  let ?r' = "snd (read_header k (Print ''Loading header structure...'' fw'))"
  have h: "fst (read_header k (Print ''Loading header structure...'' fw')) = ?h"
    and r: "agree ?r ?r'"
    using a2 by simp_all
  note a3 = agree_Print [OF r, of "''Verifying header...''"]
  show ?thesis
  proof (cases "header_invalid ?h")
    case True
    have u: "load_kernel k fw =
               (Returned EFI_LOAD_ERROR, Print ''Header is invalid!'' (Print ''Verifying header...'' ?r))"
      using True by (simp add: load_kernel_def Let_def split_beta)
    have u': "load_kernel k fw' =
               (Returned EFI_LOAD_ERROR, Print ''Header is invalid!'' (Print ''Verifying header...'' ?r'))"
      using True h by (simp add: load_kernel_def Let_def split_beta)
    have "agree (Print ''Header is invalid!'' (Print ''Verifying header...'' ?r))
                (Print ''Header is invalid!'' (Print ''Verifying header...'' ?r'))"
      by (intro agree_Print r)
    then show ?thesis
      unfolding u u' by (simp add: agree_def)
  next
    case False
    let ?f5 = "Print ''Loading kernel kernel data...''
                  (Print ''Kernel header successfully verified!''
                    (Print ''Verifying header...'' ?r))"
    let ?f5' = "Print ''Loading kernel kernel data...''
                  (Print ''Kernel header successfully verified!''
                    (Print ''Verifying header...'' ?r'))"
    have a5: "agree ?f5 ?f5'"
      by (intro agree_Print r)
    note a6 = agree_load_phdrs [OF a5, of k ?h]
    let ?ks = "fst (fst (load_phdrs k ?h ?f5))" and ?ps = "snd (fst (load_phdrs k ?h ?f5))"
    have a7: "agree (snd (load_phdrs k ?h ?f5)) (snd (load_phdrs k ?h ?f5'))"
      and e: "fst (load_phdrs k ?h ?f5') = fst (load_phdrs k ?h ?f5)"
      using a6 by simp_all
    note a8 = agree_Print [OF agree_map_segments [OF a7, of ?h ?ps k 0], of "''Kernel loaded successfully!''"]
    note a9 = agree_load_files_and_run [OF a8, of ?h ?ks ?ps]
    have u: "load_kernel k fw = load_files_and_run ?h ?ks ?ps
               (Print ''Kernel loaded successfully!'' (map_segments ?h ?ps k 0 (snd (load_phdrs k ?h ?f5))))"
      using load_kernel_unfold [of k fw] False by (simp add: Let_def)
    have u': "load_kernel k fw' = load_files_and_run ?h ?ks ?ps
               (Print ''Kernel loaded successfully!'' (map_segments ?h ?ps k 0 (snd (load_phdrs k ?h ?f5'))))"
      using load_kernel_unfold [of k fw'] False h e by (simp add: Let_def)
    show ?thesis
      unfolding u u' by (rule a9)
  qed
qed

lemma efi_main_ignores_grants:
  "fst (efi_main (fw\<lparr>pages_grant := g\<rparr>)) = fst (efi_main fw) \<and>
   mem (snd (efi_main (fw\<lparr>pages_grant := g\<rparr>))) = mem (snd (efi_main fw)) \<and>
   opened (snd (efi_main (fw\<lparr>pages_grant := g\<rparr>))) = opened (snd (efi_main fw))"
proof -
  let ?fw' = "fw\<lparr>pages_grant := g\<rparr>"
  have a0: "agree (Print ''Locating kernel file...'' (Print ''corruptOS Bootloader'' (InitializeLib fw)))
                  (Print ''Locating kernel file...'' (Print ''corruptOS Bootloader'' (InitializeLib ?fw')))"
    by (intro agree_Print) (simp add: InitializeLib_def agree_log_call agree_refl)
  let ?f3 = "Print ''Locating kernel file...'' (Print ''corruptOS Bootloader'' (InitializeLib fw))"
  let ?f3' = "Print ''Locating kernel file...'' (Print ''corruptOS Bootloader'' (InitializeLib ?fw'))"
  note a1 = agree_LoadFile [OF a0, of None "''kernel''"]
  note a2 = agree_LoadFile [OF a1(2), of "fst (LoadFile None ''kernel'' ?f3)" "''main.elf''"]
  let ?K = "fst (LoadFile (fst (LoadFile None ''kernel'' ?f3)) ''main.elf'' (snd (LoadFile None ''kernel'' ?f3)))"
  show ?thesis
  proof (cases ?K)
    case None
    then show ?thesis
      using a1 a2
      by (simp add: efi_main_def Let_def split_beta Print_def log_call_frame agree_def)
  next
    case (Some k)
    note a3 = agree_load_kernel [OF a2(2), of k]
    show ?thesis
      using Some a1 a2(1) a3
      by (simp add: efi_main_def Let_def split_beta)
  qed
qed

lemma loop_fw_file: "file_bytes (loop_fw tbl g) 0 = demo_elf"
  by (simp add: file_bytes_def handle_path_def loop_fw_def boot_volume_def)

lemma page_count_4: "page_count 4 = 1"
  by (simp add: page_count_def)

section \<open>The claims\<close>

subsection \<open>C8: the file resolver\<close>


subsection \<open>C6: a font with a wrong magic byte\<close>

text \<open>
  C6. When the font file has been opened and one of its two magic bytes differs from
  \<open>0x36\<close>, \<open>0x04\<close>, \<open>LoadPSF1Font\<close> returns \<open>NULL\<close>, and after the open it has made two
  firmware calls only: the allocation of the 4-byte header buffer and the read of the
  header. The file's position is still within the header: no glyph byte has been read.
  When both magic bytes are right, the seek to offset 4, the allocation of the glyph buffer
  and its read follow in the log, after the header's read.
\<close>

theorem LoadPSF1Font_rejects_bad_magic:
  assumes "LoadFile Directory Path fw = (Some f, fw1)"
    and "2 \<le> length (file_bytes fw1 f)"
  shows "(file_bytes fw1 f ! 0 \<noteq> PSF1_MAGIC0 \<or> file_bytes fw1 f ! 1 \<noteq> PSF1_MAGIC1 \<longrightarrow>
            fst (LoadPSF1Font Directory Path fw) = None \<and>
            calls (snd (LoadPSF1Font Directory Path fw)) =
              calls fw1 @ [CallAllocatePool EfiLoaderData sizeof_PSF1_HEADER,
                           CallRead f sizeof_PSF1_HEADER (pool_at fw1 (pool_calls fw1))] \<and>
            file_pos (snd (LoadPSF1Font Directory Path fw)) f \<le> 4) \<and>
         (4 \<le> length (file_bytes fw1 f) \<and>
          file_bytes fw1 f ! 0 = PSF1_MAGIC0 \<and> file_bytes fw1 f ! 1 = PSF1_MAGIC1 \<longrightarrow>
            fst (LoadPSF1Font Directory Path fw) \<noteq> None \<and>
            calls (snd (LoadPSF1Font Directory Path fw)) =
              calls fw1 @
              [CallAllocatePool EfiLoaderData sizeof_PSF1_HEADER,
               CallRead f sizeof_PSF1_HEADER (pool_at fw1 (pool_calls fw1)),
               CallSetPosition f sizeof_PSF1_HEADER,
               CallAllocatePool EfiLoaderData
                 (glyphBufferSize (decode_PSF1_HEADER (take 4 (file_bytes fw1 f)))),
               CallRead f (glyphBufferSize (decode_PSF1_HEADER (take 4 (file_bytes fw1 f))))
                 (pool_at fw1 (Suc (pool_calls fw1))),
               CallAllocatePool EfiLoaderData sizeof_PSF1_FONT])"
proof (intro conjI impI)
  assume bad: "file_bytes fw1 f ! 0 \<noteq> PSF1_MAGIC0 \<or> file_bytes fw1 f ! 1 \<noteq> PSF1_MAGIC1"
  then have bad': "file_bytes fw1 f ! 0 \<noteq> 0x36 \<or> file_bytes fw1 f ! 1 \<noteq> 0x04"
    by (simp add: PSF1_MAGIC0_def PSF1_MAGIC1_def)
  show "fst (LoadPSF1Font Directory Path fw) = None"
    by (rule LoadPSF1Font_bad_magic(1) [OF assms bad'])
  show "calls (snd (LoadPSF1Font Directory Path fw)) =
          calls fw1 @ [CallAllocatePool EfiLoaderData sizeof_PSF1_HEADER,
                       CallRead f sizeof_PSF1_HEADER (pool_at fw1 (pool_calls fw1))]"
    by (rule LoadPSF1Font_bad_magic(2) [OF assms bad'])
  show "file_pos (snd (LoadPSF1Font Directory Path fw)) f \<le> 4"
    using LoadPSF1Font_bad_magic(3) [OF assms bad'] by simp
next
  assume good: "4 \<le> length (file_bytes fw1 f) \<and>
                file_bytes fw1 f ! 0 = PSF1_MAGIC0 \<and> file_bytes fw1 f ! 1 = PSF1_MAGIC1"
  then have g: "4 \<le> length (file_bytes fw1 f)" "file_bytes fw1 f ! 0 = 0x36"
      "file_bytes fw1 f ! 1 = 0x04"
    by (simp_all add: PSF1_MAGIC0_def PSF1_MAGIC1_def)
  show "fst (LoadPSF1Font Directory Path fw) \<noteq> None"
    using LoadPSF1Font_good_magic(1) [OF assms(1) g] by simp
  show "calls (snd (LoadPSF1Font Directory Path fw)) =
          calls fw1 @
          [CallAllocatePool EfiLoaderData sizeof_PSF1_HEADER,
           CallRead f sizeof_PSF1_HEADER (pool_at fw1 (pool_calls fw1)),
           CallSetPosition f sizeof_PSF1_HEADER,
           CallAllocatePool EfiLoaderData
             (glyphBufferSize (decode_PSF1_HEADER (take 4 (file_bytes fw1 f)))),
           CallRead f (glyphBufferSize (decode_PSF1_HEADER (take 4 (file_bytes fw1 f))))
             (pool_at fw1 (Suc (pool_calls fw1))),
           CallAllocatePool EfiLoaderData sizeof_PSF1_FONT]"
    by (rule LoadPSF1Font_good_magic(2) [OF assms(1) g])
qed

text \<open>A run on the example volume: \<open>bad.psf\<close> is opened and rejected after the two calls for
  its header; \<open>files/main.psf\<close> is accepted.\<close>

theorem LoadPSF1Font_rejects_bad_magic_witness:
  "fst (LoadPSF1Font None ''bad.psf'' (boot_fw demo_elf demo_font None grant_all)) = None \<and>
   calls (snd (LoadPSF1Font None ''bad.psf'' (boot_fw demo_elf demo_font None grant_all))) =
     [CallHandleProtocol ''gEfiLoadedImageProtocolGuid'',
      CallHandleProtocol ''gEfiSimpleFileSystemProtocolGuid'',
      CallOpenVolume,
      CallOpen 0 ''bad.psf'' EFI_FILE_MODE_READ EFI_FILE_READ_ONLY EFI_SUCCESS,
      CallAllocatePool EfiLoaderData sizeof_PSF1_HEADER,
      CallRead 1 sizeof_PSF1_HEADER 0x4000] \<and>
   fst (LoadPSF1Font (Some 1) ''main.psf''
          (snd (LoadFile None ''files'' (boot_fw demo_elf demo_font None grant_all)))) \<noteq> None"
proof -
  let ?F = "boot_fw demo_elf demo_font None grant_all"
  let ?F1 = "snd (LoadFile None ''bad.psf'' ?F)"
  let ?G = "snd (LoadFile None ''files'' ?F)"
  let ?G1 = "snd (LoadFile (Some 1) ''main.psf'' ?G)"
  have open1: "LoadFile None ''bad.psf'' ?F = (Some 1, ?F1)"
    by (simp add: LoadFile_None_eq boot_fw_simps boot_volume_simps)
  have bytes1: "file_bytes ?F1 1 = bad_font"
    by (simp add: LoadFile_None_eq boot_fw_simps boot_volume_simps file_bytes_def handle_path_def)
  have bad: "2 \<le> length (file_bytes ?F1 1)"
    "file_bytes ?F1 1 ! 0 \<noteq> PSF1_MAGIC0 \<or> file_bytes ?F1 1 ! 1 \<noteq> PSF1_MAGIC1"
    using bytes1 by (simp_all add: bad_font_def PSF1_MAGIC0_def)
  have open2: "LoadFile (Some 1) ''main.psf'' ?G = (Some 2, ?G1)"
    by (simp add: LoadFile_None_eq LoadFile_Some_eq boot_fw_simps boot_volume_simps handle_path_def)
  have bytes2: "file_bytes ?G1 2 = demo_font"
    by (simp add: LoadFile_None_eq LoadFile_Some_eq boot_fw_simps boot_volume_simps file_bytes_def handle_path_def)
  have good: "2 \<le> length (file_bytes ?G1 2)"
    "4 \<le> length (file_bytes ?G1 2) \<and> file_bytes ?G1 2 ! 0 = PSF1_MAGIC0 \<and> file_bytes ?G1 2 ! 1 = PSF1_MAGIC1"
    using bytes2 by (simp_all add: demo_font_def PSF1_MAGIC0_def PSF1_MAGIC1_def)
  have F1: "calls ?F1 = [CallHandleProtocol ''gEfiLoadedImageProtocolGuid'',
      CallHandleProtocol ''gEfiSimpleFileSystemProtocolGuid'',
      CallOpenVolume,
      CallOpen 0 ''bad.psf'' EFI_FILE_MODE_READ EFI_FILE_READ_ONLY EFI_SUCCESS]"
    "pool_at ?F1 (pool_calls ?F1) = 0x4000"
    by (simp_all add: LoadFile_None_eq boot_fw_simps boot_volume_simps)
  show ?thesis
    using LoadPSF1Font_rejects_bad_magic [OF open1 bad(1)] bad(2)
      LoadPSF1Font_rejects_bad_magic [OF open2 good(1)] good(2)
    by (simp add: F1)
qed

subsection \<open>C10: the two failures of the font loader look alike\<close>

text \<open>
  C10. \<open>LoadPSF1Font\<close> returns \<open>NULL\<close> when the font file cannot be opened, and it returns
  \<open>NULL\<close> when the file opens and a magic byte is wrong: the two results are equal. Its
  caller in \<open>efi_main\<close> acts on that value alone: whenever the result is \<open>NULL\<close> it prints
  the same message and returns \<open>EFI_LOAD_ERROR\<close>.
\<close>

theorem LoadPSF1Font_failures_alike:
  assumes "fst (LoadFile D P fw) = None"
    and "LoadFile D' P' fw' = (Some f, fw1)"
    and "2 \<le> length (file_bytes fw1 f)"
    and "file_bytes fw1 f ! 0 \<noteq> PSF1_MAGIC0 \<or> file_bytes fw1 f ! 1 \<noteq> PSF1_MAGIC1"
  shows "fst (LoadPSF1Font D P fw) = None \<and> fst (LoadPSF1Font D' P' fw') = None \<and>
         fst (LoadPSF1Font D P fw) = fst (LoadPSF1Font D' P' fw') \<and>
         (\<forall>s header ksize phdrs.
            fst (LoadPSF1Font (fst (LoadFile None ''files'' s)) ''main.psf''
                   (snd (LoadFile None ''files'' s))) = None \<longrightarrow>
            fst (load_files_and_run header ksize phdrs s) = Returned EFI_LOAD_ERROR \<and>
            calls (snd (load_files_and_run header ksize phdrs s)) =
              calls (snd (LoadPSF1Font (fst (LoadFile None ''files'' s)) ''main.psf''
                            (snd (LoadFile None ''files'' s)))) @
              [CallPrint ''Unable to locate font file files/main.psf!''])"
proof -
  have a: "fst (LoadPSF1Font D P fw) = None"
    by (rule LoadPSF1Font_not_found(1) [OF assms(1)])
  have "file_bytes fw1 f ! 0 \<noteq> 0x36 \<or> file_bytes fw1 f ! 1 \<noteq> 0x04"
    using assms(4) by (simp add: PSF1_MAGIC0_def PSF1_MAGIC1_def)
  then have b: "fst (LoadPSF1Font D' P' fw') = None"
    by (rule LoadPSF1Font_bad_magic(1) [OF assms(2,3)])
  have c: "fst (load_files_and_run header ksize phdrs s) = Returned EFI_LOAD_ERROR \<and>
           calls (snd (load_files_and_run header ksize phdrs s)) =
             calls (snd (LoadPSF1Font (fst (LoadFile None ''files'' s)) ''main.psf''
                           (snd (LoadFile None ''files'' s)))) @
             [CallPrint ''Unable to locate font file files/main.psf!'']"
    if "fst (LoadPSF1Font (fst (LoadFile None ''files'' s)) ''main.psf''
               (snd (LoadFile None ''files'' s))) = None"
    for s header ksize phdrs
    using that by (simp add: load_files_and_run_def split_beta Print_def)
  show ?thesis
    using a b c by simp
qed

text \<open>On the example volume: a missing file, a file with a wrong magic byte, and the
  caller's answer to the latter.\<close>

theorem LoadPSF1Font_failures_alike_witness:
  "fst (LoadPSF1Font None ''none.psf'' (boot_fw demo_elf demo_font None grant_all)) = None \<and>
   fst (LoadPSF1Font None ''bad.psf'' (boot_fw demo_elf demo_font None grant_all)) = None \<and>
   fst (load_files_and_run (decode_Elf64_Ehdr demo_ehdr) 0 0 (boot_fw demo_elf bad_font None grant_all))
     = Returned EFI_LOAD_ERROR"
proof -
  let ?F = "boot_fw demo_elf demo_font None grant_all"
  let ?F1 = "snd (LoadFile None ''bad.psf'' ?F)"
  let ?B = "boot_fw demo_elf bad_font None grant_all"
  let ?B1 = "snd (LoadFile None ''files'' ?B)"
  let ?B2 = "snd (LoadFile (Some 1) ''main.psf'' ?B1)"
  have missing: "fst (LoadFile None ''none.psf'' ?F) = None"
    by (simp add: LoadFile_None_eq boot_fw_simps boot_volume_simps)
  have open1: "LoadFile None ''bad.psf'' ?F = (Some 1, ?F1)"
    by (simp add: LoadFile_None_eq boot_fw_simps boot_volume_simps)
  have bytes1: "file_bytes ?F1 1 = bad_font"
    by (simp add: LoadFile_None_eq boot_fw_simps boot_volume_simps file_bytes_def handle_path_def)
  have bad: "2 \<le> length (file_bytes ?F1 1)"
    "file_bytes ?F1 1 ! 0 \<noteq> PSF1_MAGIC0 \<or> file_bytes ?F1 1 ! 1 \<noteq> PSF1_MAGIC1"
    using bytes1 by (simp_all add: bad_font_def PSF1_MAGIC0_def)
  have dir: "fst (LoadFile None ''files'' ?B) = Some 1"
    by (simp add: LoadFile_None_eq boot_fw_simps boot_volume_simps)
  have open2: "LoadFile (Some 1) ''main.psf'' ?B1 = (Some 2, ?B2)"
    by (simp add: LoadFile_None_eq LoadFile_Some_eq boot_fw_simps boot_volume_simps handle_path_def)
  have bytes2: "file_bytes ?B2 2 = bad_font"
    by (simp add: LoadFile_None_eq LoadFile_Some_eq boot_fw_simps boot_volume_simps file_bytes_def handle_path_def)
  have bad2: "2 \<le> length (file_bytes ?B2 2)"
    "file_bytes ?B2 2 ! 0 \<noteq> 0x36 \<or> file_bytes ?B2 2 ! 1 \<noteq> 0x04"
    using bytes2 by (simp_all add: bad_font_def)
  have caller: "fst (LoadPSF1Font (fst (LoadFile None ''files'' ?B)) ''main.psf'' ?B1) = None"
    unfolding dir by (rule LoadPSF1Font_bad_magic(1) [OF open2 bad2])
  show ?thesis
    using LoadPSF1Font_failures_alike [OF missing open1 bad] caller by simp
qed

subsection \<open>C1: what a mapped segment holds\<close>

text \<open>
  C1, as amended. For an entry of type \<open>PT_LOAD\<close> whose \<open>p_filesz\<close> bytes the file holds at
  \<open>p_offset\<close>, the loop body asks for the pages at \<open>p_paddr\<close>, seeks to \<open>p_offset\<close> and
  reads \<open>p_filesz\<close> bytes to \<open>p_paddr\<close>: afterwards byte \<open>i\<close> of the region, for
  \<open>i < p_filesz\<close>, is byte \<open>p_offset + i\<close> of the file, and every byte \<open>i\<close> with
  \<open>p_filesz \<le> i < p_memsz\<close> holds what memory held there before the mapping. The loader
  does not zero-fill the rest of the region.
\<close>

theorem load_segment_copies_and_keeps:
  assumes "p_type (read_Elf64_Phdr fw p) = PT_LOAD"
    and "k < length (opened fw)"
    and "length (file_bytes fw k) < 2 ^ 64"
    and "unat (p_offset (read_Elf64_Phdr fw p)) + unat (p_filesz (read_Elf64_Phdr fw p))
           \<le> length (file_bytes fw k)"
  shows "calls (load_segment k p fw) =
           calls fw @
           [CallAllocatePages AllocateAddress EfiLoaderData
              (page_count (p_memsz (read_Elf64_Phdr fw p))) (p_paddr (read_Elf64_Phdr fw p))
              (if pages_grant fw AllocateAddress (p_paddr (read_Elf64_Phdr fw p))
                    (page_count (p_memsz (read_Elf64_Phdr fw p))) = None
               then EFI_OUT_OF_RESOURCES else EFI_SUCCESS),
            CallSetPosition k (p_offset (read_Elf64_Phdr fw p)),
            CallRead k (p_filesz (read_Elf64_Phdr fw p)) (p_paddr (read_Elf64_Phdr fw p))] \<and>
         (\<forall>i < unat (p_filesz (read_Elf64_Phdr fw p)).
            mem (load_segment k p fw) (p_paddr (read_Elf64_Phdr fw p) + of_nat i) =
              file_bytes fw k ! (unat (p_offset (read_Elf64_Phdr fw p)) + i)) \<and>
         (\<forall>i. unat (p_filesz (read_Elf64_Phdr fw p)) \<le> i \<and> i < unat (p_memsz (read_Elf64_Phdr fw p)) \<longrightarrow>
            mem (load_segment k p fw) (p_paddr (read_Elf64_Phdr fw p) + of_nat i) =
              mem fw (p_paddr (read_Elf64_Phdr fw p) + of_nat i))"
proof -
  define ph where "ph = read_Elf64_Phdr fw p"
  define bs where "bs = take (unat (p_filesz ph)) (drop (unat (p_offset ph)) (file_bytes fw k))"
  have off: "(if p_offset ph = - 1 then length (file_bytes fw k) else unat (p_offset ph)) =
               unat (p_offset ph)"
  proof (cases "p_offset ph = - 1")
    case True
    then have "unat (p_offset ph) = 2 ^ 64 - 1"
      by (simp add: unsigned_minus_1_eq_mask mask_eq_exp_minus_1)
    with assms(3,4) have "length (file_bytes fw k) = unat (p_offset ph)"
      by (simp add: ph_def)
    with True show ?thesis by simp
  next
    case False
    then show ?thesis by simp
  qed
  have len: "length bs = unat (p_filesz ph)"
    using assms(4) by (simp add: bs_def ph_def)
  have m: "mem (load_segment k p fw) = store_bytes (mem fw) (p_paddr ph) bs"
    using load_segment_PT_LOAD(1) [OF assms(1,2)] off by (simp only: ph_def bs_def)
  have le: "length bs \<le> 2 ^ 64"
    using unat_lt_2p64 [of "p_filesz ph"] len by simp
  have copied: "mem (load_segment k p fw) (p_paddr ph + of_nat i) = file_bytes fw k ! (unat (p_offset ph) + i)"
    if "i < unat (p_filesz ph)" for i
  proof -
    have "store_bytes (mem fw) (p_paddr ph) bs (p_paddr ph + of_nat i) = bs ! i"
      using that len le by (intro store_bytes_nth) simp_all
    also have "bs ! i = file_bytes fw k ! (unat (p_offset ph) + i)"
      using that assms(4) by (simp add: bs_def ph_def)
    finally show ?thesis by (simp add: m)
  qed
  have kept: "mem (load_segment k p fw) (p_paddr ph + of_nat i) = mem fw (p_paddr ph + of_nat i)"
    if "unat (p_filesz ph) \<le> i" and "i < unat (p_memsz ph)" for i
  proof -
    have i: "i < 2 ^ 64"
      using that(2) unat_lt_2p64 [of "p_memsz ph"] by simp
    have "\<forall>j<length bs. p_paddr ph + of_nat i \<noteq> p_paddr ph + of_nat j"
    proof (intro allI impI)
      fix j assume j: "j < length bs"
      then have "j < 2 ^ 64" using le by simp
      moreover have "i \<noteq> j" using j len that(1) by simp
      ultimately have "(of_nat i :: 64 word) \<noteq> of_nat j"
        using i of_nat_word64_inj by blast
      then show "p_paddr ph + of_nat i \<noteq> p_paddr ph + of_nat j" by simp
    qed
    then show ?thesis
      unfolding m by (rule store_bytes_other)
  qed
  show ?thesis
    using copied kept load_segment_PT_LOAD(2) [OF assms(1,2)] by (simp add: ph_def)
qed

text \<open>The claim as stated fails: on the example entry (2 bytes in the file, 4 in memory)
  the third byte of the region still holds \<open>0xAA\<close>, the previous content of memory, after
  the mapping.\<close>

theorem load_segment_tail_not_zeroed:
  "p_type (read_Elf64_Phdr (loop_fw (demo_phdr0 @ demo_phdr1) grant_all) 0x5000) = PT_LOAD \<and>
   p_paddr (read_Elf64_Phdr (loop_fw (demo_phdr0 @ demo_phdr1) grant_all) 0x5000) = 0x100000 \<and>
   p_filesz (read_Elf64_Phdr (loop_fw (demo_phdr0 @ demo_phdr1) grant_all) 0x5000) = 2 \<and>
   p_memsz (read_Elf64_Phdr (loop_fw (demo_phdr0 @ demo_phdr1) grant_all) 0x5000) = 4 \<and>
   mem (load_segment 0 0x5000 (loop_fw (demo_phdr0 @ demo_phdr1) grant_all)) (0x100000 + 2) = 0xAA \<and>
   mem (load_segment 0 0x5000 (loop_fw (demo_phdr0 @ demo_phdr1) grant_all)) (0x100000 + 2) \<noteq> 0"
proof -
  let ?fw = "loop_fw (demo_phdr0 @ demo_phdr1) grant_all"
  have ph: "read_Elf64_Phdr ?fw 0x5000 = decode_Elf64_Phdr demo_phdr0"
    by (rule loop_entry0)
  have fb: "file_bytes ?fw 0 = demo_elf"
    by (simp add: file_bytes_def handle_path_def loop_fw_def boot_volume_def)
  have "mem (load_segment 0 0x5000 ?fw) =
          store_bytes (mem ?fw) 0x100000 [0x90, 0xC3]"
    using load_segment_PT_LOAD(1) [of ?fw "0x5000" 0]
    by (simp add: ph demo_phdr0_decoded PT_LOAD_def fb demo_elf_payload) (simp add: loop_fw_def)
  moreover have "mem ?fw 0x100002 = 0xAA"
    by (simp add: loop_fw_def store_bytes_outside demo_phdr0_def demo_phdr1_def)
  ultimately show ?thesis
    by (simp add: ph demo_phdr0_decoded PT_LOAD_def)
qed

text \<open>The amended statement on the same entry.\<close>

theorem load_segment_copies_and_keeps_witness:
  "mem (load_segment 0 0x5000 (loop_fw (demo_phdr0 @ demo_phdr1) grant_all)) 0x100001 = 0xC3 \<and>
   mem (load_segment 0 0x5000 (loop_fw (demo_phdr0 @ demo_phdr1) grant_all)) 0x100003 =
     mem (loop_fw (demo_phdr0 @ demo_phdr1) grant_all) 0x100003 \<and>
   calls (load_segment 0 0x5000 (loop_fw (demo_phdr0 @ demo_phdr1) grant_all)) =
     [CallAllocatePages AllocateAddress EfiLoaderData 1 0x100000 EFI_SUCCESS,
      CallSetPosition 0 176, CallRead 0 2 0x100000]"
proof -
  let ?fw = "loop_fw (demo_phdr0 @ demo_phdr1) grant_all"
  have ph: "read_Elf64_Phdr ?fw 0x5000 = decode_Elf64_Phdr demo_phdr0"
    by (rule loop_entry0)
  have fb: "file_bytes ?fw 0 = demo_elf"
    by (simp add: file_bytes_def handle_path_def loop_fw_def boot_volume_def)
  have h1: "p_type (read_Elf64_Phdr ?fw 0x5000) = PT_LOAD"
    by (simp add: ph demo_phdr0_decoded PT_LOAD_def)
  have h2: "0 < length (opened ?fw)"
    by (simp add: loop_fw_def)
  have n: "length demo_elf = 178"
    by (simp add: demo_elf_def demo_ehdr_def demo_phdr0_def demo_phdr1_def)
  have h3: "length (file_bytes ?fw 0) < 2 ^ 64"
    by (simp add: fb n)
  have h4: "unat (p_offset (read_Elf64_Phdr ?fw 0x5000)) + unat (p_filesz (read_Elf64_Phdr ?fw 0x5000))
              \<le> length (file_bytes ?fw 0)"
    by (simp add: ph demo_phdr0_decoded fb n)
  have b: "demo_elf ! 177 = 0xC3"
    by (simp add: demo_elf_def demo_ehdr_def demo_phdr0_def demo_phdr1_def nth_append)
  have pc: "page_count 4 = 1"
    by (simp add: page_count_def)
  have g: "pages_grant ?fw = grant_all" "calls ?fw = []"
    by (simp_all add: loop_fw_def)
  have t: "calls (load_segment 0 0x5000 ?fw) =
             calls ?fw @
             [CallAllocatePages AllocateAddress EfiLoaderData (page_count 4) 0x100000
                (if pages_grant ?fw AllocateAddress 0x100000 (page_count 4) = None
                 then EFI_OUT_OF_RESOURCES else EFI_SUCCESS),
              CallSetPosition 0 176, CallRead 0 2 0x100000] \<and>
           (\<forall>i<2. mem (load_segment 0 0x5000 ?fw) (0x100000 + of_nat i) = demo_elf ! (176 + i)) \<and>
           (\<forall>i. 2 \<le> i \<and> i < 4 \<longrightarrow>
              mem (load_segment 0 0x5000 ?fw) (0x100000 + of_nat i) = mem ?fw (0x100000 + of_nat i))"
    using load_segment_copies_and_keeps [OF h1 h2 h3 h4]
    by (simp add: ph demo_phdr0_decoded fb)
  have c: "calls (load_segment 0 0x5000 ?fw) =
     [CallAllocatePages AllocateAddress EfiLoaderData 1 0x100000 EFI_SUCCESS,
      CallSetPosition 0 176, CallRead 0 2 0x100000]"
    using t by (simp add: pc g grant_all_def)
  have a1: "mem (load_segment 0 0x5000 ?fw) 0x100001 = 0xC3"
    using t [THEN conjunct2, THEN conjunct1, rule_format, of 1] b by simp
  have a2: "mem (load_segment 0 0x5000 ?fw) 0x100003 = mem ?fw 0x100003"
    using t [THEN conjunct2, THEN conjunct2, rule_format, of 3] by simp
  show ?thesis
    using a1 a2 c by simp
qed

subsection \<open>C5: what the loop asks of the firmware\<close>

text \<open>
  C5, as amended. For the entry at address \<open>p\<close>: when its type is \<open>PT_LOAD\<close>, the loop body
  makes one \<open>AllocatePages\<close> call, of type \<open>AllocateAddress\<close>, at the entry's \<open>p_paddr\<close>, for
  \<open>page_count p_memsz\<close> pages, and that count is \<open>ceil(p_memsz / 4096)\<close> whenever
  \<open>p_memsz \<le> 2 ^ 43 - 4096\<close> (the count then fits the \<open>int\<close> it is stored in); when its
  type is not \<open>PT_LOAD\<close> the body leaves the machine as it is. Whatever the header, the
  addresses the loop visits are \<open>phdrs + i * e_phentsize\<close> for \<open>i = 0, 1, ...\<close> below some
  number of rounds, in that order: the stride is the header's \<open>e_phentsize\<close>. When the
  table's size \<open>e_phnum * e_phentsize\<close> is below \<open>2 ^ 31\<close> (it then fits the \<open>int\<close> it is
  computed in) and the table ends below the end of the address space, the entries visited
  are those of the table, the ones whose offset \<open>i * e_phentsize\<close> is below the table's
  size: the \<open>e_phnum\<close> entries, or none when \<open>e_phentsize\<close> is 0.
\<close>

theorem map_segments_requests:
  "(p_type (read_Elf64_Phdr fw p) = PT_LOAD \<longrightarrow>
      calls (load_segment k p fw) =
        calls fw @
        [CallAllocatePages AllocateAddress EfiLoaderData
           (page_count (p_memsz (read_Elf64_Phdr fw p))) (p_paddr (read_Elf64_Phdr fw p))
           (if pages_grant fw AllocateAddress (p_paddr (read_Elf64_Phdr fw p))
                 (page_count (p_memsz (read_Elf64_Phdr fw p))) = None
            then EFI_OUT_OF_RESOURCES else EFI_SUCCESS),
         CallSetPosition k (p_offset (read_Elf64_Phdr fw p)),
         CallRead k (p_filesz (read_Elf64_Phdr fw p)) (p_paddr (read_Elf64_Phdr fw p))]) \<and>
   (unat (p_memsz (read_Elf64_Phdr fw p)) \<le> 2 ^ 43 - 4096 \<longrightarrow>
      unat (page_count (p_memsz (read_Elf64_Phdr fw p))) =
        (unat (p_memsz (read_Elf64_Phdr fw p)) + 4095) div 4096) \<and>
   (p_type (read_Elf64_Phdr fw p) \<noteq> PT_LOAD \<longrightarrow> load_segment k p fw = fw) \<and>
   (\<exists>N. map_segments header phdrs k 0 fw =
      fold (\<lambda>i. load_segment k (phdrs + of_nat (i * unat (e_phentsize header)))) [0..<N] fw) \<and>
   (unat (e_phnum header) * unat (e_phentsize header) < 2 ^ 31 \<and>
    unat phdrs + unat (e_phnum header) * unat (e_phentsize header) < 2 ^ 64 \<longrightarrow>
      map_segments header phdrs k 0 fw =
        fold (\<lambda>i. load_segment k (phdrs + of_nat (i * unat (e_phentsize header))))
          [0..<(if e_phentsize header = 0 then 0 else unat (e_phnum header))] fw)"
proof (intro conjI impI)
  assume "p_type (read_Elf64_Phdr fw p) = PT_LOAD"
  then show "calls (load_segment k p fw) =
        calls fw @
        [CallAllocatePages AllocateAddress EfiLoaderData
           (page_count (p_memsz (read_Elf64_Phdr fw p))) (p_paddr (read_Elf64_Phdr fw p))
           (if pages_grant fw AllocateAddress (p_paddr (read_Elf64_Phdr fw p))
                 (page_count (p_memsz (read_Elf64_Phdr fw p))) = None
            then EFI_OUT_OF_RESOURCES else EFI_SUCCESS),
         CallSetPosition k (p_offset (read_Elf64_Phdr fw p)),
         CallRead k (p_filesz (read_Elf64_Phdr fw p)) (p_paddr (read_Elf64_Phdr fw p))]"
    by (rule load_segment_calls)
next
  assume "unat (p_memsz (read_Elf64_Phdr fw p)) \<le> 2 ^ 43 - 4096"
  then show "unat (page_count (p_memsz (read_Elf64_Phdr fw p))) =
        (unat (p_memsz (read_Elf64_Phdr fw p)) + 4095) div 4096"
    by (rule page_count_ceil)
next
  assume "p_type (read_Elf64_Phdr fw p) \<noteq> PT_LOAD"
  then show "load_segment k p fw = fw"
    by (simp add: load_segment_def Let_def)
next
  show "\<exists>N. map_segments header phdrs k 0 fw =
      fold (\<lambda>i. load_segment k (phdrs + of_nat (i * unat (e_phentsize header)))) [0..<N] fw"
    using map_segments_stride [of header phdrs k 0 fw] by (simp only: add_0)
next
  assume a: "unat (e_phnum header) * unat (e_phentsize header) < 2 ^ 31 \<and>
    unat phdrs + unat (e_phnum header) * unat (e_phentsize header) < 2 ^ 64"
  show "map_segments header phdrs k 0 fw =
     fold (\<lambda>i. load_segment k (phdrs + of_nat (i * unat (e_phentsize header))))
       [0..<(if e_phentsize header = 0 then 0 else unat (e_phnum header))] fw"
  proof (cases "e_phentsize header = 0")
    case True
    have "map_segments header phdrs k 0 fw = fw"
      using True by (rule map_segments_none)
    then show ?thesis
      by (simp add: True)
  next
    case False
    have "map_segments header phdrs k 0 fw =
        fold (\<lambda>i. load_segment k (phdrs + of_nat (i * unat (e_phentsize header))))
          [0..<unat (e_phnum header)] fw"
      using False a [THEN conjunct1] a [THEN conjunct2] by (rule map_segments_fold) simp
    then show ?thesis
      by (simp only: False if_False)
  qed
qed

text \<open>The claim as stated fails in two ways. For \<open>p_memsz = 2 ^ 44\<close> the loader asks for 0
  pages, where \<open>ceil(p_memsz / 4096)\<close> is \<open>2 ^ 32\<close>. And for a header that passes the
  verification with \<open>e_phentsize = e_phnum = 0xFFFF\<close> the product of line 235 is the \<open>int\<close>
  \<open>-131071\<close>: with the table at \<open>0x200000\<close> the bound of the loop lies below the table, and
  the loop visits no entry, although the first entry of the table is loadable.\<close>

theorem page_count_and_table_size_wrap:
  "p_type (read_Elf64_Phdr (loop_fw huge_phdr grant_all) 0x5000) = PT_LOAD \<and>
   unat (p_memsz (read_Elf64_Phdr (loop_fw huge_phdr grant_all) 0x5000)) = 2 ^ 44 \<and>
   calls (load_segment 0 0x5000 (loop_fw huge_phdr grant_all)) =
     [CallAllocatePages AllocateAddress EfiLoaderData 0 0x100000 EFI_SUCCESS,
      CallSetPosition 0 176, CallRead 0 2 0x100000] \<and>
   (2 ^ 44 + 4095) div 4096 = (2 ^ 32 :: nat) \<and>
   \<not> header_invalid (decode_Elf64_Ehdr wide_ehdr) \<and>
   e_phnum (decode_Elf64_Ehdr wide_ehdr) = 0xFFFF \<and>
   e_phentsize (decode_Elf64_Ehdr wide_ehdr) = 0xFFFF \<and>
   sint (phdr_table_bytes (decode_Elf64_Ehdr wide_ehdr)) = - 131071 \<and>
   p_type (read_Elf64_Phdr high_fw 0x200000) = PT_LOAD \<and>
   map_segments (decode_Elf64_Ehdr wide_ehdr) 0x200000 0 0 high_fw = high_fw"
proof -
  have pc: "page_count 0x100000000000 = 0"
    by (simp add: page_count_def)
  have t: "p_type (read_Elf64_Phdr (loop_fw huge_phdr grant_all) 0x5000) = PT_LOAD"
    by (simp add: loop_entry_huge huge_phdr_decoded PT_LOAD_def)
  then have a: "p_type (read_Elf64_Phdr (loop_fw huge_phdr grant_all) 0x5000) = PT_LOAD \<and>
   unat (p_memsz (read_Elf64_Phdr (loop_fw huge_phdr grant_all) 0x5000)) = 2 ^ 44 \<and>
   calls (load_segment 0 0x5000 (loop_fw huge_phdr grant_all)) =
     [CallAllocatePages AllocateAddress EfiLoaderData 0 0x100000 EFI_SUCCESS,
      CallSetPosition 0 176, CallRead 0 2 0x100000] \<and>
   (2 ^ 44 + 4095) div 4096 = (2 ^ 32 :: nat)"
    by (simp add: load_segment_calls loop_entry_huge huge_phdr_decoded loop_fw_simps pc grant_all_def)
  have v: "\<not> header_invalid (decode_Elf64_Ehdr wide_ehdr)"
    by (simp add: header_invalid_iff wide_ehdr_decoded)
  have f: "e_phnum (decode_Elf64_Ehdr wide_ehdr) = 0xFFFF"
    "e_phentsize (decode_Elf64_Ehdr wide_ehdr) = 0xFFFF"
    by (simp_all add: wide_ehdr_decoded)
  have tb: "phdr_table_bytes (decode_Elf64_Ehdr wide_ehdr) = 0xFFFE0001"
    by (simp add: phdr_table_bytes_def f)
  have s: "sint (phdr_table_bytes (decode_Elf64_Ehdr wide_ehdr)) = - 131071"
    by (simp add: tb)
  have "(scast (phdr_table_bytes (decode_Elf64_Ehdr wide_ehdr)) :: 64 word) =
      of_int (sint (phdr_table_bytes (decode_Elf64_Ehdr wide_ehdr)))"
    by (simp only: of_int_sint)
  also have "\<dots> = of_int (- 131071)"
    by (simp only: s)
  also have "\<dots> = - 131071"
    by simp
  finally have sc: "(scast (phdr_table_bytes (decode_Elf64_Ehdr wide_ehdr)) :: 64 word) = - 131071" .
  have h: "p_type (read_Elf64_Phdr high_fw 0x200000) = PT_LOAD"
    by (simp add: high_entry0 demo_phdr0_decoded PT_LOAD_def)
  have "\<not> (0x200000 :: 64 word) + of_nat (0 * unat (e_phentsize (decode_Elf64_Ehdr wide_ehdr)))
          < 0x200000 + scast (phdr_table_bytes (decode_Elf64_Ehdr wide_ehdr))"
    by (simp add: sc)
  then have m: "map_segments (decode_Elf64_Ehdr wide_ehdr) 0x200000 0 0 high_fw = high_fw"
    by (subst map_segments.simps) (simp only: if_False)
  from a v f s h m show ?thesis
    by (simp only: simp_thms)
qed

text \<open>The amended statement on the example table: a loadable entry of 4 bytes (one page),
  a note entry that is skipped, and the loop over both with stride 56.\<close>

theorem map_segments_requests_witness:
  "calls (load_segment 0 0x5000 (loop_fw (demo_phdr0 @ demo_phdr1) grant_all)) =
     [CallAllocatePages AllocateAddress EfiLoaderData 1 0x100000 EFI_SUCCESS,
      CallSetPosition 0 176, CallRead 0 2 0x100000] \<and>
   unat (page_count 4) = 1 \<and>
   load_segment 0 0x5038 (loop_fw (demo_phdr0 @ demo_phdr1) grant_all) =
     loop_fw (demo_phdr0 @ demo_phdr1) grant_all \<and>
   map_segments (decode_Elf64_Ehdr demo_ehdr) 0x5000 0 0 (loop_fw (demo_phdr0 @ demo_phdr1) grant_all) =
     fold (\<lambda>i. load_segment 0 (0x5000 + of_nat (i * 56))) [0..<2]
       (loop_fw (demo_phdr0 @ demo_phdr1) grant_all)"
proof -
  let ?S = "loop_fw (demo_phdr0 @ demo_phdr1) grant_all"
  let ?H = "decode_Elf64_Ehdr demo_ehdr"
  have a: "p_type (read_Elf64_Phdr ?S 0x5000) = PT_LOAD"
    "unat (p_memsz (read_Elf64_Phdr ?S 0x5000)) \<le> 2 ^ 43 - 4096"
    by (simp_all add: loop_entry0 demo_phdr0_decoded PT_LOAD_def)
  have b: "p_type (read_Elf64_Phdr ?S 0x5038) \<noteq> PT_LOAD"
    by (simp add: loop_entry1 demo_phdr1_decoded PT_LOAD_def)
  have f: "e_phnum ?H = 2" "e_phentsize ?H = 56"
    by (simp_all add: demo_ehdr_decoded)
  have c: "unat (e_phnum ?H) * unat (e_phentsize ?H) < 2 ^ 31 \<and>
    unat (0x5000 :: 64 word) + unat (e_phnum ?H) * unat (e_phentsize ?H) < 2 ^ 64"
    by (simp add: f)
  have pc: "page_count 4 = 1"
    by (simp add: page_count_def)
  note t0 = map_segments_requests [of ?S "0x5000" 0 ?H "0x5000"]
  note t1 = map_segments_requests [of ?S "0x5038" 0 ?H "0x5000"]
  have r1: "calls (load_segment 0 0x5000 ?S) =
     [CallAllocatePages AllocateAddress EfiLoaderData 1 0x100000 EFI_SUCCESS,
      CallSetPosition 0 176, CallRead 0 2 0x100000]"
    using t0 [THEN conjunct1, THEN mp, OF a(1)]
    by (simp add: loop_entry0 demo_phdr0_decoded loop_fw_simps grant_all_def pc)
  have r2: "unat (page_count 4) = 1"
    using t0 [THEN conjunct2, THEN conjunct1, THEN mp, OF a(2)]
    by (simp add: loop_entry0 demo_phdr0_decoded)
  have r3: "load_segment 0 0x5038 ?S = ?S"
    using t1 [THEN conjunct2, THEN conjunct2, THEN conjunct1, THEN mp, OF b] .
  have r4: "map_segments ?H 0x5000 0 0 ?S =
     fold (\<lambda>i. load_segment 0 (0x5000 + of_nat (i * 56))) [0..<2] ?S"
    using t0 [THEN conjunct2, THEN conjunct2, THEN conjunct2, THEN conjunct2, THEN mp, OF c]
    by (simp add: f)
  from r1 r2 r3 r4 show ?thesis
    by (simp only: simp_thms)
qed

subsection \<open>C2: the verification of the header\<close>

text \<open>
  C2. The condition of lines 207-214 has six operands, evaluated from the left until one
  holds: the magic (bytes 0 to 3 of \<open>e_ident\<close> against \<open>0x7F 'E' 'L' 'F'\<close>), the class, the
  data encoding, the type, the machine and the version. \<open>checks_evaluated\<close> counts the
  operands evaluated: 1 when the magic is wrong, 2 when the magic is right and the class
  wrong, and so on; 6 when the first five pass. A header is rejected exactly when one of
  the six fails. Any header that differs from the magic in one of the four positions is
  rejected; and changing one field of a header that passes (one magic byte, the class, the
  encoding, the type, the machine or the version) gives a header that is rejected. When
  the header read from the kernel file is rejected, the loader prints its message and
  returns \<open>EFI_LOAD_ERROR\<close> without another firmware call.
\<close>

theorem header_validation:
  "(header_invalid header \<longleftrightarrow>
      (e_ident header ! 0 \<noteq> 0x7F \<or> e_ident header ! 1 \<noteq> 0x45 \<or>
       e_ident header ! 2 \<noteq> 0x4C \<or> e_ident header ! 3 \<noteq> 0x46) \<or>
      e_ident header ! EI_CLASS \<noteq> ELFCLASS64 \<or> e_ident header ! EI_DATA \<noteq> ELFDATA2LSB \<or>
      e_type header \<noteq> ET_EXEC \<or> e_machine header \<noteq> EM_X86_64 \<or>
      e_version header \<noteq> EV_CURRENT) \<and>
   checks_evaluated header =
     (if e_ident header ! 0 \<noteq> 0x7F \<or> e_ident header ! 1 \<noteq> 0x45 \<or>
         e_ident header ! 2 \<noteq> 0x4C \<or> e_ident header ! 3 \<noteq> 0x46 then 1
      else if e_ident header ! EI_CLASS \<noteq> ELFCLASS64 then 2
      else if e_ident header ! EI_DATA \<noteq> ELFDATA2LSB then 3
      else if e_type header \<noteq> ET_EXEC then 4
      else if e_machine header \<noteq> EM_X86_64 then 5
      else 6) \<and>
   (\<forall>i<4. e_ident header ! i \<noteq> ELFMAG ! i \<longrightarrow> header_invalid header) \<and>
   (\<not> header_invalid header \<and> length (e_ident header) = 16 \<longrightarrow>
      (\<forall>i b. i < 4 \<and> b \<noteq> e_ident header ! i \<longrightarrow>
         header_invalid (header\<lparr>e_ident := (e_ident header)[i := b]\<rparr>)) \<and>
      (\<forall>c. c \<noteq> ELFCLASS64 \<longrightarrow>
         header_invalid (header\<lparr>e_ident := (e_ident header)[EI_CLASS := c]\<rparr>)) \<and>
      (\<forall>d. d \<noteq> ELFDATA2LSB \<longrightarrow>
         header_invalid (header\<lparr>e_ident := (e_ident header)[EI_DATA := d]\<rparr>)) \<and>
      (\<forall>t. t \<noteq> ET_EXEC \<longrightarrow> header_invalid (header\<lparr>e_type := t\<rparr>)) \<and>
      (\<forall>m. m \<noteq> EM_X86_64 \<longrightarrow> header_invalid (header\<lparr>e_machine := m\<rparr>)) \<and>
      (\<forall>v. v \<noteq> EV_CURRENT \<longrightarrow> header_invalid (header\<lparr>e_version := v\<rparr>))) \<and>
   (header_invalid (fst (read_header k (Print ''Loading header structure...'' fw))) \<longrightarrow>
      fst (load_kernel k fw) = Returned EFI_LOAD_ERROR \<and>
      calls (snd (load_kernel k fw)) =
        calls (snd (read_header k (Print ''Loading header structure...'' fw))) @
        [CallPrint ''Verifying header...'', CallPrint ''Header is invalid!''])"
proof (intro conjI)
  show "header_invalid header \<longleftrightarrow>
      (e_ident header ! 0 \<noteq> 0x7F \<or> e_ident header ! 1 \<noteq> 0x45 \<or>
       e_ident header ! 2 \<noteq> 0x4C \<or> e_ident header ! 3 \<noteq> 0x46) \<or>
      e_ident header ! EI_CLASS \<noteq> ELFCLASS64 \<or> e_ident header ! EI_DATA \<noteq> ELFDATA2LSB \<or>
      e_type header \<noteq> ET_EXEC \<or> e_machine header \<noteq> EM_X86_64 \<or>
      e_version header \<noteq> EV_CURRENT"
    by (simp add: header_invalid_iff EI_CLASS_def ELFCLASS64_def EI_DATA_def ELFDATA2LSB_def
        ET_EXEC_def EM_X86_64_def EV_CURRENT_def)
next
  show "checks_evaluated header =
     (if e_ident header ! 0 \<noteq> 0x7F \<or> e_ident header ! 1 \<noteq> 0x45 \<or>
         e_ident header ! 2 \<noteq> 0x4C \<or> e_ident header ! 3 \<noteq> 0x46 then 1
      else if e_ident header ! EI_CLASS \<noteq> ELFCLASS64 then 2
      else if e_ident header ! EI_DATA \<noteq> ELFDATA2LSB then 3
      else if e_type header \<noteq> ET_EXEC then 4
      else if e_machine header \<noteq> EM_X86_64 then 5
      else 6)"
    by (simp add: checks_evaluated_eq EI_CLASS_def ELFCLASS64_def EI_DATA_def ELFDATA2LSB_def
        ET_EXEC_def EM_X86_64_def EV_CURRENT_def)
next
  show "\<forall>i<4. e_ident header ! i \<noteq> ELFMAG ! i \<longrightarrow> header_invalid header"
  proof (intro allI impI)
    fix i :: nat assume "i < 4" and ne: "e_ident header ! i \<noteq> ELFMAG ! i"
    then have "i = 0 \<or> i = 1 \<or> i = 2 \<or> i = 3" by auto
    then show "header_invalid header"
      using ne by (auto simp: header_invalid_iff ELFMAG_def)
  qed
next
  show "\<not> header_invalid header \<and> length (e_ident header) = 16 \<longrightarrow>
      (\<forall>i b. i < 4 \<and> b \<noteq> e_ident header ! i \<longrightarrow>
         header_invalid (header\<lparr>e_ident := (e_ident header)[i := b]\<rparr>)) \<and>
      (\<forall>c. c \<noteq> ELFCLASS64 \<longrightarrow>
         header_invalid (header\<lparr>e_ident := (e_ident header)[EI_CLASS := c]\<rparr>)) \<and>
      (\<forall>d. d \<noteq> ELFDATA2LSB \<longrightarrow>
         header_invalid (header\<lparr>e_ident := (e_ident header)[EI_DATA := d]\<rparr>)) \<and>
      (\<forall>t. t \<noteq> ET_EXEC \<longrightarrow> header_invalid (header\<lparr>e_type := t\<rparr>)) \<and>
      (\<forall>m. m \<noteq> EM_X86_64 \<longrightarrow> header_invalid (header\<lparr>e_machine := m\<rparr>)) \<and>
      (\<forall>v. v \<noteq> EV_CURRENT \<longrightarrow> header_invalid (header\<lparr>e_version := v\<rparr>))"
  proof (intro impI)
    assume a: "\<not> header_invalid header \<and> length (e_ident header) = 16"
    then have ok: "\<not> header_invalid header" and len: "length (e_ident header) = 16"
      by simp_all
    have magic: "header_invalid (header\<lparr>e_ident := (e_ident header)[i := b]\<rparr>)"
      if "i < 4" and "b \<noteq> e_ident header ! i" for i b
    proof -
      from that(1) have "i = 0 \<or> i = 1 \<or> i = 2 \<or> i = 3" by auto
      then show ?thesis
        using ok len that(2) by (auto simp: header_invalid_iff)
    qed
    show "(\<forall>i b. i < 4 \<and> b \<noteq> e_ident header ! i \<longrightarrow>
         header_invalid (header\<lparr>e_ident := (e_ident header)[i := b]\<rparr>)) \<and>
      (\<forall>c. c \<noteq> ELFCLASS64 \<longrightarrow>
         header_invalid (header\<lparr>e_ident := (e_ident header)[EI_CLASS := c]\<rparr>)) \<and>
      (\<forall>d. d \<noteq> ELFDATA2LSB \<longrightarrow>
         header_invalid (header\<lparr>e_ident := (e_ident header)[EI_DATA := d]\<rparr>)) \<and>
      (\<forall>t. t \<noteq> ET_EXEC \<longrightarrow> header_invalid (header\<lparr>e_type := t\<rparr>)) \<and>
      (\<forall>m. m \<noteq> EM_X86_64 \<longrightarrow> header_invalid (header\<lparr>e_machine := m\<rparr>)) \<and>
      (\<forall>v. v \<noteq> EV_CURRENT \<longrightarrow> header_invalid (header\<lparr>e_version := v\<rparr>))"
      using ok len magic
      by (simp add: header_invalid_iff EI_CLASS_def ELFCLASS64_def EI_DATA_def ELFDATA2LSB_def
          ET_EXEC_def EM_X86_64_def EV_CURRENT_def)
  qed
next
  show "header_invalid (fst (read_header k (Print ''Loading header structure...'' fw))) \<longrightarrow>
      fst (load_kernel k fw) = Returned EFI_LOAD_ERROR \<and>
      calls (snd (load_kernel k fw)) =
        calls (snd (read_header k (Print ''Loading header structure...'' fw))) @
        [CallPrint ''Verifying header...'', CallPrint ''Header is invalid!'']"
    using load_kernel_rejects [of k fw] by simp
qed

text \<open>The example header passes all six checks; each single change is rejected; a file
  that is not an ELF file gives \<open>EFI_LOAD_ERROR\<close>.\<close>

theorem header_validation_witness:
  "\<not> header_invalid (decode_Elf64_Ehdr demo_ehdr) \<and>
   checks_evaluated (decode_Elf64_Ehdr demo_ehdr) = 6 \<and>
   header_invalid ((decode_Elf64_Ehdr demo_ehdr)
      \<lparr>e_ident := (e_ident (decode_Elf64_Ehdr demo_ehdr))[2 := 0]\<rparr>) \<and>
   header_invalid ((decode_Elf64_Ehdr demo_ehdr)
      \<lparr>e_ident := (e_ident (decode_Elf64_Ehdr demo_ehdr))[EI_CLASS := 1]\<rparr>) \<and>
   header_invalid ((decode_Elf64_Ehdr demo_ehdr)
      \<lparr>e_ident := (e_ident (decode_Elf64_Ehdr demo_ehdr))[EI_DATA := 2]\<rparr>) \<and>
   header_invalid ((decode_Elf64_Ehdr demo_ehdr)\<lparr>e_type := 3\<rparr>) \<and>
   header_invalid ((decode_Elf64_Ehdr demo_ehdr)\<lparr>e_machine := 3\<rparr>) \<and>
   checks_evaluated ((decode_Elf64_Ehdr demo_ehdr)\<lparr>e_machine := 3\<rparr>) = 5 \<and>
   header_invalid ((decode_Elf64_Ehdr demo_ehdr)\<lparr>e_version := 0\<rparr>) \<and>
   fst (load_kernel 1 (snd (LoadFile None ''bad.psf'' (boot_fw demo_elf demo_font None grant_all))))
     = Returned EFI_LOAD_ERROR"
proof -
  let ?H = "decode_Elf64_Ehdr demo_ehdr"
  let ?S = "snd (LoadFile None ''bad.psf'' (boot_fw demo_elf demo_font None grant_all))"
  let ?P = "Print ''Loading header structure...'' ?S"
  have ok: "\<not> header_invalid ?H" and len: "length (e_ident ?H) = 16"
    using header_validation [of ?H 0 "boot_fw demo_elf demo_font None grant_all"]
    by (simp_all add: demo_ehdr_decoded EI_CLASS_def ELFCLASS64_def EI_DATA_def ELFDATA2LSB_def
        ET_EXEC_def EM_X86_64_def EV_CURRENT_def)
  have ne: "(0 :: byte) \<noteq> e_ident ?H ! 2" "(1 :: byte) \<noteq> ELFCLASS64" "(2 :: byte) \<noteq> ELFDATA2LSB"
    "(3 :: 16 word) \<noteq> ET_EXEC" "(3 :: 16 word) \<noteq> EM_X86_64" "(0 :: 32 word) \<noteq> EV_CURRENT"
    by (simp_all add: demo_ehdr_decoded ELFCLASS64_def ELFDATA2LSB_def ET_EXEC_def EM_X86_64_def
        EV_CURRENT_def)
  have pos: "file_pos ?P 1 = 0"
    by (simp add: Print_frame LoadFile_None_eq boot_fw_simps boot_volume_simps file_pos_def)
  have bytes: "file_bytes ?P 1 = bad_font"
    by (simp add: Print_frame LoadFile_None_eq boot_fw_simps boot_volume_simps file_bytes_def
        handle_path_def)
  have "fst (read_header 1 ?P) = decode_Elf64_Ehdr (take 64 bad_font)"
    using read_header_value [of ?P 1] pos bytes by (simp add: bad_font_def)
  moreover have "e_ident (decode_Elf64_Ehdr (take 64 bad_font)) ! 0 \<noteq> ELFMAG ! 0"
    by (simp add: decode_Elf64_Ehdr_def bad_font_def ELFMAG_def)
  ultimately have bad: "header_invalid (fst (read_header 1 ?P))"
    using header_validation [of "decode_Elf64_Ehdr (take 64 bad_font)" 0
        "boot_fw demo_elf demo_font None grant_all", THEN conjunct2, THEN conjunct2,
        THEN conjunct1, rule_format, of 0]
    by simp
  have six: "checks_evaluated ?H = 6"
    using header_validation [of ?H 0 "boot_fw demo_elf demo_font None grant_all"] ok
    by (simp add: demo_ehdr_decoded EI_CLASS_def ELFCLASS64_def EI_DATA_def ELFDATA2LSB_def
        ET_EXEC_def EM_X86_64_def EV_CURRENT_def)
  have five: "checks_evaluated (?H\<lparr>e_machine := 3\<rparr>) = 5"
    using header_validation [of "?H\<lparr>e_machine := 3\<rparr>" 0 "boot_fw demo_elf demo_font None grant_all"]
    by (simp add: demo_ehdr_decoded EI_CLASS_def ELFCLASS64_def EI_DATA_def ELFDATA2LSB_def
        ET_EXEC_def EM_X86_64_def EV_CURRENT_def)
  note hv = header_validation [of ?H 1 ?S, THEN conjunct2, THEN conjunct2, THEN conjunct2]
  note iso0 = hv [THEN conjunct1, THEN mp, OF conjI [OF ok len]]
  have iso: "header_invalid (?H\<lparr>e_ident := (e_ident ?H)[2 := 0]\<rparr>)"
    "header_invalid (?H\<lparr>e_ident := (e_ident ?H)[EI_CLASS := 1]\<rparr>)"
    "header_invalid (?H\<lparr>e_ident := (e_ident ?H)[EI_DATA := 2]\<rparr>)"
    "header_invalid (?H\<lparr>e_type := 3\<rparr>)"
    "header_invalid (?H\<lparr>e_machine := 3\<rparr>)"
    "header_invalid (?H\<lparr>e_version := 0\<rparr>)"
    using iso0 [THEN conjunct1, rule_format, of 2 0] ne(1)
      iso0 [THEN conjunct2, THEN conjunct1, rule_format, OF ne(2)]
      iso0 [THEN conjunct2, THEN conjunct2, THEN conjunct1, rule_format, OF ne(3)]
      iso0 [THEN conjunct2, THEN conjunct2, THEN conjunct2, THEN conjunct1, rule_format, OF ne(4)]
      iso0 [THEN conjunct2, THEN conjunct2, THEN conjunct2, THEN conjunct2, THEN conjunct1,
            rule_format, OF ne(5)]
      iso0 [THEN conjunct2, THEN conjunct2, THEN conjunct2, THEN conjunct2, THEN conjunct2,
            rule_format, OF ne(6)]
    by simp_all
  have rej: "fst (load_kernel 1 ?S) = Returned EFI_LOAD_ERROR"
    using hv [THEN conjunct2, THEN mp, OF bad] by simp
  show ?thesis
    using ok six five iso rej by simp
qed

subsection \<open>C9: the extent recorded in the handoff\<close>

text \<open>
  C9, as amended. Whenever \<open>efi_main\<close> transfers control, the handoff record's
  \<open>kernelStart\<close> is the pointer of the run's second pool allocation, the buffer of the
  program-header table (the first is the file-information buffer), and \<open>kernelEnd\<close> is
  \<open>kernelStart\<close> advanced by \<open>kernelSize\<close> structures of 56 bytes. So
  \<open>kernelEnd - kernelStart\<close> is \<open>56 * kernelSize\<close>, and it differs from \<open>kernelSize\<close>
  exactly when \<open>kernelSize\<close> is not 0.
\<close>

theorem handoff_extent:
  assumes "fst (efi_main fw) = Transferred e kd"
  shows "kernelStart kd = pool_at fw (Suc (pool_calls fw)) \<and>
         kernelEnd kd = kernelStart kd + kernelSize kd * of_nat sizeof_Elf64_Phdr \<and>
         (kernelEnd kd - kernelStart kd = kernelSize kd \<longleftrightarrow> kernelSize kd = 0)"
proof -
  have a: "kernelStart kd = pool_at fw (Suc (pool_calls fw))"
    and b: "kernelEnd kd = kernelStart kd + kernelSize kd * of_nat sizeof_Elf64_Phdr"
    using efi_main_Transferred [OF assms] by simp_all
  have "kernelEnd kd - kernelStart kd = kernelSize kd * 56"
    by (simp add: b sizeof_Elf64_Phdr_def)
  then have "kernelEnd kd - kernelStart kd = kernelSize kd \<longleftrightarrow> kernelSize kd = 0"
    by (simp only: times_56_eq_self)
  with a b show ?thesis by simp
qed

text \<open>The claim as stated fails for an executable without program headers, which the
  loader accepts: \<open>kernelSize\<close> is 0 and the end equals the start.\<close>

theorem handoff_extent_empty_table:
  "fst (efi_main (boot_fw bare_elf demo_font (Some demo_gop) grant_all)) =
     Transferred 0x100000
       \<lparr>framebuffer = \<lparr>base = 0x80000000, fb_size = 0x300000, width = 1024, height = 768,
                        pps = 1024\<rparr>,
        font = \<lparr>psf1_Header = 0x6000, glyphBuffer = 0x7000\<rparr>,
        kernelSize = 0, kernelStart = 0x5000, kernelEnd = 0x5000\<rparr> \<and>
   (0x5000 :: addr) - 0x5000 = 0"
proof -
  let ?F = "boot_fw bare_elf demo_font (Some demo_gop) grant_all"
  have "fst (efi_main ?F) = (case gop ?F of None \<Rightarrow> Returned 1 | Some m \<Rightarrow>
          Transferred (e_entry (decode_Elf64_Ehdr (take 64 bare_elf)))
                  (make_KernelData
                     \<lparr>base = FrameBufferBase m, fb_size = FrameBufferSize m,
                      width = HorizontalResolution m, height = VerticalResolution m,
                      pps = PixelsPerScanLine m\<rparr>
                     \<lparr>psf1_Header = pool_at ?F (Suc (Suc (pool_calls ?F))),
                      glyphBuffer = pool_at ?F (Suc (Suc (Suc (pool_calls ?F))))\<rparr>
                     (of_nat (length (take
                        (unat (scast (phdr_table_bytes (decode_Elf64_Ehdr (take 64 bare_elf))) :: 64 word))
                        (drop (if e_phoff (decode_Elf64_Ehdr (take 64 bare_elf)) = - 1
                               then length bare_elf
                               else unat (e_phoff (decode_Elf64_Ehdr (take 64 bare_elf))))
                           bare_elf))))
                     (pool_at ?F (Suc (pool_calls ?F)))))"
    by (rule efi_main_outcome [where fnt = demo_font])
       (simp_all add: boot_fw_simps boot_volume_simps bare_elf_header bare_header_valid demo_font_def)
  then show ?thesis
    by (simp add: boot_fw_simps bare_elf_header bare_elf_decoded phdr_table_bytes_def
        make_KernelData_def demo_gop_def sizeof_Elf64_Phdr_def)
qed

text \<open>The amended statement on the example executable: 112 bytes of table, an end
  \<open>112 * 56\<close> bytes after the start.\<close>

theorem handoff_extent_witness:
  "fst (efi_main (boot_fw demo_elf demo_font (Some demo_gop) grant_all)) =
     Transferred 0x100000
       \<lparr>framebuffer = \<lparr>base = 0x80000000, fb_size = 0x300000, width = 1024, height = 768,
                        pps = 1024\<rparr>,
        font = \<lparr>psf1_Header = 0x6000, glyphBuffer = 0x7000\<rparr>,
        kernelSize = 112, kernelStart = 0x5000, kernelEnd = 0x6880\<rparr> \<and>
   (0x5000 :: addr) = pool_at (boot_fw demo_elf demo_font (Some demo_gop) grant_all)
                        (Suc (pool_calls (boot_fw demo_elf demo_font (Some demo_gop) grant_all))) \<and>
   (0x6880 :: addr) = 0x5000 + 112 * of_nat sizeof_Elf64_Phdr \<and>
   (0x6880 :: addr) - 0x5000 \<noteq> 112"
  using handoff_extent [OF demo_run [of grant_all]] demo_run [of grant_all]
  by simp

subsection \<open>C4: a page allocation that fails\<close>

text \<open>
  C4, as amended. When the firmware refuses the pages of a loadable segment, the loop body
  still makes the same three calls: the one \<open>AllocatePages\<close> request at \<open>p_paddr\<close> (it is
  not repeated, at that address or another), the seek, and the read of the segment's bytes
  to \<open>p_paddr\<close>, which are written to memory; the loop then goes on with the next entry.
  The loader never looks at the status: whatever the firmware answers to the page
  requests, a run of \<open>efi_main\<close> ends with the same outcome, the same memory and the same
  open files.
\<close>

theorem allocation_failure_ignored:
  "(p_type (read_Elf64_Phdr fw p) = PT_LOAD \<and> k < length (opened fw) \<and>
    pages_grant fw AllocateAddress (p_paddr (read_Elf64_Phdr fw p))
      (page_count (p_memsz (read_Elf64_Phdr fw p))) = None \<longrightarrow>
      calls (load_segment k p fw) =
        calls fw @
        [CallAllocatePages AllocateAddress EfiLoaderData
           (page_count (p_memsz (read_Elf64_Phdr fw p))) (p_paddr (read_Elf64_Phdr fw p))
           EFI_OUT_OF_RESOURCES,
         CallSetPosition k (p_offset (read_Elf64_Phdr fw p)),
         CallRead k (p_filesz (read_Elf64_Phdr fw p)) (p_paddr (read_Elf64_Phdr fw p))] \<and>
      mem (load_segment k p fw) =
        store_bytes (mem fw) (p_paddr (read_Elf64_Phdr fw p))
          (take (unat (p_filesz (read_Elf64_Phdr fw p)))
             (drop (if p_offset (read_Elf64_Phdr fw p) = - 1 then length (file_bytes fw k)
                    else unat (p_offset (read_Elf64_Phdr fw p)))
                (file_bytes fw k)))) \<and>
   (phdrs + of_nat (i * unat (e_phentsize header)) < phdrs + scast (phdr_table_bytes header) \<longrightarrow>
      map_segments header phdrs k i fw =
        map_segments header phdrs k (Suc i)
          (load_segment k (phdrs + of_nat (i * unat (e_phentsize header))) fw)) \<and>
   fst (efi_main (fw0\<lparr>pages_grant := g\<rparr>)) = fst (efi_main fw0) \<and>
   mem (snd (efi_main (fw0\<lparr>pages_grant := g\<rparr>))) = mem (snd (efi_main fw0)) \<and>
   opened (snd (efi_main (fw0\<lparr>pages_grant := g\<rparr>))) = opened (snd (efi_main fw0))"
proof (intro conjI impI)
  assume a: "p_type (read_Elf64_Phdr fw p) = PT_LOAD \<and> k < length (opened fw) \<and>
    pages_grant fw AllocateAddress (p_paddr (read_Elf64_Phdr fw p))
      (page_count (p_memsz (read_Elf64_Phdr fw p))) = None"
  then show "calls (load_segment k p fw) =
        calls fw @
        [CallAllocatePages AllocateAddress EfiLoaderData
           (page_count (p_memsz (read_Elf64_Phdr fw p))) (p_paddr (read_Elf64_Phdr fw p))
           EFI_OUT_OF_RESOURCES,
         CallSetPosition k (p_offset (read_Elf64_Phdr fw p)),
         CallRead k (p_filesz (read_Elf64_Phdr fw p)) (p_paddr (read_Elf64_Phdr fw p))]"
    using load_segment_calls [of fw p k] by simp
  from a show "mem (load_segment k p fw) =
        store_bytes (mem fw) (p_paddr (read_Elf64_Phdr fw p))
          (take (unat (p_filesz (read_Elf64_Phdr fw p)))
             (drop (if p_offset (read_Elf64_Phdr fw p) = - 1 then length (file_bytes fw k)
                    else unat (p_offset (read_Elf64_Phdr fw p)))
                (file_bytes fw k)))"
    using load_segment_PT_LOAD(1) [of fw p k] by simp
next
  assume "phdrs + of_nat (i * unat (e_phentsize header)) < phdrs + scast (phdr_table_bytes header)"
  then show "map_segments header phdrs k i fw =
        map_segments header phdrs k (Suc i)
          (load_segment k (phdrs + of_nat (i * unat (e_phentsize header))) fw)"
    by (subst map_segments.simps) (simp only: if_True)
next
  show "fst (efi_main (fw0\<lparr>pages_grant := g\<rparr>)) = fst (efi_main fw0)"
    "mem (snd (efi_main (fw0\<lparr>pages_grant := g\<rparr>))) = mem (snd (efi_main fw0))"
    "opened (snd (efi_main (fw0\<lparr>pages_grant := g\<rparr>))) = opened (snd (efi_main fw0))"
    using efi_main_ignores_grants [where fw = fw0 and g = g] by simp_all
qed

text \<open>The claim as stated fails: with a firmware that refuses every page request, the
  bytes of the example segment are read to \<open>0x100000\<close> after the failed allocation, and
  the run of \<open>efi_main\<close> goes on to the transfer of control.\<close>

theorem allocation_failure_not_fatal:
  "calls (load_segment 0 0x5000 (loop_fw (demo_phdr0 @ demo_phdr1) grant_none)) =
     [CallAllocatePages AllocateAddress EfiLoaderData 1 0x100000 EFI_OUT_OF_RESOURCES,
      CallSetPosition 0 176, CallRead 0 2 0x100000] \<and>
   mem (load_segment 0 0x5000 (loop_fw (demo_phdr0 @ demo_phdr1) grant_none)) 0x100000 = 0x90 \<and>
   fst (efi_main (boot_fw demo_elf demo_font (Some demo_gop) grant_none)) =
     Transferred 0x100000
       \<lparr>framebuffer = \<lparr>base = 0x80000000, fb_size = 0x300000, width = 1024, height = 768,
                        pps = 1024\<rparr>,
        font = \<lparr>psf1_Header = 0x6000, glyphBuffer = 0x7000\<rparr>,
        kernelSize = 112, kernelStart = 0x5000, kernelEnd = 0x6880\<rparr>"
proof -
  let ?S = "loop_fw (demo_phdr0 @ demo_phdr1) grant_none"
  have t: "p_type (read_Elf64_Phdr ?S 0x5000) = PT_LOAD"
    by (simp add: loop_entry0 demo_phdr0_decoded PT_LOAD_def)
  have c: "calls (load_segment 0 0x5000 ?S) =
     [CallAllocatePages AllocateAddress EfiLoaderData 1 0x100000 EFI_OUT_OF_RESOURCES,
      CallSetPosition 0 176, CallRead 0 2 0x100000]"
    using load_segment_calls [OF t, of 0]
    by (simp add: loop_entry0 demo_phdr0_decoded loop_fw_simps page_count_4 grant_none_def)
  have "mem (load_segment 0 0x5000 ?S) = store_bytes (mem ?S) 0x100000 [0x90, 0xC3]"
    using load_segment_PT_LOAD(1) [OF t, of 0]
    by (simp add: loop_entry0 demo_phdr0_decoded loop_fw_simps loop_fw_file demo_elf_payload)
  then have m: "mem (load_segment 0 0x5000 ?S) 0x100000 = 0x90"
    by simp
  show ?thesis
    using c m demo_run [of grant_none] by simp
qed

text \<open>The amended statement on the same states.\<close>

theorem allocation_failure_ignored_witness:
  "calls (load_segment 0 0x5000 (loop_fw (demo_phdr0 @ demo_phdr1) grant_none)) =
     [CallAllocatePages AllocateAddress EfiLoaderData 1 0x100000 EFI_OUT_OF_RESOURCES,
      CallSetPosition 0 176, CallRead 0 2 0x100000] \<and>
   mem (load_segment 0 0x5000 (loop_fw (demo_phdr0 @ demo_phdr1) grant_none)) =
     store_bytes (mem (loop_fw (demo_phdr0 @ demo_phdr1) grant_none)) 0x100000 [0x90, 0xC3] \<and>
   map_segments (decode_Elf64_Ehdr demo_ehdr) 0x5000 0 0 (loop_fw (demo_phdr0 @ demo_phdr1) grant_none) =
     map_segments (decode_Elf64_Ehdr demo_ehdr) 0x5000 0 1
       (load_segment 0 0x5000 (loop_fw (demo_phdr0 @ demo_phdr1) grant_none)) \<and>
   fst (efi_main ((boot_fw demo_elf demo_font (Some demo_gop) grant_all)\<lparr>pages_grant := grant_none\<rparr>)) =
     fst (efi_main (boot_fw demo_elf demo_font (Some demo_gop) grant_all))"
proof -
  let ?S = "loop_fw (demo_phdr0 @ demo_phdr1) grant_none"
  let ?H = "decode_Elf64_Ehdr demo_ehdr"
  have h: "p_type (read_Elf64_Phdr ?S 0x5000) = PT_LOAD \<and> 0 < length (opened ?S) \<and>
    pages_grant ?S AllocateAddress (p_paddr (read_Elf64_Phdr ?S 0x5000))
      (page_count (p_memsz (read_Elf64_Phdr ?S 0x5000))) = None"
    by (simp add: loop_entry0 demo_phdr0_decoded PT_LOAD_def loop_fw_simps grant_none_def)
  have c: "(0x5000 :: 64 word) + of_nat (0 * unat (e_phentsize ?H)) < 0x5000 + scast (phdr_table_bytes ?H)"
    by (simp add: demo_ehdr_decoded phdr_table_bytes_def)
  note t = allocation_failure_ignored [where fw = ?S and p = "0x5000" and k = 0 and i = 0
      and header = ?H and phdrs = "0x5000"
      and ?fw0.0 = "boot_fw demo_elf demo_font (Some demo_gop) grant_all" and g = grant_none]
  show ?thesis
    using t [THEN conjunct1, THEN mp, OF h] t [THEN conjunct2, THEN conjunct1, THEN mp, OF c]
      t [THEN conjunct2, THEN conjunct2, THEN conjunct1]
    by (simp add: loop_entry0 demo_phdr0_decoded loop_fw_simps page_count_4 loop_fw_file
        demo_elf_payload demo_ehdr_decoded)
qed

subsection \<open>C3: the size of the glyph buffer\<close>

text \<open>
  C3. The claim holds of the code when the mode byte is 0 or 1, and fails for every other
  mode byte with bit 0 set: line 123 compares the whole byte with 1. For a font header
  with mode 3 (bit 0 set) and 16 bytes per glyph the loader computes \<open>16 * 256\<close>, not
  \<open>16 * 512\<close>, and allocates and reads that many bytes.
\<close>

theorem glyph_size_mode_3:
  "magic (decode_PSF1_HEADER tab_font) = [PSF1_MAGIC0, PSF1_MAGIC1] \<and>
   bit (mode (decode_PSF1_HEADER tab_font)) 0 \<and>
   charsize (decode_PSF1_HEADER tab_font) = 16 \<and>
   glyphBufferSize (decode_PSF1_HEADER tab_font) = 16 * 256 \<and>
   glyphBufferSize (decode_PSF1_HEADER tab_font) \<noteq> 16 * 512"
  by (simp add: decode_PSF1_HEADER_def tab_font_def glyphBufferSize_def PSF1_MAGIC0_def
      PSF1_MAGIC1_def)

text \<open>The same font loaded from the example volume: the log shows the allocation and the
  read of 4096 bytes of glyphs.\<close>

lemma LoadPSF1Font_mode_3_calls:
  "calls (snd (LoadPSF1Font (Some 1) ''main.psf''
                 (snd (LoadFile None ''files'' (boot_fw demo_elf tab_font None grant_all))))) =
     [CallHandleProtocol ''gEfiLoadedImageProtocolGuid'',
      CallHandleProtocol ''gEfiSimpleFileSystemProtocolGuid'',
      CallOpenVolume,
      CallOpen 0 ''files'' EFI_FILE_MODE_READ EFI_FILE_READ_ONLY EFI_SUCCESS,
      CallHandleProtocol ''gEfiLoadedImageProtocolGuid'',
      CallHandleProtocol ''gEfiSimpleFileSystemProtocolGuid'',
      CallOpen 1 ''main.psf'' EFI_FILE_MODE_READ EFI_FILE_READ_ONLY EFI_SUCCESS,
      CallAllocatePool EfiLoaderData sizeof_PSF1_HEADER,
      CallRead 2 sizeof_PSF1_HEADER 0x4000,
      CallSetPosition 2 sizeof_PSF1_HEADER,
      CallAllocatePool EfiLoaderData 4096,
      CallRead 2 4096 0x5000,
      CallAllocatePool EfiLoaderData sizeof_PSF1_FONT]"
proof -
  let ?G = "snd (LoadFile None ''files'' (boot_fw demo_elf tab_font None grant_all))"
  let ?G1 = "snd (LoadFile (Some 1) ''main.psf'' ?G)"
  have d: "decode_PSF1_HEADER tab_font = \<lparr>magic = [0x36, 0x04], mode = 3, charsize = 16\<rparr>"
    by (simp add: decode_PSF1_HEADER_def tab_font_def)
  have sz: "glyphBufferSize (decode_PSF1_HEADER tab_font) = 4096"
    by (simp add: d glyphBufferSize_def)
  have open2: "LoadFile (Some 1) ''main.psf'' ?G = (Some 2, ?G1)"
    by (simp add: LoadFile_None_eq LoadFile_Some_eq boot_fw_simps boot_volume_simps handle_path_def)
  have bytes2: "file_bytes ?G1 2 = tab_font"
    by (simp add: LoadFile_None_eq LoadFile_Some_eq boot_fw_simps boot_volume_simps file_bytes_def
        handle_path_def)
  have g: "4 \<le> length (file_bytes ?G1 2)" "file_bytes ?G1 2 ! 0 = 0x36" "file_bytes ?G1 2 ! 1 = 0x04"
    using bytes2 by (simp_all add: tab_font_def)
  have G1: "calls ?G1 =
     [CallHandleProtocol ''gEfiLoadedImageProtocolGuid'',
      CallHandleProtocol ''gEfiSimpleFileSystemProtocolGuid'',
      CallOpenVolume,
      CallOpen 0 ''files'' EFI_FILE_MODE_READ EFI_FILE_READ_ONLY EFI_SUCCESS,
      CallHandleProtocol ''gEfiLoadedImageProtocolGuid'',
      CallHandleProtocol ''gEfiSimpleFileSystemProtocolGuid'',
      CallOpen 1 ''main.psf'' EFI_FILE_MODE_READ EFI_FILE_READ_ONLY EFI_SUCCESS]"
    "pool_at ?G1 (pool_calls ?G1) = 0x4000" "pool_at ?G1 (Suc (pool_calls ?G1)) = 0x5000"
    by (simp_all add: LoadFile_None_eq LoadFile_Some_eq boot_fw_simps boot_volume_simps handle_path_def)
  have t4: "take 4 (file_bytes ?G1 2) = tab_font"
    using bytes2 by (simp add: tab_font_def)
  have "calls (snd (LoadPSF1Font (Some 1) ''main.psf'' ?G)) =
          calls ?G1 @
          [CallAllocatePool EfiLoaderData sizeof_PSF1_HEADER,
           CallRead 2 sizeof_PSF1_HEADER (pool_at ?G1 (pool_calls ?G1)),
           CallSetPosition 2 sizeof_PSF1_HEADER,
           CallAllocatePool EfiLoaderData (glyphBufferSize (decode_PSF1_HEADER tab_font)),
           CallRead 2 (glyphBufferSize (decode_PSF1_HEADER tab_font)) (pool_at ?G1 (Suc (pool_calls ?G1))),
           CallAllocatePool EfiLoaderData sizeof_PSF1_FONT]"
    using LoadPSF1Font_good_magic(2) [OF open2 g] by (simp only: t4)
  then show ?thesis
    using G1 sz by simp
qed

subsection \<open>C7: the status returned when no framebuffer is found\<close>

text \<open>
  C7. With the kernel and the font in place and no graphics output protocol, \<open>efi_main\<close>
  returns the status 1. That is not \<open>EFI_LOAD_ERROR\<close>, which the other failure paths
  return, and it is not an error status at all: its top bit is clear.
\<close>

theorem efi_main_without_framebuffer:
  "fst (efi_main (boot_fw demo_elf demo_font None grant_all)) = Returned 1 \<and>
   (1 :: EFI_STATUS) \<noteq> EFI_LOAD_ERROR \<and> \<not> EFI_ERROR 1"
proof -
  let ?F = "boot_fw demo_elf demo_font None grant_all"
  have "fst (efi_main ?F) = (case gop ?F of None \<Rightarrow> Returned 1 | Some m \<Rightarrow>
          Transferred (e_entry (decode_Elf64_Ehdr (take 64 demo_elf)))
                  (make_KernelData
                     \<lparr>base = FrameBufferBase m, fb_size = FrameBufferSize m,
                      width = HorizontalResolution m, height = VerticalResolution m,
                      pps = PixelsPerScanLine m\<rparr>
                     \<lparr>psf1_Header = pool_at ?F (Suc (Suc (pool_calls ?F))),
                      glyphBuffer = pool_at ?F (Suc (Suc (Suc (pool_calls ?F))))\<rparr>
                     (of_nat (length (take
                        (unat (scast (phdr_table_bytes (decode_Elf64_Ehdr (take 64 demo_elf))) :: 64 word))
                        (drop (if e_phoff (decode_Elf64_Ehdr (take 64 demo_elf)) = - 1
                               then length demo_elf
                               else unat (e_phoff (decode_Elf64_Ehdr (take 64 demo_elf))))
                           demo_elf))))
                     (pool_at ?F (Suc (pool_calls ?F)))))"
    by (rule efi_main_outcome [where fnt = demo_font])
       (simp_all add: boot_fw_simps boot_volume_simps demo_elf_header demo_header_valid demo_font_def)
  then show ?thesis
    by (simp add: boot_fw_simps EFI_LOAD_ERROR_def EFI_ERROR_def)
qed

end
